theory Spec2Isabelle
  imports Main "HOL-Library.Sublist"
begin

section \<open>Workspace provisioning and teardown (tools-iottwinmaker, lib/workspace.ts)\<close>

text \<open>
  The orchestration functions of \<^verbatim>\<open>workspace.ts\<close> are embedded as functions over an
  explicit history of observable events. Every remote call through the facade
  \<^verbatim>\<open>aws()\<close>, every \<^verbatim>\<open>console.log\<close> line and every \<^verbatim>\<open>delay\<close> appends one event.
  The remote services are a parameter: each facade operation is a function of the history
  so far and of the request that answers with an error or with a response, so a service
  may answer the same request differently as the run proceeds.

  Strings are lists of characters. What the code takes from outside this file (the built-in
  lower-casing of strings, the helpers and the policy documents it imports) is a parameter
  too.
\<close>

subsection \<open>JavaScript values\<close>

text \<open>A value of type \<^verbatim>\<open>string | undefined\<close> is a \<^typ>\<open>string option\<close>.\<close>

text \<open>\<^verbatim>\<open>!x\<close> on a \<^verbatim>\<open>string | undefined\<close>: undefined and the empty string are falsy.\<close>

definition falsy :: "string option \<Rightarrow> bool" where
  "falsy x = (case x of None \<Rightarrow> True | Some s \<Rightarrow> s = [])"

text \<open>A \<^verbatim>\<open>boolean | undefined\<close> used as a loop condition: only \<^verbatim>\<open>true\<close> is truthy.\<close>

definition truthy :: "bool option \<Rightarrow> bool" where
  "truthy b = (case b of None \<Rightarrow> False | Some v \<Rightarrow> v)"

text \<open>Interpolation \<^verbatim>\<open>${x}\<close> of a \<^verbatim>\<open>string | undefined\<close> inside a template literal.\<close>

definition tpl :: "string option \<Rightarrow> string" where
  "tpl x = (case x of None \<Rightarrow> ''undefined'' | Some s \<Rightarrow> s)"

text \<open>\<^verbatim>\<open>String.prototype.includes\<close>: the argument occurs as a contiguous substring.\<close>

fun str_includes :: "string \<Rightarrow> string \<Rightarrow> bool" where
  "str_includes [] sub = (sub = [])"
| "str_includes (c # cs) sub = (prefix sub (c # cs) \<or> str_includes cs sub)"

subsection \<open>Errors\<close>

text \<open>
  What a remote call or the code itself can throw. The three SDK exception classes the
  code tests with \<^verbatim>\<open>instanceof\<close> are kept apart; \<open>Error\<close> is a plain
  \<^verbatim>\<open>new Error(message)\<close>; \<open>OtherError name message\<close> is any other subclass of
  \<^verbatim>\<open>Error\<close>; \<open>NonError\<close> is a thrown value that is not an \<^verbatim>\<open>Error\<close> at all, given
  by its string form.
\<close>

datatype error =
    ValidationException string
  | ResourceNotFoundException string
  | NoSuchBucket string
  | Error string
  | OtherError string string
  | NonError string

fun instanceof_Error :: "error \<Rightarrow> bool" where
  "instanceof_Error (NonError v) = False"
| "instanceof_Error e = True"

fun instanceof_ValidationException :: "error \<Rightarrow> bool" where
  "instanceof_ValidationException (ValidationException m) = True"
| "instanceof_ValidationException e = False"

fun instanceof_ResourceNotFoundException :: "error \<Rightarrow> bool" where
  "instanceof_ResourceNotFoundException (ResourceNotFoundException m) = True"
| "instanceof_ResourceNotFoundException e = False"

fun instanceof_NoSuchBucket :: "error \<Rightarrow> bool" where
  "instanceof_NoSuchBucket (NoSuchBucket m) = True"
| "instanceof_NoSuchBucket e = False"

fun error_name :: "error \<Rightarrow> string" where
  "error_name (ValidationException m) = ''ValidationException''"
| "error_name (ResourceNotFoundException m) = ''ResourceNotFoundException''"
| "error_name (NoSuchBucket m) = ''NoSuchBucket''"
| "error_name (Error m) = ''Error''"
| "error_name (OtherError n m) = n"
| "error_name (NonError v) = []"

fun message :: "error \<Rightarrow> string option" where
  "message (ValidationException m) = Some m"
| "message (ResourceNotFoundException m) = Some m"
| "message (NoSuchBucket m) = Some m"
| "message (Error m) = Some m"
| "message (OtherError n m) = Some m"
| "message (NonError v) = None"

text \<open>\<^verbatim>\<open>e.message.includes(s)\<close>, which the code only evaluates behind an \<^verbatim>\<open>instanceof\<close> test.\<close>

definition message_includes :: "error \<Rightarrow> string \<Rightarrow> bool" where
  "message_includes e s = (case message e of None \<Rightarrow> False | Some m \<Rightarrow> str_includes m s)"

text \<open>
  Interpolation \<^verbatim>\<open>${e}\<close> of a caught value: \<^verbatim>\<open>Error.prototype.toString\<close> gives the
  name, the message, or \<^verbatim>\<open>name: message\<close> when both are non-empty.
\<close>

fun error_toString :: "error \<Rightarrow> string" where
  "error_toString (NonError v) = v"
| "error_toString e =
     (let n = error_name e; m = tpl (message e)
      in if n = [] then m else if m = [] then n else n @ '': '' @ m)"

subsection \<open>Events and outcomes\<close>

text \<open>Response shapes of the listing operations (every field may be absent).\<close>

record s3_object =
  obj_Key :: "string option"

record object_version =
  ver_Key :: "string option"
  ver_VersionId :: "string option"

record listObjectsV2_output =
  lo_IsTruncated :: "bool option"
  lo_NextContinuationToken :: "string option"
  lo_Contents :: "s3_object list option"

record listObjectVersions_output =
  lv_IsTruncated :: "bool option"
  lv_NextVersionIdMarker :: "string option"
  lv_NextKeyMarker :: "string option"
  lv_Versions :: "object_version list option"
  lv_DeleteMarkers :: "object_version list option"

record instance_profile =
  InstanceProfileName :: "string option"

record attached_policy =
  PolicyName :: "string option"
  PolicyArn :: "string option"

record getWorkspace_output =
  gw_workspaceId :: "string option"
  gw_arn :: "string option"

text \<open>
  One event per observable action, with the request fields that vary. The two listing
  events also record what the service answered, so that a history shows which entries
  were listed.
\<close>

datatype event =
    Log string
  | Delay nat
  | GetCurrentIdentity
  | CreateRole string string string string
  | CreatePolicy string string string
  | AttachRolePolicy string string
  | ListInstanceProfilesForRole "string option"
  | RemoveRoleFromInstanceProfile "string option" "string option"
  | ListRolePolicies "string option"
  | DeleteRolePolicy "string option" string
  | ListAttachedRolePolicies "string option"
  | DetachRolePolicy "string option" "string option"
  | DeletePolicy "string option"
  | DeleteRole "string option"
  | CreateBucket string "string option"
  | PutBucketVersioning string
  | PutBucketPolicy string
  | PutPublicAccessBlock string
  | PutBucketEncryption string
  | PutBucketCors string
  | PutBucketAcl string
  | PutBucketLogging string string
  | GetBucketLogging "string option"
  | ListObjectsV2 "string option" "string option" "error + listObjectsV2_output"
  | ListObjectVersions "string option" "string option" "string option"
      "error + listObjectVersions_output"
  | DeleteObject "string option" "string option" "string option"
  | DeleteBucket "string option"
  | CreateWorkspace string string string
  | GetWorkspace string
  | DeleteWorkspace string

type_synonym history = "event list"

text \<open>
  How an awaited computation ends: it returns a value, it throws, or (only for the
  pagination loops, which the service can keep going for ever) it is still running when
  the page budget of the model is used up.
\<close>

datatype 'a outcome = Returned 'a | Thrown error | Running

type_synonym 'a io = "history \<Rightarrow> 'a outcome \<times> history"

definition return_io :: "'a \<Rightarrow> 'a io" where
  "return_io x h = (Returned x, h)"

definition throw :: "error \<Rightarrow> 'a io" where
  "throw e h = (Thrown e, h)"

definition console_log :: "string \<Rightarrow> unit io" where
  "console_log s h = (Returned (), h @ [Log s])"

text \<open>\<^verbatim>\<open>await delay(ms)\<close> from \<^verbatim>\<open>./utils\<close>: the run is suspended for that long.\<close>

definition delay :: "nat \<Rightarrow> unit io" where
  "delay ms h = (Returned (), h @ [Delay ms])"

text \<open>Sequencing of awaited steps: a throw or an unfinished loop ends the sequence.\<close>

definition bind_io :: "'a io \<Rightarrow> ('a \<Rightarrow> 'b io) \<Rightarrow> 'b io" where
  "bind_io m f h =
     (case m h of
        (Returned x, h') \<Rightarrow> f x h'
      | (Thrown e, h') \<Rightarrow> (Thrown e, h')
      | (Running, h') \<Rightarrow> (Running, h'))"

text \<open>\<^verbatim>\<open>try { m } catch (e) { handler(e) }\<close>.\<close>

definition try_catch :: "'a io \<Rightarrow> (error \<Rightarrow> 'a io) \<Rightarrow> 'a io" where
  "try_catch m handler h =
     (case m h of
        (Thrown e, h') \<Rightarrow> handler e h'
      | r \<Rightarrow> r)"

text \<open>
  An awaited facade call: the service answers from the history before the call, and the
  call is appended to the history whether it succeeds or not.
\<close>

definition call :: "(history \<Rightarrow> error + 'a) \<Rightarrow> ((error + 'a) \<Rightarrow> event) \<Rightarrow> 'a io" where
  "call service ev h =
     (let r = service h
      in (case r of Inl e \<Rightarrow> Thrown e | Inr x \<Rightarrow> Returned x, h @ [ev r]))"

subsection \<open>The facade \<^verbatim>\<open>aws()\<close>\<close>

record iam_client =
  iam_createRole :: "history \<Rightarrow> string \<Rightarrow> string \<Rightarrow> string \<Rightarrow> string \<Rightarrow> error + string option option"
  iam_createPolicy :: "history \<Rightarrow> string \<Rightarrow> string \<Rightarrow> string \<Rightarrow> error + string option option"
  iam_attachRolePolicy :: "history \<Rightarrow> string \<Rightarrow> string \<Rightarrow> error + unit"
  iam_listInstanceProfilesForRole :: "history \<Rightarrow> string option \<Rightarrow> error + instance_profile list option"
  iam_removeRoleFromInstanceProfile :: "history \<Rightarrow> string option \<Rightarrow> string option \<Rightarrow> error + unit"
  iam_listRolePolicies :: "history \<Rightarrow> string option \<Rightarrow> error + string list option"
  iam_deleteRolePolicy :: "history \<Rightarrow> string option \<Rightarrow> string \<Rightarrow> error + unit"
  iam_listAttachedRolePolicies :: "history \<Rightarrow> string option \<Rightarrow> error + attached_policy list option"
  iam_detachRolePolicy :: "history \<Rightarrow> string option \<Rightarrow> string option \<Rightarrow> error + unit"
  iam_deletePolicy :: "history \<Rightarrow> string option \<Rightarrow> error + unit"
  iam_deleteRole :: "history \<Rightarrow> string option \<Rightarrow> error + unit"

record s3_client =
  s3_createBucket :: "history \<Rightarrow> string \<Rightarrow> string option \<Rightarrow> error + string option"
  s3_putBucketVersioning :: "history \<Rightarrow> string \<Rightarrow> error + unit"
  s3_putBucketPolicy :: "history \<Rightarrow> string \<Rightarrow> error + unit"
  s3_putPublicAccessBlock :: "history \<Rightarrow> string \<Rightarrow> error + unit"
  s3_putBucketEncryption :: "history \<Rightarrow> string \<Rightarrow> error + unit"
  s3_putBucketCors :: "history \<Rightarrow> string \<Rightarrow> error + unit"
  s3_putBucketAcl :: "history \<Rightarrow> string \<Rightarrow> error + unit"
  s3_putBucketLogging :: "history \<Rightarrow> string \<Rightarrow> string \<Rightarrow> error + unit"
  s3_getBucketLogging :: "history \<Rightarrow> string option \<Rightarrow> error + string option option"
  s3_listObjectsV2 :: "history \<Rightarrow> string option \<Rightarrow> string option \<Rightarrow> error + listObjectsV2_output"
  s3_listObjectVersions :: "history \<Rightarrow> string option \<Rightarrow> string option \<Rightarrow> string option \<Rightarrow> error + listObjectVersions_output"
  s3_deleteObject :: "history \<Rightarrow> string option \<Rightarrow> string option \<Rightarrow> string option \<Rightarrow> error + unit"
  s3_deleteBucket :: "history \<Rightarrow> string option \<Rightarrow> error + unit"

record tm_client =
  tm_createWorkspace :: "history \<Rightarrow> string \<Rightarrow> string \<Rightarrow> string \<Rightarrow> error + string option"
  tm_getWorkspace :: "history \<Rightarrow> string \<Rightarrow> error + getWorkspace_output"
  tm_deleteWorkspace :: "history \<Rightarrow> string \<Rightarrow> error + unit"

record aws_clients =
  iam :: iam_client
  s3 :: s3_client
  tm :: tm_client
  aws_region :: string
  getCurrentIdentity :: "history \<Rightarrow> error + string \<times> string"

text \<open>
  What \<^verbatim>\<open>workspace.ts\<close> takes from outside: the built-in
  \<^verbatim>\<open>String.prototype.toLowerCase\<close> of the language, the two helpers of \<^verbatim>\<open>./utils\<close> and
  the four policy documents, each already passed through \<^verbatim>\<open>JSON.stringify\<close>. They are
  parameters of the model: nothing is assumed about them but that they are functions of
  their arguments. The parameter record of \<^verbatim>\<open>replaceTemplateVars\<close> is an association
  list in insertion order.
\<close>

record lib =
  toLowerCase :: "string \<Rightarrow> string"
  regionToAirportCode :: "string \<Rightarrow> string"
  replaceTemplateVars :: "string \<Rightarrow> (string \<times> string) list \<Rightarrow> string"
  WORKSPACE_ROLE_ASSUME_POLICY :: string
  WORKSPACE_DASHBOARD_ROLE_ASSUME_POLICY :: string
  workspaceRolePolicyTemplate :: string
  workspaceDashboardRolePolicyTemplate :: string

subsection \<open>Roles and policies\<close>

datatype role_type = WorkspaceRole | WorkspaceDashboardRole

fun role_type_str :: "role_type \<Rightarrow> string" where
  "role_type_str WorkspaceRole = ''WorkspaceRole''"
| "role_type_str WorkspaceDashboardRole = ''WorkspaceDashboardRole''"

text \<open>The two local variables \<^verbatim>\<open>roleName\<close> and \<^verbatim>\<open>policyName\<close> of \<^verbatim>\<open>createRoleAndPolicy\<close>.\<close>

definition roleName :: "lib \<Rightarrow> string \<Rightarrow> string \<Rightarrow> string \<Rightarrow> role_type \<Rightarrow> string" where
  "roleName l workspaceId accountId region roleType =
     (case roleType of
        WorkspaceRole \<Rightarrow>
          toLowerCase l (''twinmaker-workspace-'' @ workspaceId @ ''-'' @ accountId @ ''-'' @ region)
      | WorkspaceDashboardRole \<Rightarrow>
          toLowerCase l (''twinmaker-'' @ role_type_str roleType @ ''-'' @ workspaceId @ ''-''
                         @ accountId @ ''-'' @ region))"

definition policyName :: "lib \<Rightarrow> string \<Rightarrow> string \<Rightarrow> string \<Rightarrow> role_type \<Rightarrow> string" where
  "policyName l workspaceId accountId region roleType =
     (case roleType of
        WorkspaceRole \<Rightarrow>
          toLowerCase l (''twinmaker-workspace-'' @ workspaceId @ ''-'' @ accountId @ ''-'' @ region
                         @ ''-AutoPolicy'')
      | WorkspaceDashboardRole \<Rightarrow>
          toLowerCase l (''twinmaker-'' @ role_type_str roleType @ ''-'' @ workspaceId @ ''-''
                         @ accountId @ ''-'' @ region @ ''-AutoPolicy''))"

definition createRoleAndPolicy ::
  "aws_clients \<Rightarrow> lib \<Rightarrow> string \<Rightarrow> string \<Rightarrow> string \<Rightarrow> role_type \<Rightarrow> string \<Rightarrow> string
     \<Rightarrow> string io" where
  "createRoleAndPolicy aws l workspaceId accountId region roleType roleAssumePolicy rolePolicy =
     bind_io (console_log (''Creating Role '' @ roleName l workspaceId accountId region roleType @ ''...''))
       (\<lambda>u.
     bind_io (call (\<lambda>h. iam_createRole (iam aws) h (roleName l workspaceId accountId region roleType) ''/''
                            roleAssumePolicy
                            (role_type_str roleType @ '' generated by AWS IoT TwinMaker TMDT''))
                (\<lambda>r. CreateRole (roleName l workspaceId accountId region roleType) ''/''
                            roleAssumePolicy
                            (role_type_str roleType @ '' generated by AWS IoT TwinMaker TMDT'')))
       (\<lambda>createRoleResponse.
     bind_io (case createRoleResponse of
                None \<Rightarrow>
                  throw (Error (''Failed to create role ''
                                  @ roleName l workspaceId accountId region roleType @ ''.''))
              | Some Arn \<Rightarrow>
                  (case Arn of
                     None \<Rightarrow>
                       throw (Error (''Failed to create role ''
                                       @ roleName l workspaceId accountId region roleType @ ''.''))
                   | Some a \<Rightarrow>
                       if a = []
                       then throw (Error (''Failed to create role ''
                                            @ roleName l workspaceId accountId region roleType @ ''.''))
                       else return_io a))
       (\<lambda>roleArn.
     bind_io (console_log (''Created Role: '' @ roleArn @ ''.''))
       (\<lambda>u.
     bind_io (call (\<lambda>h. iam_createPolicy (iam aws) h (policyName l workspaceId accountId region roleType)
                            rolePolicy
                            (role_type_str roleType @ '' Policy generated by AWS IoT TwinMaker TMDT''))
                (\<lambda>r. CreatePolicy (policyName l workspaceId accountId region roleType) rolePolicy
                            (role_type_str roleType @ '' Policy generated by AWS IoT TwinMaker TMDT'')))
       (\<lambda>createPolicyResponse.
     bind_io (case createPolicyResponse of
                None \<Rightarrow> throw (Error (''Failed to create policy for role '' @ roleArn @ ''.''))
              | Some Arn \<Rightarrow>
                  (case Arn of
                     None \<Rightarrow> throw (Error (''Failed to create policy for role '' @ roleArn @ ''.''))
                   | Some a \<Rightarrow>
                       if a = []
                       then throw (Error (''Failed to create policy for role '' @ roleArn @ ''.''))
                       else return_io a))
       (\<lambda>policyArn.
     bind_io (console_log (''Created Policy: '' @ policyArn))
       (\<lambda>u.
     bind_io (call (\<lambda>h. iam_attachRolePolicy (iam aws) h
                            (roleName l workspaceId accountId region roleType) policyArn)
                (\<lambda>r. AttachRolePolicy (roleName l workspaceId accountId region roleType) policyArn))
       (\<lambda>u.
     bind_io (console_log (''Attached Policy: '' @ policyArn @ '' to Role: '' @ roleArn @ ''.''))
       (\<lambda>u. return_io roleArn)))))))))"

subsection \<open>Buckets\<close>

text \<open>
  \<^verbatim>\<open>createS3Bucket\<close>: the request of \<^verbatim>\<open>createBucket\<close> carries a location constraint
  unless the region is \<^verbatim>\<open>us-east-1\<close>. The four configuration calls carry fixed
  settings for the named bucket, so their events record the bucket only.
\<close>

definition createS3Bucket :: "aws_clients \<Rightarrow> string \<Rightarrow> string \<Rightarrow> unit io" where
  "createS3Bucket aws s3BucketName region =
     bind_io (call (\<lambda>h. s3_createBucket (s3 aws) h s3BucketName
                            (if region \<noteq> ''us-east-1'' then Some region else None))
                (\<lambda>r. CreateBucket s3BucketName
                            (if region \<noteq> ''us-east-1'' then Some region else None)))
       (\<lambda>createBucketResponse.
     bind_io (call (\<lambda>h. s3_putBucketVersioning (s3 aws) h s3BucketName)
                (\<lambda>r. PutBucketVersioning s3BucketName))
       (\<lambda>u.
     bind_io (call (\<lambda>h. s3_putBucketPolicy (s3 aws) h s3BucketName)
                (\<lambda>r. PutBucketPolicy s3BucketName))
       (\<lambda>u.
     bind_io (call (\<lambda>h. s3_putPublicAccessBlock (s3 aws) h s3BucketName)
                (\<lambda>r. PutPublicAccessBlock s3BucketName))
       (\<lambda>u.
     bind_io (call (\<lambda>h. s3_putBucketEncryption (s3 aws) h s3BucketName)
                (\<lambda>r. PutBucketEncryption s3BucketName))
       (\<lambda>u. console_log (''S3 Bucket created: '' @ tpl createBucketResponse))))))"

definition grantPermissionsToWriteLogs :: "aws_clients \<Rightarrow> string \<Rightarrow> bool io" where
  "grantPermissionsToWriteLogs aws bucketName =
     try_catch
       (bind_io (call (\<lambda>h. s3_putBucketAcl (s3 aws) h bucketName) (\<lambda>r. PutBucketAcl bucketName))
          (\<lambda>u. return_io True))
       (\<lambda>error. return_io False)"

definition putBucketLogging :: "aws_clients \<Rightarrow> string \<Rightarrow> string \<Rightarrow> bool io" where
  "putBucketLogging aws sourceBucketName targetBucketName =
     try_catch
       (bind_io (call (\<lambda>h. s3_putBucketLogging (s3 aws) h sourceBucketName targetBucketName)
                   (\<lambda>r. PutBucketLogging sourceBucketName targetBucketName))
          (\<lambda>u. return_io True))
       (\<lambda>error. return_io False)"

definition enableAccessLogging :: "aws_clients \<Rightarrow> string \<Rightarrow> string \<Rightarrow> bool io" where
  "enableAccessLogging aws sourceBucketName targetBucketName =
     try_catch
       (bind_io (grantPermissionsToWriteLogs aws targetBucketName)
          (\<lambda>granted.
        bind_io (putBucketLogging aws sourceBucketName targetBucketName)
          (\<lambda>enabled. return_io True)))
       (\<lambda>error. return_io False)"

text \<open>The local variable \<^verbatim>\<open>s3BucketName\<close> of \<^verbatim>\<open>createWorkspaceS3Bucket\<close>.\<close>

definition workspaceS3BucketName :: "lib \<Rightarrow> string \<Rightarrow> string \<Rightarrow> string \<Rightarrow> string" where
  "workspaceS3BucketName l workspaceId accountId region =
     toLowerCase l (''twinmaker-workspace-'' @ workspaceId @ ''-'' @ accountId @ ''-''
                    @ regionToAirportCode l region)"

definition createWorkspaceS3Bucket ::
  "aws_clients \<Rightarrow> lib \<Rightarrow> string \<Rightarrow> string \<Rightarrow> string \<Rightarrow> (string \<times> string) io" where
  "createWorkspaceS3Bucket aws l workspaceId accountId region =
     bind_io (console_log (''Creating S3 Bucket for the TwinMaker Workspace in region: ''
                             @ region @ ''...''))
       (\<lambda>u.
     bind_io (createS3Bucket aws (workspaceS3BucketName l workspaceId accountId region) region)
       (\<lambda>u.
     bind_io (console_log ''Configuring CORS Policy...'')
       (\<lambda>u.
     bind_io (call (\<lambda>h. s3_putBucketCors (s3 aws) h
                            (workspaceS3BucketName l workspaceId accountId region))
                (\<lambda>r. PutBucketCors (workspaceS3BucketName l workspaceId accountId region)))
       (\<lambda>u.
     bind_io (console_log ''CORS Policy configured'')
       (\<lambda>u.
     bind_io (console_log ''Creating bucket for access logging...'')
       (\<lambda>u.
     bind_io (createS3Bucket aws
                (workspaceS3BucketName l workspaceId accountId region @ ''-logs'') region)
       (\<lambda>u.
     bind_io (console_log ''Enabling access logging for workspace S3 Bucket...'')
       (\<lambda>u.
     bind_io (enableAccessLogging aws (workspaceS3BucketName l workspaceId accountId region)
                (workspaceS3BucketName l workspaceId accountId region @ ''-logs''))
       (\<lambda>enabled.
     bind_io (console_log ''Access logging enabled.'')
       (\<lambda>u. return_io (workspaceS3BucketName l workspaceId accountId region,
                         ''arn:aws:s3:::'' @ workspaceS3BucketName l workspaceId accountId region)
       ))))))))))"

subsection \<open>Retry of workspace creation\<close>

text \<open>
  The \<^verbatim>\<open>try\<close> block of one iteration of the loop of \<^verbatim>\<open>retryWorkspaceCreation\<close>: the
  call, the check of the returned arn and the log line.
\<close>

definition createWorkspace_attempt :: "aws_clients \<Rightarrow> string \<Rightarrow> string \<Rightarrow> string \<Rightarrow> string io" where
  "createWorkspace_attempt aws workspaceId workspaceRoleArn s3BucketArn =
     bind_io (call (\<lambda>h. tm_createWorkspace (tm aws) h workspaceId workspaceRoleArn s3BucketArn)
                (\<lambda>r. CreateWorkspace workspaceId workspaceRoleArn s3BucketArn))
       (\<lambda>workspaceArn.
          case workspaceArn of
            None \<Rightarrow> throw (Error ''Failed to create Workspace'')
          | Some arn \<Rightarrow>
              if arn = [] then throw (Error ''Failed to create Workspace'')
              else bind_io (console_log (''Created Workspace: '' @ arn)) (\<lambda>u. return_io arn))"

text \<open>
  The loop: \<^verbatim>\<open>attempts\<close> is decremented at the start of each iteration; a caught error
  that matches one of the two messages is followed by the log line, the delay and the
  next iteration, any other caught error is thrown again.
\<close>

function retryWorkspaceCreation ::
  "aws_clients \<Rightarrow> string \<Rightarrow> string \<Rightarrow> string \<Rightarrow> int \<Rightarrow> string io" where
  "retryWorkspaceCreation aws workspaceId workspaceRoleArn s3BucketArn attempts h =
     (if attempts > 0 then
        (case createWorkspace_attempt aws workspaceId workspaceRoleArn s3BucketArn h of
           (Thrown err, h1) \<Rightarrow>
             if (instanceof_ValidationException err
                   \<and> message_includes err ''Could not assume the role provided'')
                \<or> (instanceof_ValidationException err
                   \<and> message_includes err ''Could not access S3 with the role provided'')
             then retryWorkspaceCreation aws workspaceId workspaceRoleArn s3BucketArn (attempts - 1)
                    (snd (bind_io
                            (console_log ''Waiting for the newly created role to be propagated...'')
                            (\<lambda>u. delay 2000) h1))
             else (Thrown err, h1)
         | r \<Rightarrow> r)
      else throw (Error ''Retry exhausted'') h)"
  by pat_completeness auto
termination
  by (relation "measure (\<lambda>(aws, w, r, s, attempts, h). nat attempts)") auto

declare retryWorkspaceCreation.simps [simp del]

subsection \<open>Provisioning\<close>

record provisioned_workspace =
  workspaceArn :: string
  workspaceS3BucketArn :: string
  workspaceRoleArn :: string
  workspaceDashboardRoleArn :: string

definition prepareWorkspace :: "aws_clients \<Rightarrow> lib \<Rightarrow> string \<Rightarrow> provisioned_workspace io" where
  "prepareWorkspace aws l workspaceId =
     bind_io (call (getCurrentIdentity aws) (\<lambda>r. GetCurrentIdentity))
       (\<lambda>(accountId, accountArn).
     bind_io (createWorkspaceS3Bucket aws l workspaceId accountId (aws_region aws))
       (\<lambda>(s3BucketName, s3BucketArn).
     bind_io (createRoleAndPolicy aws l workspaceId accountId
                (regionToAirportCode l (aws_region aws)) WorkspaceRole
                (WORKSPACE_ROLE_ASSUME_POLICY l)
                (replaceTemplateVars l (workspaceRolePolicyTemplate l)
                   [(''accountId'', accountId), (''accountArn'', accountArn),
                    (''region'', aws_region aws), (''workspaceId'', workspaceId),
                    (''workspaceS3BucketArn'', s3BucketArn)]))
       (\<lambda>roleArn.
     bind_io (retryWorkspaceCreation aws workspaceId roleArn s3BucketArn 10)
       (\<lambda>wsArn.
     bind_io (console_log
                ([CHR 0x0A] @ ''WARNING: Dashboard role policy will be created without video permissions. Please either edit the policy in IAM or create workspace in console to self-define any additional permissions.'' @ [CHR 0x0A]))
       (\<lambda>u.
     bind_io (createRoleAndPolicy aws l workspaceId accountId
                (regionToAirportCode l (aws_region aws)) WorkspaceDashboardRole
                (replaceTemplateVars l (WORKSPACE_DASHBOARD_ROLE_ASSUME_POLICY l)
                   [(''accountId'', accountId), (''accountArn'', accountArn),
                    (''region'', aws_region aws), (''workspaceId'', workspaceId),
                    (''workspaceS3BucketArn'', s3BucketArn), (''workspaceArn'', wsArn),
                    (''dashboardRoleAssumedByArn'', accountArn)])
                (replaceTemplateVars l (workspaceDashboardRolePolicyTemplate l)
                   [(''accountId'', accountId), (''accountArn'', accountArn),
                    (''region'', aws_region aws), (''workspaceId'', workspaceId),
                    (''workspaceS3BucketArn'', s3BucketArn), (''workspaceArn'', wsArn),
                    (''dashboardRoleAssumedByArn'', accountArn)]))
       (\<lambda>dashboardRoleArn.
          return_io \<lparr>workspaceArn = wsArn, workspaceS3BucketArn = s3BucketArn,
                     workspaceRoleArn = roleArn,
                     workspaceDashboardRoleArn = dashboardRoleArn\<rparr>))))))"

definition createWorkspaceIfNotExists ::
  "aws_clients \<Rightarrow> lib \<Rightarrow> string \<Rightarrow> (string \<times> string option) io" where
  "createWorkspaceIfNotExists aws l workspaceId =
     bind_io (console_log (''Creating a new Workspace: '' @ workspaceId))
       (\<lambda>u.
     bind_io (try_catch
                (bind_io (call (\<lambda>h. tm_getWorkspace (tm aws) h workspaceId)
                            (\<lambda>r. GetWorkspace workspaceId))
                   (\<lambda>workspace.
                 bind_io (console_log
                            ''Found an existing Workspace with the same Id. Skip creating Workspace.'')
                   (\<lambda>u. return_io workspace)))
                (\<lambda>e.
                   if instanceof_ResourceNotFoundException e
                   then bind_io (prepareWorkspace aws l workspaceId)
                          (\<lambda>provisioned.
                             call (\<lambda>h. tm_getWorkspace (tm aws) h workspaceId)
                               (\<lambda>r. GetWorkspace workspaceId))
                   else throw (Error (''Failed to get workspace. '' @ error_toString e))))
       (\<lambda>workspace.
          if falsy (gw_workspaceId workspace)
          then throw (Error ''Unable to get a valid workspace'')
          else return_io (workspaceId, gw_arn workspace)))"

subsection \<open>Teardown\<close>

text \<open>The three \<^verbatim>\<open>for\<close> loops of \<^verbatim>\<open>deleteS3Bucket\<close> over the entries of one page.\<close>

fun deleteObjects :: "aws_clients \<Rightarrow> string option \<Rightarrow> bool \<Rightarrow> s3_object list \<Rightarrow> unit io" where
  "deleteObjects aws s3BucketName nonDryRun [] = return_io ()"
| "deleteObjects aws s3BucketName nonDryRun (obj # objs) =
     bind_io (if nonDryRun
              then call (\<lambda>h. s3_deleteObject (s3 aws) h s3BucketName (obj_Key obj) None)
                     (\<lambda>r. DeleteObject s3BucketName (obj_Key obj) None)
              else return_io ())
       (\<lambda>u.
     bind_io (console_log (''deleted S3 Object: '' @ tpl (obj_Key obj)))
       (\<lambda>u. deleteObjects aws s3BucketName nonDryRun objs))"

fun deleteVersions :: "aws_clients \<Rightarrow> string option \<Rightarrow> bool \<Rightarrow> object_version list \<Rightarrow> unit io" where
  "deleteVersions aws s3BucketName nonDryRun [] = return_io ()"
| "deleteVersions aws s3BucketName nonDryRun (version # versions) =
     bind_io (if nonDryRun
              then call (\<lambda>h. s3_deleteObject (s3 aws) h s3BucketName (ver_Key version)
                                 (ver_VersionId version))
                     (\<lambda>r. DeleteObject s3BucketName (ver_Key version) (ver_VersionId version))
              else return_io ())
       (\<lambda>u.
     bind_io (console_log (''deleted S3 Object: '' @ tpl (ver_Key version) @ '', version: ''
                             @ tpl (ver_VersionId version)))
       (\<lambda>u. deleteVersions aws s3BucketName nonDryRun versions))"

fun deleteDeleteMarkers ::
  "aws_clients \<Rightarrow> string option \<Rightarrow> bool \<Rightarrow> object_version list \<Rightarrow> unit io" where
  "deleteDeleteMarkers aws s3BucketName nonDryRun [] = return_io ()"
| "deleteDeleteMarkers aws s3BucketName nonDryRun (version # versions) =
     bind_io (if nonDryRun
              then call (\<lambda>h. s3_deleteObject (s3 aws) h s3BucketName (ver_Key version)
                                 (ver_VersionId version))
                     (\<lambda>r. DeleteObject s3BucketName (ver_Key version) (ver_VersionId version))
              else return_io ())
       (\<lambda>u.
     bind_io (console_log (''deleted S3 delete marker: '' @ tpl (ver_Key version) @ '', version: ''
                             @ tpl (ver_VersionId version)))
       (\<lambda>u. deleteDeleteMarkers aws s3BucketName nonDryRun versions))"

text \<open>
  The two \<^verbatim>\<open>while (isTruncated)\<close> loops. Each depends on what the service answers and
  need not end, so the model takes a budget of pages, the same for every loop: when a loop
  has fetched that many pages and its condition still holds, the outcome is \<open>Running\<close>
  and the history holds what has happened so far. A run that ends within a budget ends the
  same way within any larger one.
\<close>

fun listObjectsLoop ::
  "aws_clients \<Rightarrow> nat \<Rightarrow> string option \<Rightarrow> bool \<Rightarrow> bool option \<Rightarrow> string option \<Rightarrow> unit io" where
  "listObjectsLoop aws 0 s3BucketName nonDryRun isTruncated NextContinuationToken =
     (if truthy isTruncated then (\<lambda>h. (Running, h)) else return_io ())"
| "listObjectsLoop aws (Suc pages) s3BucketName nonDryRun isTruncated NextContinuationToken =
     (if truthy isTruncated then
        bind_io (call (\<lambda>h. s3_listObjectsV2 (s3 aws) h s3BucketName NextContinuationToken)
                   (\<lambda>r. ListObjectsV2 s3BucketName NextContinuationToken r))
          (\<lambda>listObjectsResp.
        bind_io (case lo_Contents listObjectsResp of
                   None \<Rightarrow> return_io ()
                 | Some contents \<Rightarrow> deleteObjects aws s3BucketName nonDryRun contents)
          (\<lambda>u. listObjectsLoop aws pages s3BucketName nonDryRun
                  (lo_IsTruncated listObjectsResp) (lo_NextContinuationToken listObjectsResp)))
      else return_io ())"

fun listObjectVersionsLoop ::
  "aws_clients \<Rightarrow> nat \<Rightarrow> string option \<Rightarrow> bool \<Rightarrow> bool option \<Rightarrow> string option \<Rightarrow> string option
     \<Rightarrow> unit io" where
  "listObjectVersionsLoop aws 0 s3BucketName nonDryRun isTruncated NextVersionIdMarker NextKeyMarker =
     (if truthy isTruncated then (\<lambda>h. (Running, h)) else return_io ())"
| "listObjectVersionsLoop aws (Suc pages) s3BucketName nonDryRun isTruncated NextVersionIdMarker
       NextKeyMarker =
     (if truthy isTruncated then
        bind_io (call (\<lambda>h. s3_listObjectVersions (s3 aws) h s3BucketName NextVersionIdMarker
                               NextKeyMarker)
                   (\<lambda>r. ListObjectVersions s3BucketName NextVersionIdMarker NextKeyMarker r))
          (\<lambda>listObjectVersionResp.
        bind_io (case lv_Versions listObjectVersionResp of
                   None \<Rightarrow> return_io ()
                 | Some versions \<Rightarrow> deleteVersions aws s3BucketName nonDryRun versions)
          (\<lambda>u.
        bind_io (case lv_DeleteMarkers listObjectVersionResp of
                   None \<Rightarrow> return_io ()
                 | Some markers \<Rightarrow> deleteDeleteMarkers aws s3BucketName nonDryRun markers)
          (\<lambda>u. listObjectVersionsLoop aws pages s3BucketName nonDryRun
                  (lv_IsTruncated listObjectVersionResp)
                  (lv_NextVersionIdMarker listObjectVersionResp)
                  (lv_NextKeyMarker listObjectVersionResp))))
      else return_io ())"

definition deleteS3Bucket :: "aws_clients \<Rightarrow> nat \<Rightarrow> string option \<Rightarrow> bool \<Rightarrow> unit io" where
  "deleteS3Bucket aws pages s3BucketName nonDryRun =
     bind_io (listObjectsLoop aws pages s3BucketName nonDryRun (Some True) None)
       (\<lambda>u.
     bind_io (listObjectVersionsLoop aws pages s3BucketName nonDryRun (Some True) None None)
       (\<lambda>u.
     bind_io (if nonDryRun
              then call (\<lambda>h. s3_deleteBucket (s3 aws) h s3BucketName)
                     (\<lambda>r. DeleteBucket s3BucketName)
              else return_io ())
       (\<lambda>u. console_log ([CHR 0x0A] @ ''deleted S3 Bucket: '' @ tpl s3BucketName))))"

text \<open>
  \<^verbatim>\<open>deleteWorkspaceBucketAndLogs\<close> is two \<^verbatim>\<open>try\<close> statements in sequence: the first
  looks up the logging configuration and deletes the logging target, the second deletes
  the bucket itself. Each is a definition of its own here.
\<close>

definition deleteLoggingBucket_try ::
  "aws_clients \<Rightarrow> nat \<Rightarrow> string option \<Rightarrow> bool \<Rightarrow> unit io" where
  "deleteLoggingBucket_try aws pages s3BucketName nonDryRun =
     try_catch
       (bind_io (call (\<lambda>h. s3_getBucketLogging (s3 aws) h s3BucketName)
                   (\<lambda>r. GetBucketLogging s3BucketName))
          (\<lambda>bucketLoggingResp.
             case bucketLoggingResp of
               None \<Rightarrow> return_io ()
             | Some TargetBucket \<Rightarrow>
                 bind_io (console_log ''Deleting logging bucket...'')
                   (\<lambda>u. deleteS3Bucket aws pages (Some (tpl TargetBucket)) nonDryRun)))
       (\<lambda>e.
          if instanceof_Error e \<and> message_includes e ''The specified bucket does not exist''
          then console_log ''Logging Bucket not found, moving on with deletion.''
          else throw e)"

definition deleteWorkspaceBucket_try ::
  "aws_clients \<Rightarrow> nat \<Rightarrow> string option \<Rightarrow> bool \<Rightarrow> unit io" where
  "deleteWorkspaceBucket_try aws pages s3BucketName nonDryRun =
     try_catch
       (bind_io (console_log ''Deleting workspace bucket...'')
          (\<lambda>u. deleteS3Bucket aws pages s3BucketName nonDryRun))
       (\<lambda>e.
          if instanceof_NoSuchBucket e
          then console_log (''Bucket does not exist and cannot be deleted: '' @ tpl s3BucketName)
          else throw e)"

definition deleteWorkspaceBucketAndLogs ::
  "aws_clients \<Rightarrow> nat \<Rightarrow> string option \<Rightarrow> bool \<Rightarrow> unit io" where
  "deleteWorkspaceBucketAndLogs aws pages s3BucketName nonDryRun =
     bind_io (deleteLoggingBucket_try aws pages s3BucketName nonDryRun)
       (\<lambda>u. deleteWorkspaceBucket_try aws pages s3BucketName nonDryRun)"

text \<open>The three \<^verbatim>\<open>for\<close> loops of \<^verbatim>\<open>deleteIAMroleAndPolicy\<close>.\<close>

fun removeRoleFromInstanceProfiles ::
  "aws_clients \<Rightarrow> string option \<Rightarrow> instance_profile list \<Rightarrow> unit io" where
  "removeRoleFromInstanceProfiles aws rName [] = return_io ()"
| "removeRoleFromInstanceProfiles aws rName (instanceProfile # profiles) =
     bind_io (call (\<lambda>h. iam_removeRoleFromInstanceProfile (iam aws) h rName
                            (InstanceProfileName instanceProfile))
                (\<lambda>r. RemoveRoleFromInstanceProfile rName (InstanceProfileName instanceProfile)))
       (\<lambda>u.
     bind_io (console_log (''removed role from instance profile: ''
                             @ tpl (InstanceProfileName instanceProfile)))
       (\<lambda>u. removeRoleFromInstanceProfiles aws rName profiles))"

fun deleteRolePolicies :: "aws_clients \<Rightarrow> string option \<Rightarrow> string list \<Rightarrow> unit io" where
  "deleteRolePolicies aws rName [] = return_io ()"
| "deleteRolePolicies aws rName (policy # policies) =
     bind_io (call (\<lambda>h. iam_deleteRolePolicy (iam aws) h rName policy)
                (\<lambda>r. DeleteRolePolicy rName policy))
       (\<lambda>u.
     bind_io (console_log (''deleted policy: '' @ policy))
       (\<lambda>u. deleteRolePolicies aws rName policies))"

fun detachAndDeletePolicies ::
  "aws_clients \<Rightarrow> string option \<Rightarrow> attached_policy list \<Rightarrow> unit io" where
  "detachAndDeletePolicies aws rName [] = return_io ()"
| "detachAndDeletePolicies aws rName (attachedPolicy # policies) =
     bind_io (call (\<lambda>h. iam_detachRolePolicy (iam aws) h rName (PolicyArn attachedPolicy))
                (\<lambda>r. DetachRolePolicy rName (PolicyArn attachedPolicy)))
       (\<lambda>u.
     bind_io (call (\<lambda>h. iam_deletePolicy (iam aws) h (PolicyArn attachedPolicy))
                (\<lambda>r. DeletePolicy (PolicyArn attachedPolicy)))
       (\<lambda>u.
     bind_io (console_log (''detached and deleted policy: '' @ tpl (PolicyName attachedPolicy)))
       (\<lambda>u. detachAndDeletePolicies aws rName policies)))"

definition deleteIAMroleAndPolicy :: "aws_clients \<Rightarrow> string option \<Rightarrow> unit io" where
  "deleteIAMroleAndPolicy aws rName =
     bind_io (call (\<lambda>h. iam_listInstanceProfilesForRole (iam aws) h rName)
                (\<lambda>r. ListInstanceProfilesForRole rName))
       (\<lambda>instanceProfileResp.
     bind_io (case instanceProfileResp of
                None \<Rightarrow> return_io ()
              | Some InstanceProfiles \<Rightarrow> removeRoleFromInstanceProfiles aws rName InstanceProfiles)
       (\<lambda>u.
     bind_io (call (\<lambda>h. iam_listRolePolicies (iam aws) h rName) (\<lambda>r. ListRolePolicies rName))
       (\<lambda>rolePolicies.
     bind_io (case rolePolicies of
                None \<Rightarrow> return_io ()
              | Some PolicyNames \<Rightarrow> deleteRolePolicies aws rName PolicyNames)
       (\<lambda>u.
     bind_io (call (\<lambda>h. iam_listAttachedRolePolicies (iam aws) h rName)
                (\<lambda>r. ListAttachedRolePolicies rName))
       (\<lambda>attachedRolePolicies.
     bind_io (case attachedRolePolicies of
                None \<Rightarrow> return_io ()
              | Some AttachedPolicies \<Rightarrow> detachAndDeletePolicies aws rName AttachedPolicies)
       (\<lambda>u.
     bind_io (call (\<lambda>h. iam_deleteRole (iam aws) h rName) (\<lambda>r. DeleteRole rName))
       (\<lambda>u. console_log (''deleted role: '' @ tpl rName))))))))"

definition deleteWorkspace :: "aws_clients \<Rightarrow> string \<Rightarrow> bool \<Rightarrow> unit io" where
  "deleteWorkspace aws workspaceId nonDryRun =
     try_catch
       (bind_io (if nonDryRun
                 then call (\<lambda>h. tm_deleteWorkspace (tm aws) h workspaceId)
                        (\<lambda>r. DeleteWorkspace workspaceId)
                 else return_io ())
          (\<lambda>u. console_log (''deleted workspace: '' @ workspaceId)))
       (\<lambda>err.
          bind_io (console_log (''Unable to delete workspace '' @ workspaceId @ '':'' @ [CHR 0x0A]
                                  @ '' '' @ error_toString err))
            (\<lambda>u. throw err))"

section \<open>Notions used to state the properties\<close>

subsection \<open>Retry of workspace creation\<close>

text \<open>
  The two error signatures of role propagation lag: a validation exception whose message
  says that the role could not be assumed, or that S3 could not be accessed with it.
\<close>

definition retry_eligible :: "error \<Rightarrow> bool" where
  "retry_eligible e =
     (case e of
        ValidationException m \<Rightarrow>
          str_includes m ''Could not assume the role provided''
          \<or> str_includes m ''Could not access S3 with the role provided''
      | _ \<Rightarrow> False)"

text \<open>What one failed and retried attempt adds to the history: the call, the log line, the sleep.\<close>

definition failed_attempt :: "string \<Rightarrow> string \<Rightarrow> string \<Rightarrow> event list" where
  "failed_attempt w r s =
     [CreateWorkspace w r s, Log ''Waiting for the newly created role to be propagated...'',
      Delay 2000]"

definition failed_attempts :: "nat \<Rightarrow> string \<Rightarrow> string \<Rightarrow> string \<Rightarrow> event list" where
  "failed_attempts n w r s = concat (replicate n (failed_attempt w r s))"

fun is_CreateWorkspace :: "event \<Rightarrow> bool" where
  "is_CreateWorkspace (CreateWorkspace w r s) = True"
| "is_CreateWorkspace e = False"

definition createWorkspace_calls :: "history \<Rightarrow> nat" where
  "createWorkspace_calls h = length (filter is_CreateWorkspace h)"

subsection \<open>Example services\<close>

text \<open>
  A workspace service whose first \<open>n\<close> creation calls fail with the error \<open>e\<close> and whose
  later ones succeed; the workspace can be fetched once it has been created.
\<close>

definition flaky_tm :: "error \<Rightarrow> nat \<Rightarrow> tm_client" where
  "flaky_tm e n =
     \<lparr>tm_createWorkspace = (\<lambda>h w r s.
          if createWorkspace_calls h < n then Inl e
          else Inr (Some (''arn:aws:iottwinmaker:us-west-2:123456789012:workspace/'' @ w))),
      tm_getWorkspace = (\<lambda>h w.
          if createWorkspace_calls h \<le> n
          then Inl (ResourceNotFoundException ''Workspace not found'')
          else Inr \<lparr>gw_workspaceId = Some w,
                    gw_arn = Some (''arn:aws:iottwinmaker:us-west-2:123456789012:workspace/'' @ w)\<rparr>),
      tm_deleteWorkspace = (\<lambda>h w. Inr ())\<rparr>"

text \<open>
  An identity service on which every call succeeds. A role has one instance profile, two
  inline policies and one attached managed policy.
\<close>

definition demo_iam :: iam_client where
  "demo_iam =
     \<lparr>iam_createRole = (\<lambda>h n p d c. Inr (Some (Some (''arn:aws:iam::123456789012:role/'' @ n)))),
      iam_createPolicy = (\<lambda>h n d c. Inr (Some (Some (''arn:aws:iam::123456789012:policy/'' @ n)))),
      iam_attachRolePolicy = (\<lambda>h r p. Inr ()),
      iam_listInstanceProfilesForRole =
        (\<lambda>h r. Inr (Some [\<lparr>InstanceProfileName = Some ''profile-1''\<rparr>])),
      iam_removeRoleFromInstanceProfile = (\<lambda>h r p. Inr ()),
      iam_listRolePolicies = (\<lambda>h r. Inr (Some [''inline-1'', ''inline-2''])),
      iam_deleteRolePolicy = (\<lambda>h r p. Inr ()),
      iam_listAttachedRolePolicies =
        (\<lambda>h r. Inr (Some [\<lparr>PolicyName = Some ''managed-1'',
                             PolicyArn = Some ''arn:aws:iam::123456789012:policy/managed-1''\<rparr>])),
      iam_detachRolePolicy = (\<lambda>h r p. Inr ()),
      iam_deletePolicy = (\<lambda>h p. Inr ()),
      iam_deleteRole = (\<lambda>h r. Inr ())\<rparr>"

text \<open>
  A storage service on which every call succeeds. Every bucket lists three objects on two
  pages, then two versions and one delete marker on one page, and logs to the bucket
  named after it with the suffix \<^verbatim>\<open>-logs\<close>.
\<close>

definition demo_s3 :: s3_client where
  "demo_s3 =
     \<lparr>s3_createBucket = (\<lambda>h b c. Inr (Some (''/'' @ b))),
      s3_putBucketVersioning = (\<lambda>h b. Inr ()),
      s3_putBucketPolicy = (\<lambda>h b. Inr ()),
      s3_putPublicAccessBlock = (\<lambda>h b. Inr ()),
      s3_putBucketEncryption = (\<lambda>h b. Inr ()),
      s3_putBucketCors = (\<lambda>h b. Inr ()),
      s3_putBucketAcl = (\<lambda>h b. Inr ()),
      s3_putBucketLogging = (\<lambda>h b t. Inr ()),
      s3_getBucketLogging = (\<lambda>h b. Inr (Some (Some (tpl b @ ''-logs'')))),
      s3_listObjectsV2 = (\<lambda>h b token.
         if token = None
         then Inr \<lparr>lo_IsTruncated = Some True, lo_NextContinuationToken = Some ''page-2'',
                   lo_Contents = Some [\<lparr>obj_Key = Some ''a.json''\<rparr>, \<lparr>obj_Key = Some ''b.json''\<rparr>]\<rparr>
         else Inr \<lparr>lo_IsTruncated = Some False, lo_NextContinuationToken = None,
                   lo_Contents = Some [\<lparr>obj_Key = Some ''c.json''\<rparr>]\<rparr>),
      s3_listObjectVersions = (\<lambda>h b v k.
         Inr \<lparr>lv_IsTruncated = Some False, lv_NextVersionIdMarker = None, lv_NextKeyMarker = None,
              lv_Versions = Some [\<lparr>ver_Key = Some ''a.json'', ver_VersionId = Some ''v1''\<rparr>,
                                  \<lparr>ver_Key = Some ''a.json'', ver_VersionId = Some ''v2''\<rparr>],
              lv_DeleteMarkers = Some [\<lparr>ver_Key = Some ''d.json'', ver_VersionId = Some ''v3''\<rparr>]\<rparr>),
      s3_deleteObject = (\<lambda>h b k v. Inr ()),
      s3_deleteBucket = (\<lambda>h b. Inr ())\<rparr>"

definition demo_aws :: "s3_client \<Rightarrow> tm_client \<Rightarrow> aws_clients" where
  "demo_aws s t =
     \<lparr>iam = demo_iam, s3 = s, tm = t, aws_region = ''us-west-2'',
      getCurrentIdentity = (\<lambda>h. Inr (''123456789012'', ''arn:aws:iam::123456789012:user/demo''))\<rparr>"

text \<open>
  An example of a lower-casing function: it moves the letters A to Z to a to z and leaves
  every other character as it is.
\<close>

definition ascii_lower_char :: "char \<Rightarrow> char" where
  "ascii_lower_char c =
     (if 65 \<le> (of_char c :: nat) \<and> (of_char c :: nat) \<le> 90
      then char_of ((of_char c :: nat) + 32) else c)"

definition ascii_toLowerCase :: "string \<Rightarrow> string" where
  "ascii_toLowerCase s = map ascii_lower_char s"

text \<open>
  Example parameters: that lower-casing, helpers that map two regions to their codes and
  leave a template as it is, and empty policy documents.
\<close>

definition demo_lib :: lib where
  "demo_lib =
     \<lparr>toLowerCase = ascii_toLowerCase,
      regionToAirportCode = (\<lambda>r. if r = ''us-west-2'' then ''pdx''
                                  else if r = ''us-east-1'' then ''iad'' else r),
      replaceTemplateVars = (\<lambda>template params. template),
      WORKSPACE_ROLE_ASSUME_POLICY = ''{}'',
      WORKSPACE_DASHBOARD_ROLE_ASSUME_POLICY = ''{}'',
      workspaceRolePolicyTemplate = ''{}'',
      workspaceDashboardRolePolicyTemplate = ''{}''\<rparr>"

text \<open>A setting in which the role needs \<open>n\<close> failed attempts before it can be assumed.\<close>

definition lagging_aws :: "nat \<Rightarrow> aws_clients" where
  "lagging_aws n =
     demo_aws demo_s3 (flaky_tm (ValidationException ''Could not assume the role provided'') n)"

text \<open>A setting in which workspace creation is rejected for a reason other than propagation.\<close>

definition rejecting_aws :: aws_clients where
  "rejecting_aws = demo_aws demo_s3 (flaky_tm (ValidationException ''Workspace id is not valid'') 1)"

text \<open>A setting in which fetching a workspace is refused.\<close>

definition denied_aws :: aws_clients where
  "denied_aws =
     demo_aws demo_s3
       ((flaky_tm (Error []) 0)
          \<lparr>tm_getWorkspace := (\<lambda>h w. Inl (OtherError ''AccessDeniedException'' ''not authorized''))\<rparr>)"

text \<open>
  A setting in which workspace creation answers with an arn, but the fetched record of the
  created workspace carries no arn.
\<close>

definition arnless_aws :: aws_clients where
  "arnless_aws =
     demo_aws demo_s3
       ((flaky_tm (Error []) 0)
          \<lparr>tm_getWorkspace := (\<lambda>h w.
              if createWorkspace_calls h = 0
              then Inl (ResourceNotFoundException ''Workspace not found'')
              else Inr \<lparr>gw_workspaceId = Some w, gw_arn = None\<rparr>)\<rparr>)"

subsection \<open>Histories\<close>

text \<open>
  A computation emits \<open>P\<close> when, from every history, it only appends events and every
  appended event satisfies \<open>P\<close>.
\<close>

definition emits :: "(event \<Rightarrow> bool) \<Rightarrow> 'a io \<Rightarrow> bool" where
  "emits P m = (\<forall>h. \<exists>new. snd (m h) = h @ new \<and> list_all P new)"

text \<open>The name under which an event creates a role, a policy or a bucket.\<close>

fun created_names :: "event \<Rightarrow> string list" where
  "created_names (CreateRole n p d c) = [n]"
| "created_names (CreatePolicy n d c) = [n]"
| "created_names (CreateBucket b c) = [b]"
| "created_names e = []"

text \<open>The events a computation appends to the history it starts from.\<close>

definition new_events :: "'a io \<Rightarrow> history \<Rightarrow> event list" where
  "new_events m h = drop (length h) (snd (m h))"

text \<open>A storage service that refuses the two calls that set up access logging.\<close>

definition unlogged_s3 :: s3_client where
  "unlogged_s3 =
     demo_s3\<lparr>s3_putBucketAcl := (\<lambda>h b. Inl (OtherError ''AccessControlListNotSupported''
                                              ''The bucket does not allow ACLs'')),
             s3_putBucketLogging := (\<lambda>h b t. Inl (OtherError ''InvalidTargetBucketForLogging''
                                              ''The target bucket is not writable''))\<rparr>"

subsection \<open>Role teardown\<close>

text \<open>The entries of a list response: an absent field stands for no entries.\<close>

definition entries :: "'a list option \<Rightarrow> 'a list" where
  "entries xs = (case xs of None \<Rightarrow> [] | Some ys \<Rightarrow> ys)"

text \<open>
  What each of the three passes over a role adds to the history when all its calls succeed,
  and the history of a whole successful role teardown, given the three list responses.
\<close>

definition profile_events :: "string option \<Rightarrow> instance_profile list \<Rightarrow> event list" where
  "profile_events r ps =
     concat (map (\<lambda>p. [RemoveRoleFromInstanceProfile r (InstanceProfileName p),
                        Log (''removed role from instance profile: '' @ tpl (InstanceProfileName p))])
               ps)"

definition inline_policy_events :: "string option \<Rightarrow> string list \<Rightarrow> event list" where
  "inline_policy_events r ns =
     concat (map (\<lambda>n. [DeleteRolePolicy r n, Log (''deleted policy: '' @ n)]) ns)"

definition attached_policy_events :: "string option \<Rightarrow> attached_policy list \<Rightarrow> event list" where
  "attached_policy_events r ps =
     concat (map (\<lambda>p. [DetachRolePolicy r (PolicyArn p), DeletePolicy (PolicyArn p),
                        Log (''detached and deleted policy: '' @ tpl (PolicyName p))])
               ps)"

definition role_teardown_events ::
  "string option \<Rightarrow> instance_profile list option \<Rightarrow> string list option
     \<Rightarrow> attached_policy list option \<Rightarrow> event list" where
  "role_teardown_events r ips pols atts =
     [ListInstanceProfilesForRole r] @ profile_events r (entries ips)
     @ [ListRolePolicies r] @ inline_policy_events r (entries pols)
     @ [ListAttachedRolePolicies r] @ attached_policy_events r (entries atts)
     @ [DeleteRole r, Log (''deleted role: '' @ tpl r)]"

text \<open>The stage of the teardown to which a call of the identity service belongs.\<close>

fun iam_phase :: "event \<Rightarrow> nat" where
  "iam_phase (ListInstanceProfilesForRole r) = 0"
| "iam_phase (RemoveRoleFromInstanceProfile r p) = 1"
| "iam_phase (ListRolePolicies r) = 2"
| "iam_phase (DeleteRolePolicy r n) = 3"
| "iam_phase (ListAttachedRolePolicies r) = 4"
| "iam_phase (DetachRolePolicy r a) = 5"
| "iam_phase (DeletePolicy a) = 5"
| "iam_phase (DeleteRole r) = 6"
| "iam_phase e = 7"

fun is_Log :: "event \<Rightarrow> bool" where
  "is_Log (Log s) = True"
| "is_Log e = False"

text \<open>The remote calls of a history: everything but the log lines.\<close>

definition remote_calls :: "event list \<Rightarrow> event list" where
  "remote_calls es = filter (\<lambda>e. \<not> is_Log e) es"

text \<open>An identity service whose listing and deletion calls all succeed.\<close>

definition iam_calls_succeed :: "aws_clients \<Rightarrow> bool" where
  "iam_calls_succeed aws =
     ((\<forall>h r. \<exists>x. iam_listInstanceProfilesForRole (iam aws) h r = Inr x)
      \<and> (\<forall>h r. \<exists>x. iam_listRolePolicies (iam aws) h r = Inr x)
      \<and> (\<forall>h r. \<exists>x. iam_listAttachedRolePolicies (iam aws) h r = Inr x)
      \<and> (\<forall>h r p. iam_removeRoleFromInstanceProfile (iam aws) h r p = Inr ())
      \<and> (\<forall>h r n. iam_deleteRolePolicy (iam aws) h r n = Inr ())
      \<and> (\<forall>h r a. iam_detachRolePolicy (iam aws) h r a = Inr ())
      \<and> (\<forall>h a. iam_deletePolicy (iam aws) h a = Inr ())
      \<and> (\<forall>h r. iam_deleteRole (iam aws) h r = Inr ()))"

text \<open>
  A computation is ordered within two stages when it only appends events, the stages of the
  calls it appends never decrease, and all of them lie between the two.
\<close>

definition ordered_within :: "nat \<Rightarrow> nat \<Rightarrow> 'a io \<Rightarrow> bool" where
  "ordered_within lo hi m =
     (\<forall>h. \<exists>new. snd (m h) = h @ new
            \<and> sorted (map iam_phase (remote_calls new))
            \<and> list_all (\<lambda>e. lo \<le> iam_phase e \<and> iam_phase e \<le> hi) (remote_calls new))"

text \<open>An identity service whose list responses carry no entries field.\<close>

definition bare_iam :: iam_client where
  "bare_iam = demo_iam\<lparr>iam_listInstanceProfilesForRole := (\<lambda>h r. Inr None),
                        iam_listRolePolicies := (\<lambda>h r. Inr None),
                        iam_listAttachedRolePolicies := (\<lambda>h r. Inr None)\<rparr>"

definition bare_aws :: aws_clients where
  "bare_aws = (demo_aws demo_s3 (flaky_tm (Error []) 0))\<lparr>iam := bare_iam\<rparr>"

text \<open>A setting in which every call succeeds at once.\<close>

definition settled_aws :: aws_clients where
  "settled_aws = demo_aws demo_s3 (flaky_tm (Error []) 0)"

subsection \<open>Derived names\<close>

text \<open>
  A string is lower-case when lower-casing leaves it as it is. Lower-casing settles when
  its results are lower-case, that is, when applying it twice is applying it once.
\<close>

definition lowercase :: "lib \<Rightarrow> string \<Rightarrow> bool" where
  "lowercase l s = (toLowerCase l s = s)"

definition lower_casing_settles :: "lib \<Rightarrow> bool" where
  "lower_casing_settles l = (\<forall>s. toLowerCase l (toLowerCase l s) = toLowerCase l s)"

subsection \<open>Bucket teardown\<close>

text \<open>The destructive calls, and a history with the destructive calls left out.\<close>

fun is_delete :: "event \<Rightarrow> bool" where
  "is_delete (DeleteObject b k v) = True"
| "is_delete (DeleteBucket b) = True"
| "is_delete (DeleteWorkspace w) = True"
| "is_delete e = False"

definition without_deletes :: "history \<Rightarrow> history" where
  "without_deletes h = filter (\<lambda>e. \<not> is_delete e) h"

text \<open>The listing calls of a history.\<close>

fun is_listing :: "event \<Rightarrow> bool" where
  "is_listing (ListObjectsV2 b t r) = True"
| "is_listing (ListObjectVersions b v k r) = True"
| "is_listing e = False"

definition listing_calls :: "event list \<Rightarrow> event list" where
  "listing_calls es = filter is_listing es"

text \<open>
  The entries (bucket, key and version id) that a listing event shows, the entry that a
  deletion event removes, and the bucket that an event deletes.
\<close>

fun listed :: "event \<Rightarrow> (string option \<times> string option \<times> string option) list" where
  "listed (ListObjectsV2 b t (Inr resp)) =
     map (\<lambda>obj. (b, obj_Key obj, None)) (entries (lo_Contents resp))"
| "listed (ListObjectVersions b v k (Inr resp)) =
     map (\<lambda>version. (b, ver_Key version, ver_VersionId version)) (entries (lv_Versions resp))
     @ map (\<lambda>version. (b, ver_Key version, ver_VersionId version))
         (entries (lv_DeleteMarkers resp))"
| "listed e = []"

fun deleted :: "event \<Rightarrow> (string option \<times> string option \<times> string option) list" where
  "deleted (DeleteObject b k v) = [(b, k, v)]"
| "deleted e = []"

fun deleted_bucket :: "event \<Rightarrow> string option list" where
  "deleted_bucket (DeleteBucket b) = [b]"
| "deleted_bucket e = []"

definition listed_entries ::
  "event list \<Rightarrow> (string option \<times> string option \<times> string option) list" where
  "listed_entries es = concat (map listed es)"

definition deleted_entries ::
  "event list \<Rightarrow> (string option \<times> string option \<times> string option) list" where
  "deleted_entries es = concat (map deleted es)"

definition deleted_buckets :: "event list \<Rightarrow> string option list" where
  "deleted_buckets es = concat (map deleted_bucket es)"

text \<open>
  A storage service whose reads (the two listings and the logging configuration) do not
  depend on the deletions issued so far, one whose listings all succeed, and one whose
  deletions all succeed.
\<close>

definition reads_ignore_deletes :: "aws_clients \<Rightarrow> bool" where
  "reads_ignore_deletes aws =
     ((\<forall>h b t. s3_listObjectsV2 (s3 aws) (without_deletes h) b t = s3_listObjectsV2 (s3 aws) h b t)
      \<and> (\<forall>h b v k. s3_listObjectVersions (s3 aws) (without_deletes h) b v k
                     = s3_listObjectVersions (s3 aws) h b v k)
      \<and> (\<forall>h b. s3_getBucketLogging (s3 aws) (without_deletes h) b
                 = s3_getBucketLogging (s3 aws) h b))"

definition listings_succeed :: "aws_clients \<Rightarrow> bool" where
  "listings_succeed aws =
     ((\<forall>h b t. \<exists>resp. s3_listObjectsV2 (s3 aws) h b t = Inr resp)
      \<and> (\<forall>h b v k. \<exists>resp. s3_listObjectVersions (s3 aws) h b v k = Inr resp))"

definition deletes_succeed :: "aws_clients \<Rightarrow> bool" where
  "deletes_succeed aws =
     ((\<forall>h b k v. s3_deleteObject (s3 aws) h b k v = Inr ())
      \<and> (\<forall>h b. s3_deleteBucket (s3 aws) h b = Inr ()))"

text \<open>
  Paging ends when every page that announces a further one moves to a position of smaller
  rank: \<open>ro\<close> ranks the continuation tokens of the object listing, \<open>rv\<close> the pairs of
  version-id marker and key marker of the version listing. The rank of the first position
  then bounds the number of further pages.
\<close>

definition paging_ends ::
  "aws_clients \<Rightarrow> (string option \<Rightarrow> nat) \<Rightarrow> (string option \<times> string option \<Rightarrow> nat) \<Rightarrow> bool" where
  "paging_ends aws ro rv =
     ((\<forall>h b t resp. s3_listObjectsV2 (s3 aws) h b t = Inr resp \<and> truthy (lo_IsTruncated resp)
          \<longrightarrow> ro (lo_NextContinuationToken resp) < ro t)
      \<and> (\<forall>h b v k resp. s3_listObjectVersions (s3 aws) h b v k = Inr resp
                          \<and> truthy (lv_IsTruncated resp)
          \<longrightarrow> rv (lv_NextVersionIdMarker resp, lv_NextKeyMarker resp) < rv (v, k)))"

text \<open>
  A dry computation mirrors a committed one when, started from the committed history with
  the destructive calls left out, it ends the same way with the same history but for the
  destructive calls.
\<close>

definition mirrors :: "'a io \<Rightarrow> 'a io \<Rightarrow> bool" where
  "mirrors dry commit =
     (\<forall>h. dry (without_deletes h) = (fst (commit h), without_deletes (snd (commit h))))"

text \<open>The ranks of the positions on the example storage service.\<close>

definition demo_object_rank :: "string option \<Rightarrow> nat" where
  "demo_object_rank t = (if t = None then 1 else 0)"

definition demo_version_rank :: "string option \<times> string option \<Rightarrow> nat" where
  "demo_version_rank p = 0"

text \<open>
  A storage service for a versioned bucket that holds one object with one version, listed
  one entry a page. Deleting the object without a version id adds a delete marker, which
  the version listing shows from then on, on a second page.
\<close>

definition versioned_s3 :: s3_client where
  "versioned_s3 =
     demo_s3
       \<lparr>s3_listObjectsV2 := (\<lambda>h b t.
           Inr \<lparr>lo_IsTruncated = Some False, lo_NextContinuationToken = None,
                lo_Contents = Some [\<lparr>obj_Key = Some ''a.json''\<rparr>]\<rparr>),
        s3_listObjectVersions := (\<lambda>h b v k.
           if DeleteObject b (Some ''a.json'') None \<in> set h
           then (if k = None
                 then Inr \<lparr>lv_IsTruncated = Some True, lv_NextVersionIdMarker = Some ''v1'',
                           lv_NextKeyMarker = Some ''a.json'',
                           lv_Versions = Some [\<lparr>ver_Key = Some ''a.json'',
                                                ver_VersionId = Some ''v1''\<rparr>],
                           lv_DeleteMarkers = None\<rparr>
                 else Inr \<lparr>lv_IsTruncated = Some False, lv_NextVersionIdMarker = None,
                           lv_NextKeyMarker = None, lv_Versions = None,
                           lv_DeleteMarkers = Some [\<lparr>ver_Key = Some ''a.json'',
                                                     ver_VersionId = Some ''m1''\<rparr>]\<rparr>)
           else Inr \<lparr>lv_IsTruncated = Some False, lv_NextVersionIdMarker = None,
                     lv_NextKeyMarker = None,
                     lv_Versions = Some [\<lparr>ver_Key = Some ''a.json'',
                                          ver_VersionId = Some ''v1''\<rparr>],
                     lv_DeleteMarkers = None\<rparr>)\<rparr>"

definition versioned_aws :: aws_clients where
  "versioned_aws = demo_aws versioned_s3 (flaky_tm (Error []) 0)"

text \<open>
  Settings for the teardown of buckets: one in which the bucket is gone altogether, one in
  which the logging configuration cannot be read, and one in which only the logging target
  \<^verbatim>\<open>demo-logs\<close> is gone, reported with the given message.
\<close>

definition absent_aws :: aws_clients where
  "absent_aws =
     demo_aws
       (demo_s3\<lparr>s3_getBucketLogging :=
                   (\<lambda>h b. Inl (OtherError ''NoSuchBucket'' ''The specified bucket does not exist'')),
                 s3_listObjectsV2 :=
                   (\<lambda>h b t. Inl (NoSuchBucket ''The specified bucket does not exist''))\<rparr>)
       (flaky_tm (Error []) 0)"

definition unreadable_aws :: aws_clients where
  "unreadable_aws =
     demo_aws
       (demo_s3\<lparr>s3_getBucketLogging := (\<lambda>h b. Inl (OtherError ''AccessDenied'' ''Access Denied''))\<rparr>)
       (flaky_tm (Error []) 0)"

definition absent_logs_aws :: "string \<Rightarrow> aws_clients" where
  "absent_logs_aws msg =
     demo_aws
       (demo_s3\<lparr>s3_listObjectsV2 :=
                   (\<lambda>h b t. if b = Some ''demo-logs'' then Inl (NoSuchBucket msg)
                            else s3_listObjectsV2 demo_s3 h b t)\<rparr>)
       (flaky_tm (Error []) 0)"

section \<open>Properties\<close>

subsection \<open>Computations only append to the history\<close>

lemma emitsI: "(\<And>h. \<exists>new. snd (m h) = h @ new \<and> list_all P new) \<Longrightarrow> emits P m"
  by (simp add: emits_def)

lemma emitsD: "emits P m \<Longrightarrow> \<exists>new. snd (m h) = h @ new \<and> list_all P new"
  by (simp add: emits_def)

lemma emits_return [intro!]: "emits P (return_io x)"
  by (simp add: emits_def return_io_def)

lemma emits_throw [intro!]: "emits P (throw e)"
  by (simp add: emits_def throw_def)

lemma emits_running [intro!]: "emits P (\<lambda>h. (Running, h))"
  by (simp add: emits_def)

lemma emits_log [intro!]: "P (Log s) \<Longrightarrow> emits P (console_log s)"
  by (simp add: emits_def console_log_def)

lemma emits_delay [intro!]: "P (Delay n) \<Longrightarrow> emits P (delay n)"
  by (simp add: emits_def delay_def)

lemma emits_call [intro!]: "(\<And>r. P (ev r)) \<Longrightarrow> emits P (call service ev)"
  by (simp add: emits_def call_def Let_def)

lemma emits_bind [intro!]:
  assumes "emits P m" and "\<And>x. emits P (f x)"
  shows "emits P (bind_io m f)"
proof (rule emitsI)
  fix h
  obtain r h1 where m: "m h = (r, h1)" by (cases "m h")
  from emitsD [OF assms(1), of h] m obtain n1 where n1: "h1 = h @ n1" "list_all P n1" by auto
  show "\<exists>new. snd (bind_io m f h) = h @ new \<and> list_all P new"
  proof (cases r)
    case (Returned x)
    from emitsD [OF assms(2), of x h1] obtain n2 where "snd (f x h1) = h1 @ n2" "list_all P n2"
      by auto
    with n1 m Returned show ?thesis
      by (intro exI [of _ "n1 @ n2"]) (simp add: bind_io_def)
  qed (use n1 m in \<open>auto simp: bind_io_def\<close>)
qed

lemma emits_try_catch [intro!]:
  assumes "emits P m" and "\<And>e. emits P (handler e)"
  shows "emits P (try_catch m handler)"
proof (rule emitsI)
  fix h
  obtain r h1 where m: "m h = (r, h1)" by (cases "m h")
  from emitsD [OF assms(1), of h] m obtain n1 where n1: "h1 = h @ n1" "list_all P n1" by auto
  show "\<exists>new. snd (try_catch m handler h) = h @ new \<and> list_all P new"
  proof (cases r)
    case (Thrown e)
    from emitsD [OF assms(2), of e h1] obtain n2 where "snd (handler e h1) = h1 @ n2" "list_all P n2"
      by auto
    with n1 m Thrown show ?thesis
      by (intro exI [of _ "n1 @ n2"]) (simp add: try_catch_def)
  qed (use n1 m in \<open>auto simp: try_catch_def\<close>)
qed

lemma emits_if [intro!]: "(c \<Longrightarrow> emits P m) \<Longrightarrow> (\<not> c \<Longrightarrow> emits P n) \<Longrightarrow> emits P (if c then m else n)"
  by simp

lemma emits_case_option [intro!]:
  "(x = None \<Longrightarrow> emits P m) \<Longrightarrow> (\<And>y. x = Some y \<Longrightarrow> emits P (f y))
     \<Longrightarrow> emits P (case x of None \<Rightarrow> m | Some y \<Rightarrow> f y)"
  by (cases x) simp_all

lemma emits_new_events: "emits P m \<Longrightarrow> list_all P (new_events m h)"
  using emitsD [of P m h] by (auto simp: new_events_def)

lemma emits_extends: "emits P m \<Longrightarrow> snd (m h) = h @ new_events m h"
  using emitsD [of P m h] by (auto simp: new_events_def)

subsection \<open>Retry of workspace creation\<close>

lemma catch_condition:
  "((instanceof_ValidationException err
       \<and> message_includes err ''Could not assume the role provided'')
    \<or> (instanceof_ValidationException err
       \<and> message_includes err ''Could not access S3 with the role provided''))
   = retry_eligible err"
  by (cases err) (simp_all add: retry_eligible_def message_includes_def)

lemma attempt_cases:
  "createWorkspace_attempt aws w r s h =
     (case tm_createWorkspace (tm aws) h w r s of
        Inl e \<Rightarrow> (Thrown e, h @ [CreateWorkspace w r s])
      | Inr None \<Rightarrow> (Thrown (Error ''Failed to create Workspace''), h @ [CreateWorkspace w r s])
      | Inr (Some a) \<Rightarrow>
          if a = [] then (Thrown (Error ''Failed to create Workspace''), h @ [CreateWorkspace w r s])
          else (Returned a, h @ [CreateWorkspace w r s, Log (''Created Workspace: '' @ a)]))"
  by (simp add: createWorkspace_attempt_def bind_io_def call_def throw_def console_log_def
      return_io_def Let_def split: sum.splits option.splits)

lemma retry_step:
  "retryWorkspaceCreation aws w r s attempts h =
     (if attempts > 0 then
        (case createWorkspace_attempt aws w r s h of
           (Thrown err, h1) \<Rightarrow>
             if retry_eligible err
             then retryWorkspaceCreation aws w r s (attempts - 1)
                    (h1 @ [Log ''Waiting for the newly created role to be propagated...'', Delay 2000])
             else (Thrown err, h1)
         | r \<Rightarrow> r)
      else (Thrown (Error ''Retry exhausted''), h))"
  by (subst retryWorkspaceCreation.simps)
     (simp add: catch_condition bind_io_def console_log_def delay_def throw_def
        split: prod.splits outcome.splits)

lemma failed_attempts_Suc:
  "h @ failed_attempts (Suc n) w r s = (h @ failed_attempt w r s) @ failed_attempts n w r s"
  by (simp add: failed_attempts_def)

lemma retry_succeeds_at:
  assumes "\<forall>j<n. \<exists>e. tm_createWorkspace (tm aws) (h @ failed_attempts j w r s) w r s = Inl e
                      \<and> retry_eligible e"
    and "tm_createWorkspace (tm aws) (h @ failed_attempts n w r s) w r s = Inr (Some a)"
    and "a \<noteq> []" and "int n < attempts"
  shows "retryWorkspaceCreation aws w r s attempts h =
           (Returned a, h @ failed_attempts n w r s
                          @ [CreateWorkspace w r s, Log (''Created Workspace: '' @ a)])"
  using assms
proof (induction n arbitrary: h attempts)
  case 0
  then show ?case
    by (subst retry_step) (simp add: attempt_cases failed_attempts_def)
next
  case (Suc n)
  from Suc.prems(1) have first: "\<exists>e. tm_createWorkspace (tm aws) h w r s = Inl e \<and> retry_eligible e"
    by (auto simp: failed_attempts_def dest: spec [of _ 0])
  have later: "\<forall>j<n. \<exists>e. tm_createWorkspace (tm aws)
                  ((h @ failed_attempt w r s) @ failed_attempts j w r s) w r s = Inl e
                \<and> retry_eligible e"
    using Suc.prems(1) by (metis Suc_less_eq failed_attempts_Suc)
  have "retryWorkspaceCreation aws w r s (attempts - 1) (h @ failed_attempt w r s) =
          (Returned a, (h @ failed_attempt w r s) @ failed_attempts n w r s
                          @ [CreateWorkspace w r s, Log (''Created Workspace: '' @ a)])"
    using Suc.prems later by (intro Suc.IH) (simp_all only: failed_attempts_Suc, simp_all)
  with first Suc.prems(4) show ?case
    by (subst retry_step) (auto simp: attempt_cases failed_attempt_def failed_attempts_def)
qed

lemma retry_exhausts:
  assumes "\<forall>j<n. \<exists>e. tm_createWorkspace (tm aws) (h @ failed_attempts j w r s) w r s = Inl e
                      \<and> retry_eligible e"
  shows "retryWorkspaceCreation aws w r s (int n) h =
           (Thrown (Error ''Retry exhausted''), h @ failed_attempts n w r s)"
  using assms
proof (induction n arbitrary: h)
  case 0
  then show ?case by (subst retry_step) (simp add: failed_attempts_def)
next
  case (Suc n)
  from Suc.prems have first: "\<exists>e. tm_createWorkspace (tm aws) h w r s = Inl e \<and> retry_eligible e"
    by (auto simp: failed_attempts_def dest: spec [of _ 0])
  have later: "\<forall>j<n. \<exists>e. tm_createWorkspace (tm aws)
                  ((h @ failed_attempt w r s) @ failed_attempts j w r s) w r s = Inl e
                \<and> retry_eligible e"
    using Suc.prems by (metis Suc_less_eq failed_attempts_Suc)
  have "retryWorkspaceCreation aws w r s (int n) (h @ failed_attempt w r s) =
          (Thrown (Error ''Retry exhausted''), (h @ failed_attempt w r s) @ failed_attempts n w r s)"
    using later by (rule Suc.IH)
  with first show ?case
    by (subst retry_step) (auto simp: attempt_cases failed_attempt_def failed_attempts_def)
qed

lemma attempt_calls:
  "createWorkspace_calls (snd (createWorkspace_attempt aws w r s h)) = Suc (createWorkspace_calls h)"
  by (simp add: attempt_cases createWorkspace_calls_def split: sum.splits option.splits)

lemma retry_calls_bound:
  "createWorkspace_calls (snd (retryWorkspaceCreation aws w r s attempts h))
     \<le> createWorkspace_calls h + nat attempts"
proof (induction "nat attempts" arbitrary: attempts h)
  case 0
  then show ?case by (subst retry_step) simp
next
  case (Suc n)
  then have pos: "attempts > 0" and n: "n = nat (attempts - 1)" by auto
  obtain res h1 where att: "createWorkspace_attempt aws w r s h = (res, h1)"
    by (cases "createWorkspace_attempt aws w r s h")
  then have h1: "createWorkspace_calls h1 = Suc (createWorkspace_calls h)"
    using attempt_calls [of aws w r s h] by simp
  have IH: "createWorkspace_calls (snd (retryWorkspaceCreation aws w r s (attempts - 1)
               (h1 @ [Log ''Waiting for the newly created role to be propagated...'', Delay 2000])))
             \<le> createWorkspace_calls h1 + n"
    using Suc.hyps(1) [OF n, of "h1 @ [Log ''Waiting for the newly created role to be propagated...'', Delay 2000]"] n
    by (simp add: createWorkspace_calls_def)
  show ?case
    using pos att h1 IH Suc.hyps(2)
    by (subst retry_step) (auto split: outcome.splits)
qed


lemma calls_failed_attempts:
  "createWorkspace_calls (h @ failed_attempts j w r s) = createWorkspace_calls h + j"
  by (induction j) (simp_all add: createWorkspace_calls_def failed_attempts_def failed_attempt_def)

text \<open>
  C1. With an attempt budget of 10, \<^verbatim>\<open>retryWorkspaceCreation\<close> issues at most 10
  \<^verbatim>\<open>createWorkspace\<close> calls. If the calls before the \<open>k\<close>-th (\<open>k \<le> 10\<close>) fail with the
  propagation signature and the \<open>k\<close>-th answers with a non-empty arn, that arn is returned
  right after the \<open>k\<close>-th call. If all 10 calls fail with the propagation signature, the
  error \<^verbatim>\<open>Retry exhausted\<close> is thrown after exactly 10 calls.
\<close>

theorem retryWorkspaceCreation_ten_attempts:
  "createWorkspace_calls (snd (retryWorkspaceCreation aws w r s 10 h))
     \<le> createWorkspace_calls h + 10
   \<and> (\<forall>k a. 1 \<le> k \<and> k \<le> 10
         \<and> (\<forall>j<k - 1. \<exists>e. tm_createWorkspace (tm aws) (h @ failed_attempts j w r s) w r s = Inl e
                          \<and> retry_eligible e)
         \<and> tm_createWorkspace (tm aws) (h @ failed_attempts (k - 1) w r s) w r s = Inr (Some a)
         \<and> a \<noteq> []
       \<longrightarrow> retryWorkspaceCreation aws w r s 10 h =
             (Returned a, h @ failed_attempts (k - 1) w r s
                            @ [CreateWorkspace w r s, Log (''Created Workspace: '' @ a)]))
   \<and> ((\<forall>j<10. \<exists>e. tm_createWorkspace (tm aws) (h @ failed_attempts j w r s) w r s = Inl e
                    \<and> retry_eligible e)
       \<longrightarrow> retryWorkspaceCreation aws w r s 10 h =
             (Thrown (Error ''Retry exhausted''), h @ failed_attempts 10 w r s)
           \<and> createWorkspace_calls (h @ failed_attempts 10 w r s) = createWorkspace_calls h + 10)"
proof (intro conjI allI impI)
  show "createWorkspace_calls (snd (retryWorkspaceCreation aws w r s 10 h))
          \<le> createWorkspace_calls h + 10"
    using retry_calls_bound [of aws w r s 10 h] by simp
next
  fix k :: nat and a
  assume A: "1 \<le> k \<and> k \<le> 10
         \<and> (\<forall>j<k - 1. \<exists>e. tm_createWorkspace (tm aws) (h @ failed_attempts j w r s) w r s = Inl e
                          \<and> retry_eligible e)
         \<and> tm_createWorkspace (tm aws) (h @ failed_attempts (k - 1) w r s) w r s = Inr (Some a)
         \<and> a \<noteq> []"
  then have "int (k - 1) < 10" by auto
  with A show "retryWorkspaceCreation aws w r s 10 h =
             (Returned a, h @ failed_attempts (k - 1) w r s
                            @ [CreateWorkspace w r s, Log (''Created Workspace: '' @ a)])"
    by (intro retry_succeeds_at) simp_all
next
  assume A: "\<forall>j<10. \<exists>e. tm_createWorkspace (tm aws) (h @ failed_attempts j w r s) w r s = Inl e
                    \<and> retry_eligible e"
  show "retryWorkspaceCreation aws w r s 10 h =
             (Thrown (Error ''Retry exhausted''), h @ failed_attempts 10 w r s)"
    using retry_exhausts [of 10 aws h w r s] A by simp
next
  show "createWorkspace_calls (h @ failed_attempts 10 w r s) = createWorkspace_calls h + 10"
    by (rule calls_failed_attempts)
qed

lemma lagging_fails:
  "j < n \<Longrightarrow> tm_createWorkspace (tm (lagging_aws n)) (failed_attempts j w r s) w r s
     = Inl (ValidationException ''Could not assume the role provided'')"
  using calls_failed_attempts [of "[]" j w r s]
  by (simp add: lagging_aws_def demo_aws_def flaky_tm_def createWorkspace_calls_def)

lemma lagging_succeeds:
  "tm_createWorkspace (tm (lagging_aws n)) (failed_attempts n w r s) w r s
     = Inr (Some (''arn:aws:iottwinmaker:us-west-2:123456789012:workspace/'' @ w))"
  using calls_failed_attempts [of "[]" n w r s]
  by (simp add: lagging_aws_def demo_aws_def flaky_tm_def createWorkspace_calls_def)

lemma eligible_not_assumable:
  "retry_eligible (ValidationException ''Could not assume the role provided'')"
  by (simp add: retry_eligible_def)

theorem retryWorkspaceCreation_ten_attempts_witness:
  "retryWorkspaceCreation (lagging_aws 9) ''demo'' ''role-arn'' ''bucket-arn'' 10 [] =
     (Returned ''arn:aws:iottwinmaker:us-west-2:123456789012:workspace/demo'',
      failed_attempts 9 ''demo'' ''role-arn'' ''bucket-arn''
        @ [CreateWorkspace ''demo'' ''role-arn'' ''bucket-arn'',
           Log ''Created Workspace: arn:aws:iottwinmaker:us-west-2:123456789012:workspace/demo''])
   \<and> retryWorkspaceCreation (lagging_aws 10) ''demo'' ''role-arn'' ''bucket-arn'' 10 [] =
     (Thrown (Error ''Retry exhausted''), failed_attempts 10 ''demo'' ''role-arn'' ''bucket-arn'')"
proof -
  let ?w = "''demo''" and ?r = "''role-arn''" and ?s = "''bucket-arn''"
  let ?arn = "''arn:aws:iottwinmaker:us-west-2:123456789012:workspace/demo''"
  have f9: "\<forall>j<10 - 1. \<exists>e. tm_createWorkspace (tm (lagging_aws 9))
               ([] @ failed_attempts j ?w ?r ?s) ?w ?r ?s = Inl e \<and> retry_eligible e"
    by (simp add: lagging_fails eligible_not_assumable)
  have s9: "tm_createWorkspace (tm (lagging_aws 9))
               ([] @ failed_attempts (10 - 1) ?w ?r ?s) ?w ?r ?s = Inr (Some ?arn)"
    using lagging_succeeds [of 9 ?w ?r ?s] by simp
  have f10: "\<forall>j<10. \<exists>e. tm_createWorkspace (tm (lagging_aws 10))
               ([] @ failed_attempts j ?w ?r ?s) ?w ?r ?s = Inl e \<and> retry_eligible e"
    by (simp add: lagging_fails eligible_not_assumable)
  have "1 \<le> (10::nat) \<and> (10::nat) \<le> 10
         \<and> (\<forall>j<10 - 1. \<exists>e. tm_createWorkspace (tm (lagging_aws 9))
                 ([] @ failed_attempts j ?w ?r ?s) ?w ?r ?s = Inl e \<and> retry_eligible e)
         \<and> tm_createWorkspace (tm (lagging_aws 9))
                 ([] @ failed_attempts (10 - 1) ?w ?r ?s) ?w ?r ?s = Inr (Some ?arn)
         \<and> ?arn \<noteq> []
       \<longrightarrow> retryWorkspaceCreation (lagging_aws 9) ?w ?r ?s 10 [] =
             (Returned ?arn, [] @ failed_attempts (10 - 1) ?w ?r ?s
                            @ [CreateWorkspace ?w ?r ?s, Log (''Created Workspace: '' @ ?arn)])"
    using retryWorkspaceCreation_ten_attempts [of "lagging_aws 9" ?w ?r ?s "[]"] by blast
  with f9 s9 have one: "retryWorkspaceCreation (lagging_aws 9) ?w ?r ?s 10 [] =
     (Returned ?arn, failed_attempts 9 ?w ?r ?s
        @ [CreateWorkspace ?w ?r ?s, Log (''Created Workspace: '' @ ?arn)])"
    by simp
  from retryWorkspaceCreation_ten_attempts [of "lagging_aws 10" ?w ?r ?s "[]"] f10
  have two: "retryWorkspaceCreation (lagging_aws 10) ?w ?r ?s 10 [] =
     (Thrown (Error ''Retry exhausted''), failed_attempts 10 ?w ?r ?s)"
    by simp
  from one two show ?thesis by simp
qed

lemma attempt_extends: "prefix h (snd (createWorkspace_attempt aws w r s h))"
  by (simp add: attempt_cases split: sum.splits option.splits)

lemma retry_extends: "prefix h (snd (retryWorkspaceCreation aws w r s attempts h))"
proof (induction "nat attempts" arbitrary: attempts h)
  case 0
  then show ?case by (subst retry_step) simp
next
  case (Suc n)
  then have pos: "attempts > 0" and n: "n = nat (attempts - 1)" by auto
  obtain res h1 where att: "createWorkspace_attempt aws w r s h = (res, h1)"
    by (cases "createWorkspace_attempt aws w r s h")
  then have h1: "prefix h h1"
    using attempt_extends [of h aws w r s] by simp
  have "prefix (h1 @ [Log ''Waiting for the newly created role to be propagated...'', Delay 2000])
          (snd (retryWorkspaceCreation aws w r s (attempts - 1)
               (h1 @ [Log ''Waiting for the newly created role to be propagated...'', Delay 2000])))"
    using Suc.hyps(1) [OF n] .
  then have IH: "prefix h (snd (retryWorkspaceCreation aws w r s (attempts - 1)
               (h1 @ [Log ''Waiting for the newly created role to be propagated...'', Delay 2000])))"
    using h1 by (meson prefix_order.trans prefixI)
  show ?case
    using pos att h1 IH
    by (subst retry_step) (auto split: outcome.splits)
qed

lemma retry_first_call:
  assumes "0 < attempts"
  shows "prefix (h @ [CreateWorkspace w r s]) (snd (retryWorkspaceCreation aws w r s attempts h))"
proof -
  obtain res h1 where att: "createWorkspace_attempt aws w r s h = (res, h1)"
    by (cases "createWorkspace_attempt aws w r s h")
  then have h1: "prefix (h @ [CreateWorkspace w r s]) h1"
    by (auto simp: attempt_cases split: sum.splits option.splits if_splits)
  have "prefix h1 (snd (retryWorkspaceCreation aws w r s (attempts - 1)
               (h1 @ [Log ''Waiting for the newly created role to be propagated...'', Delay 2000])))"
    using retry_extends [of "h1 @ [Log ''Waiting for the newly created role to be propagated...'', Delay 2000]"]
    by (meson prefix_order.trans prefixI)
  with h1 have "prefix (h @ [CreateWorkspace w r s])
      (snd (retryWorkspaceCreation aws w r s (attempts - 1)
               (h1 @ [Log ''Waiting for the newly created role to be propagated...'', Delay 2000])))"
    by (rule prefix_order.trans)
  with assms att h1 show ?thesis
    by (subst retry_step) (auto split: outcome.splits)
qed

text \<open>
  C2. When a \<^verbatim>\<open>createWorkspace\<close> call fails inside the loop: if the error is a validation
  exception with one of the two propagation messages, the run logs, sleeps 2000 ms and goes
  round the loop again with one attempt less (with an attempt left, the next event is the
  retried call); for any other error the run ends at once with that error, with no sleep
  and no further call.
\<close>

theorem retry_iff_propagation_error:
  "0 < attempts \<and> tm_createWorkspace (tm aws) h w r s = Inl e \<longrightarrow>
     (retry_eligible e \<longrightarrow>
        retryWorkspaceCreation aws w r s attempts h =
          retryWorkspaceCreation aws w r s (attempts - 1)
            (h @ [CreateWorkspace w r s,
                  Log ''Waiting for the newly created role to be propagated...'', Delay 2000])
        \<and> prefix (h @ [CreateWorkspace w r s,
                  Log ''Waiting for the newly created role to be propagated...'', Delay 2000])
             (snd (retryWorkspaceCreation aws w r s attempts h))
        \<and> (1 < attempts \<longrightarrow>
             prefix (h @ [CreateWorkspace w r s,
                          Log ''Waiting for the newly created role to be propagated...'', Delay 2000,
                          CreateWorkspace w r s])
               (snd (retryWorkspaceCreation aws w r s attempts h))))
   \<and> (\<not> retry_eligible e \<longrightarrow>
        retryWorkspaceCreation aws w r s attempts h = (Thrown e, h @ [CreateWorkspace w r s]))"
proof (intro impI conjI)
  assume A: "0 < attempts \<and> tm_createWorkspace (tm aws) h w r s = Inl e"
  let ?h' = "h @ [CreateWorkspace w r s,
                  Log ''Waiting for the newly created role to be propagated...'', Delay 2000]"
  {
    assume E: "retry_eligible e"
    with A show step: "retryWorkspaceCreation aws w r s attempts h =
          retryWorkspaceCreation aws w r s (attempts - 1) ?h'"
      by (subst retry_step) (simp add: attempt_cases)
    show "prefix ?h' (snd (retryWorkspaceCreation aws w r s attempts h))"
      unfolding step by (rule retry_extends)
    {
      assume "1 < attempts"
      then have "prefix (?h' @ [CreateWorkspace w r s])
                   (snd (retryWorkspaceCreation aws w r s (attempts - 1) ?h'))"
        by (intro retry_first_call) simp
      then show "prefix (h @ [CreateWorkspace w r s,
                          Log ''Waiting for the newly created role to be propagated...'', Delay 2000,
                          CreateWorkspace w r s])
               (snd (retryWorkspaceCreation aws w r s attempts h))"
        unfolding step by simp
    }
  }
  {
    assume "\<not> retry_eligible e"
    with A show "retryWorkspaceCreation aws w r s attempts h = (Thrown e, h @ [CreateWorkspace w r s])"
      by (subst retry_step) (simp add: attempt_cases)
  }
qed

theorem retry_iff_propagation_error_witness:
  "prefix [CreateWorkspace ''demo'' ''role-arn'' ''bucket-arn'',
           Log ''Waiting for the newly created role to be propagated...'', Delay 2000,
           CreateWorkspace ''demo'' ''role-arn'' ''bucket-arn'']
     (snd (retryWorkspaceCreation (lagging_aws 1) ''demo'' ''role-arn'' ''bucket-arn'' 10 []))
   \<and> retryWorkspaceCreation rejecting_aws ''demo'' ''role-arn'' ''bucket-arn'' 10 [] =
       (Thrown (ValidationException ''Workspace id is not valid''),
        [CreateWorkspace ''demo'' ''role-arn'' ''bucket-arn''])"
proof -
  have a: "(0::int) < 10 \<and> tm_createWorkspace (tm (lagging_aws 1)) [] ''demo'' ''role-arn'' ''bucket-arn''
             = Inl (ValidationException ''Could not assume the role provided'')"
    by (simp add: lagging_aws_def demo_aws_def flaky_tm_def createWorkspace_calls_def)
  have b: "(0::int) < 10 \<and> tm_createWorkspace (tm rejecting_aws) [] ''demo'' ''role-arn'' ''bucket-arn''
             = Inl (ValidationException ''Workspace id is not valid'')"
    by (simp add: rejecting_aws_def demo_aws_def flaky_tm_def createWorkspace_calls_def)
  have d: "(1::int) < 10" by simp
  have c: "\<not> retry_eligible (ValidationException ''Workspace id is not valid'')"
    by (simp add: retry_eligible_def)
  from retry_iff_propagation_error [of 10 "lagging_aws 1" "[]" "''demo''" "''role-arn''" "''bucket-arn''"
      "ValidationException ''Could not assume the role provided''"] a eligible_not_assumable d
  have one: "prefix [CreateWorkspace ''demo'' ''role-arn'' ''bucket-arn'',
           Log ''Waiting for the newly created role to be propagated...'', Delay 2000,
           CreateWorkspace ''demo'' ''role-arn'' ''bucket-arn'']
     (snd (retryWorkspaceCreation (lagging_aws 1) ''demo'' ''role-arn'' ''bucket-arn'' 10 []))"
    unfolding append_Nil by blast
  from retry_iff_propagation_error [of 10 rejecting_aws "[]" "''demo''" "''role-arn''" "''bucket-arn''"
      "ValidationException ''Workspace id is not valid''"] b c
  have two: "retryWorkspaceCreation rejecting_aws ''demo'' ''role-arn'' ''bucket-arn'' 10 [] =
       (Thrown (ValidationException ''Workspace id is not valid''),
        [CreateWorkspace ''demo'' ''role-arn'' ''bucket-arn''])"
    unfolding append_Nil by blast
  from one two show ?thesis by simp
qed

subsection \<open>Creating a workspace unless it exists\<close>

lemma createWorkspaceIfNotExists_cases:
  "createWorkspaceIfNotExists aws l w h =
     (case tm_getWorkspace (tm aws) (h @ [Log (''Creating a new Workspace: '' @ w)]) w of
        Inr ws \<Rightarrow>
          (if falsy (gw_workspaceId ws) then Thrown (Error ''Unable to get a valid workspace'')
           else Returned (w, gw_arn ws),
           h @ [Log (''Creating a new Workspace: '' @ w), GetWorkspace w,
                Log ''Found an existing Workspace with the same Id. Skip creating Workspace.''])
      | Inl e \<Rightarrow>
          if instanceof_ResourceNotFoundException e
          then (case prepareWorkspace aws l w
                       (h @ [Log (''Creating a new Workspace: '' @ w), GetWorkspace w]) of
                  (Returned p, h2) \<Rightarrow>
                    (case tm_getWorkspace (tm aws) h2 w of
                       Inl e2 \<Rightarrow> Thrown e2
                     | Inr ws \<Rightarrow>
                         if falsy (gw_workspaceId ws)
                         then Thrown (Error ''Unable to get a valid workspace'')
                         else Returned (w, gw_arn ws),
                     h2 @ [GetWorkspace w])
                | (Thrown e2, h2) \<Rightarrow> (Thrown e2, h2)
                | (Running, h2) \<Rightarrow> (Running, h2))
          else (Thrown (Error (''Failed to get workspace. '' @ error_toString e)),
                h @ [Log (''Creating a new Workspace: '' @ w), GetWorkspace w]))"
  by (simp add: createWorkspaceIfNotExists_def bind_io_def try_catch_def call_def
        console_log_def return_io_def throw_def Let_def
      split: sum.splits prod.splits outcome.splits)

text \<open>
  C3. \<^verbatim>\<open>createWorkspaceIfNotExists\<close> first fetches the workspace by id. If the fetch
  succeeds, the run consists of the fetch and two log lines only, so no provisioning step
  is invoked, and it returns the id with the fetched arn (the fetched record has to carry
  a workspace id). If the fetch fails with resource-not-found, \<^verbatim>\<open>prepareWorkspace\<close> runs
  from there; when it returns, the workspace is fetched again and that record decides the
  result, and when it throws, its error is the result. Any other fetch failure ends the
  run at once with an error that wraps it.
\<close>

theorem createWorkspaceIfNotExists_fetch_first:
  "(\<forall>ws. tm_getWorkspace (tm aws) (h @ [Log (''Creating a new Workspace: '' @ w)]) w = Inr ws \<longrightarrow>
        snd (createWorkspaceIfNotExists aws l w h) =
          h @ [Log (''Creating a new Workspace: '' @ w), GetWorkspace w,
               Log ''Found an existing Workspace with the same Id. Skip creating Workspace.'']
      \<and> (\<not> falsy (gw_workspaceId ws) \<longrightarrow>
           fst (createWorkspaceIfNotExists aws l w h) = Returned (w, gw_arn ws)))
   \<and> (\<forall>m. tm_getWorkspace (tm aws) (h @ [Log (''Creating a new Workspace: '' @ w)]) w
             = Inl (ResourceNotFoundException m) \<longrightarrow>
        (\<forall>p. fst (prepareWorkspace aws l w
                    (h @ [Log (''Creating a new Workspace: '' @ w), GetWorkspace w])) = Returned p \<longrightarrow>
             snd (createWorkspaceIfNotExists aws l w h) =
               snd (prepareWorkspace aws l w
                      (h @ [Log (''Creating a new Workspace: '' @ w), GetWorkspace w]))
               @ [GetWorkspace w]
           \<and> fst (createWorkspaceIfNotExists aws l w h) =
               (case tm_getWorkspace (tm aws)
                       (snd (prepareWorkspace aws l w
                               (h @ [Log (''Creating a new Workspace: '' @ w), GetWorkspace w]))) w of
                  Inl e \<Rightarrow> Thrown e
                | Inr ws \<Rightarrow>
                    if falsy (gw_workspaceId ws)
                    then Thrown (Error ''Unable to get a valid workspace'')
                    else Returned (w, gw_arn ws)))
      \<and> (\<forall>e. fst (prepareWorkspace aws l w
                    (h @ [Log (''Creating a new Workspace: '' @ w), GetWorkspace w])) = Thrown e \<longrightarrow>
             createWorkspaceIfNotExists aws l w h =
               (Thrown e, snd (prepareWorkspace aws l w
                                 (h @ [Log (''Creating a new Workspace: '' @ w), GetWorkspace w])))))
   \<and> (\<forall>e. tm_getWorkspace (tm aws) (h @ [Log (''Creating a new Workspace: '' @ w)]) w = Inl e
            \<and> \<not> instanceof_ResourceNotFoundException e \<longrightarrow>
        createWorkspaceIfNotExists aws l w h =
          (Thrown (Error (''Failed to get workspace. '' @ error_toString e)),
           h @ [Log (''Creating a new Workspace: '' @ w), GetWorkspace w]))"
  by (auto simp: createWorkspaceIfNotExists_cases split: prod.splits sum.splits)

theorem createWorkspaceIfNotExists_fetch_first_witness:
  "fst (createWorkspaceIfNotExists (lagging_aws 0) demo_lib ''Demo'' []) =
     Returned (''Demo'', Some ''arn:aws:iottwinmaker:us-west-2:123456789012:workspace/Demo'')
   \<and> createWorkspaceIfNotExists (lagging_aws 0) demo_lib ''Demo''
        (snd (createWorkspaceIfNotExists (lagging_aws 0) demo_lib ''Demo'' [])) =
       (Returned (''Demo'', Some ''arn:aws:iottwinmaker:us-west-2:123456789012:workspace/Demo''),
        snd (createWorkspaceIfNotExists (lagging_aws 0) demo_lib ''Demo'' [])
          @ [Log ''Creating a new Workspace: Demo'', GetWorkspace ''Demo'',
             Log ''Found an existing Workspace with the same Id. Skip creating Workspace.''])
   \<and> createWorkspaceIfNotExists denied_aws demo_lib ''Demo'' [] =
       (Thrown (Error ''Failed to get workspace. AccessDeniedException: not authorized''),
        [Log ''Creating a new Workspace: Demo'', GetWorkspace ''Demo''])"
proof -
  let ?arn = "''arn:aws:iottwinmaker:us-west-2:123456789012:workspace/Demo''"
  let ?ws = "\<lparr>gw_workspaceId = Some ''Demo'', gw_arn = Some ?arn\<rparr>"
  let ?p = "\<lparr>workspaceArn = ?arn,
     workspaceS3BucketArn = ''arn:aws:s3:::twinmaker-workspace-demo-123456789012-pdx'',
     workspaceRoleArn = ''arn:aws:iam::123456789012:role/twinmaker-workspace-demo-123456789012-pdx'',
     workspaceDashboardRoleArn = ''arn:aws:iam::123456789012:role/twinmaker-workspacedashboardrole-demo-123456789012-pdx''\<rparr>"
  let ?h1 = "snd (createWorkspaceIfNotExists (lagging_aws 0) demo_lib ''Demo'' [])"
  have missing: "tm_getWorkspace (tm (lagging_aws 0)) ([] @ [Log (''Creating a new Workspace: '' @ ''Demo'')])
                  ''Demo'' = Inl (ResourceNotFoundException ''Workspace not found'')"
    by code_simp
  have prepared: "fst (prepareWorkspace (lagging_aws 0) demo_lib ''Demo''
                    ([] @ [Log (''Creating a new Workspace: '' @ ''Demo''), GetWorkspace ''Demo''])) = Returned ?p"
    by code_simp
  have refetch: "tm_getWorkspace (tm (lagging_aws 0))
                   (snd (prepareWorkspace (lagging_aws 0) demo_lib ''Demo''
                     ([] @ [Log (''Creating a new Workspace: '' @ ''Demo''), GetWorkspace ''Demo'']))) ''Demo''
                 = Inr ?ws"
    by code_simp
  have found: "tm_getWorkspace (tm (lagging_aws 0)) (?h1 @ [Log (''Creating a new Workspace: '' @ ''Demo'')])
                  ''Demo'' = Inr ?ws"
    by code_simp
  have valid: "\<not> falsy (gw_workspaceId ?ws)" by (simp add: falsy_def)
  have denied: "tm_getWorkspace (tm denied_aws) ([] @ [Log (''Creating a new Workspace: '' @ ''Demo'')])
                  ''Demo'' = Inl (OtherError ''AccessDeniedException'' ''not authorized'')
                \<and> \<not> instanceof_ResourceNotFoundException
                      (OtherError ''AccessDeniedException'' ''not authorized'')"
    by (simp add: denied_aws_def demo_aws_def)
  note first = createWorkspaceIfNotExists_fetch_first [of "lagging_aws 0" "[]" "''Demo''" demo_lib]
  note second = createWorkspaceIfNotExists_fetch_first [of "lagging_aws 0" ?h1 "''Demo''" demo_lib]
  note third = createWorkspaceIfNotExists_fetch_first [of denied_aws "[]" "''Demo''" demo_lib]
  have one: "fst (createWorkspaceIfNotExists (lagging_aws 0) demo_lib ''Demo'' []) = Returned (''Demo'', Some ?arn)"
    using first missing prepared refetch valid by (simp add: falsy_def)
  have two: "createWorkspaceIfNotExists (lagging_aws 0) demo_lib ''Demo'' ?h1 =
       (Returned (''Demo'', Some ?arn),
        ?h1 @ [Log ''Creating a new Workspace: Demo'', GetWorkspace ''Demo'',
             Log ''Found an existing Workspace with the same Id. Skip creating Workspace.''])"
    using second found valid by (simp add: prod_eq_iff)
  have three: "createWorkspaceIfNotExists denied_aws demo_lib ''Demo'' [] =
       (Thrown (Error ''Failed to get workspace. AccessDeniedException: not authorized''),
        [Log ''Creating a new Workspace: Demo'', GetWorkspace ''Demo''])"
    using third denied by (simp add: tpl_def Let_def)
  from one two three show ?thesis by blast
qed

text \<open>
  C10. Whenever \<^verbatim>\<open>createWorkspaceIfNotExists\<close> returns, the id is the requested one and
  the arn is the arn field of a record that \<^verbatim>\<open>getWorkspace\<close> answered with, the last remote
  call of the run. Only the workspace id of the fetched record is checked: with an id
  present the arn is returned as it is, absent or not. On the provisioning path the value
  returned by \<^verbatim>\<open>prepareWorkspace\<close> does not enter the result, which is read from the
  second fetch.
\<close>

theorem createWorkspaceIfNotExists_arn_from_fetch:
  "(\<forall>i a. fst (createWorkspaceIfNotExists aws l w h) = Returned (i, a) \<longrightarrow>
        i = w
      \<and> (\<exists>h' ws. tm_getWorkspace (tm aws) h' w = Inr ws \<and> \<not> falsy (gw_workspaceId ws)
             \<and> a = gw_arn ws
             \<and> (snd (createWorkspaceIfNotExists aws l w h) = h' @ [GetWorkspace w]
                \<or> snd (createWorkspaceIfNotExists aws l w h) =
                    h' @ [GetWorkspace w,
                          Log ''Found an existing Workspace with the same Id. Skip creating Workspace.''])))
   \<and> (\<forall>ws. tm_getWorkspace (tm aws) (h @ [Log (''Creating a new Workspace: '' @ w)]) w = Inr ws \<longrightarrow>
        fst (createWorkspaceIfNotExists aws l w h) =
          (if falsy (gw_workspaceId ws) then Thrown (Error ''Unable to get a valid workspace'')
           else Returned (w, gw_arn ws)))
   \<and> (\<forall>m p. tm_getWorkspace (tm aws) (h @ [Log (''Creating a new Workspace: '' @ w)]) w
               = Inl (ResourceNotFoundException m)
            \<and> fst (prepareWorkspace aws l w
                    (h @ [Log (''Creating a new Workspace: '' @ w), GetWorkspace w])) = Returned p \<longrightarrow>
        fst (createWorkspaceIfNotExists aws l w h) =
          (case tm_getWorkspace (tm aws)
                  (snd (prepareWorkspace aws l w
                          (h @ [Log (''Creating a new Workspace: '' @ w), GetWorkspace w]))) w of
             Inl e \<Rightarrow> Thrown e
           | Inr ws \<Rightarrow>
               if falsy (gw_workspaceId ws)
               then Thrown (Error ''Unable to get a valid workspace'')
               else Returned (w, gw_arn ws)))"
proof (intro conjI allI impI)
  fix i a
  assume R: "fst (createWorkspaceIfNotExists aws l w h) = Returned (i, a)"
  let ?h0 = "h @ [Log (''Creating a new Workspace: '' @ w)]"
  show "i = w"
    using R by (auto simp: createWorkspaceIfNotExists_cases
                  split: prod.splits sum.splits outcome.splits if_splits)
  show "\<exists>h' ws. tm_getWorkspace (tm aws) h' w = Inr ws \<and> \<not> falsy (gw_workspaceId ws)
             \<and> a = gw_arn ws
             \<and> (snd (createWorkspaceIfNotExists aws l w h) = h' @ [GetWorkspace w]
                \<or> snd (createWorkspaceIfNotExists aws l w h) =
                    h' @ [GetWorkspace w,
                          Log ''Found an existing Workspace with the same Id. Skip creating Workspace.''])"
  proof (cases "tm_getWorkspace (tm aws) ?h0 w")
    case (Inr ws)
    with R show ?thesis
      by (intro exI [of _ ?h0] exI [of _ ws])
         (auto simp: createWorkspaceIfNotExists_cases split: if_splits)
  next
    case (Inl e)
    with R obtain p h2 where P: "prepareWorkspace aws l w (?h0 @ [GetWorkspace w]) = (Returned p, h2)"
      and E: "instanceof_ResourceNotFoundException e"
      by (auto simp: createWorkspaceIfNotExists_cases
            split: prod.splits sum.splits outcome.splits if_splits)
    with R Inl obtain ws where W: "tm_getWorkspace (tm aws) h2 w = Inr ws"
      by (auto simp: createWorkspaceIfNotExists_cases
            split: prod.splits sum.splits outcome.splits if_splits)
    with R Inl P E show ?thesis
      by (intro exI [of _ h2] exI [of _ ws])
         (auto simp: createWorkspaceIfNotExists_cases split: if_splits)
  qed
qed (auto simp: createWorkspaceIfNotExists_cases split: prod.splits sum.splits)

theorem createWorkspaceIfNotExists_arn_from_fetch_witness:
  "fst (createWorkspaceIfNotExists arnless_aws demo_lib ''Demo'' []) = Returned (''Demo'', None)
   \<and> fst (createWorkspaceIfNotExists arnless_aws demo_lib ''Demo''
            [CreateWorkspace ''Demo'' ''role-arn'' ''bucket-arn'']) = Returned (''Demo'', None)"
proof -
  let ?ws = "\<lparr>gw_workspaceId = Some ''Demo'', gw_arn = None\<rparr>"
  let ?p = "\<lparr>workspaceArn = ''arn:aws:iottwinmaker:us-west-2:123456789012:workspace/Demo'',
     workspaceS3BucketArn = ''arn:aws:s3:::twinmaker-workspace-demo-123456789012-pdx'',
     workspaceRoleArn = ''arn:aws:iam::123456789012:role/twinmaker-workspace-demo-123456789012-pdx'',
     workspaceDashboardRoleArn = ''arn:aws:iam::123456789012:role/twinmaker-workspacedashboardrole-demo-123456789012-pdx''\<rparr>"
  have missing: "tm_getWorkspace (tm arnless_aws) ([] @ [Log (''Creating a new Workspace: '' @ ''Demo'')])
                  ''Demo'' = Inl (ResourceNotFoundException ''Workspace not found'')"
    by code_simp
  have prepared: "fst (prepareWorkspace arnless_aws demo_lib ''Demo''
                    ([] @ [Log (''Creating a new Workspace: '' @ ''Demo''), GetWorkspace ''Demo''])) = Returned ?p"
    by code_simp
  have refetch: "tm_getWorkspace (tm arnless_aws)
                   (snd (prepareWorkspace arnless_aws demo_lib ''Demo''
                     ([] @ [Log (''Creating a new Workspace: '' @ ''Demo''), GetWorkspace ''Demo'']))) ''Demo''
                 = Inr ?ws"
    by code_simp
  have found: "tm_getWorkspace (tm arnless_aws)
                 ([CreateWorkspace ''Demo'' ''role-arn'' ''bucket-arn'']
                    @ [Log (''Creating a new Workspace: '' @ ''Demo'')]) ''Demo'' = Inr ?ws"
    by code_simp
  note first = createWorkspaceIfNotExists_arn_from_fetch [of arnless_aws demo_lib "''Demo''" "[]"]
  note second = createWorkspaceIfNotExists_arn_from_fetch [of arnless_aws demo_lib "''Demo''"
      "[CreateWorkspace ''Demo'' ''role-arn'' ''bucket-arn'']"]
  have one: "fst (createWorkspaceIfNotExists arnless_aws demo_lib ''Demo'' []) = Returned (''Demo'', None)"
    using first missing prepared refetch by (simp add: falsy_def)
  have two: "fst (createWorkspaceIfNotExists arnless_aws demo_lib ''Demo''
            [CreateWorkspace ''Demo'' ''role-arn'' ''bucket-arn'']) = Returned (''Demo'', None)"
    using second found by (simp add: falsy_def)
  from one two show ?thesis by blast
qed

subsection \<open>Derived resource names\<close>

lemma createS3Bucket_emits:
  "emits (\<lambda>e. set (created_names e) \<subseteq> {b}) (createS3Bucket aws b r)"
  unfolding createS3Bucket_def by (intro emits_bind emits_call emits_log) simp_all

lemma enableAccessLogging_emits:
  "emits (\<lambda>e. created_names e = []) (enableAccessLogging aws s t)"
  unfolding enableAccessLogging_def grantPermissionsToWriteLogs_def putBucketLogging_def
  by (intro emits_bind emits_try_catch emits_call emits_return) simp_all

lemma emits_mono: "emits P m \<Longrightarrow> (\<And>e. P e \<Longrightarrow> Q e) \<Longrightarrow> emits Q m"
  unfolding emits_def list_all_iff by metis

lemma createWorkspaceS3Bucket_emits:
  "emits (\<lambda>e. set (created_names e)
            \<subseteq> {workspaceS3BucketName l w a r, workspaceS3BucketName l w a r @ ''-logs''})
     (createWorkspaceS3Bucket aws l w a r)"
  unfolding createWorkspaceS3Bucket_def
  by (intro emits_bind emits_call emits_log emits_return
        emits_mono [OF createS3Bucket_emits] emits_mono [OF enableAccessLogging_emits]) auto

lemma createRoleAndPolicy_emits:
  "emits (\<lambda>e. set (created_names e) \<subseteq> {roleName l w a r ty, policyName l w a r ty})
     (createRoleAndPolicy aws l w a r ty ap rp)"
  unfolding createRoleAndPolicy_def
  by (intro emits_bind emits_call emits_log emits_return emits_case_option emits_if emits_throw)
     simp_all

lemma roleName_lowercase: "lower_casing_settles l \<Longrightarrow> lowercase l (roleName l w a r ty)"
  by (cases ty) (simp_all add: lower_casing_settles_def lowercase_def roleName_def)

lemma policyName_lowercase: "lower_casing_settles l \<Longrightarrow> lowercase l (policyName l w a r ty)"
  by (cases ty) (simp_all add: lower_casing_settles_def lowercase_def policyName_def)

lemma bucketName_lowercase:
  "lower_casing_settles l \<Longrightarrow> lowercase l (workspaceS3BucketName l w a r)"
  by (simp add: lower_casing_settles_def lowercase_def workspaceS3BucketName_def)

lemma ascii_lower_char_settles: "ascii_lower_char (ascii_lower_char c) = ascii_lower_char c"
proof (cases "65 \<le> (of_char c :: nat) \<and> (of_char c :: nat) \<le> 90")
  case True
  then have "(of_char (char_of ((of_char c :: nat) + 32) :: char) :: nat) = of_char c + 32"
    by simp
  with True show ?thesis by (simp add: ascii_lower_char_def)
next
  case False
  then show ?thesis by (auto simp: ascii_lower_char_def)
qed

lemma demo_lower_casing_settles: "lower_casing_settles demo_lib"
  by (simp add: lower_casing_settles_def demo_lib_def ascii_toLowerCase_def
        ascii_lower_char_settles)

text \<open>
  C6. Whatever the services answer and whatever happened before, every role and policy that
  \<^verbatim>\<open>createRoleAndPolicy\<close> creates is named \<open>roleName\<close> or \<open>policyName\<close>, and every bucket
  that \<^verbatim>\<open>createWorkspaceS3Bucket\<close> creates is named \<open>workspaceS3BucketName\<close>, with the
  suffix \<^verbatim>\<open>-logs\<close> for the logging bucket: functions of the workspace id, the account id
  and the region alone (and of the role kind), so the same inputs give the same names in
  every call. Each of the five derived names is a result of the built-in lower-casing,
  applied to the whole template, so it is lower-case: lower-casing it again changes nothing,
  given that the built-in lower-casing settles.
\<close>

theorem derived_names_deterministic_lowercase:
  "(\<forall>n \<in> set (concat (map created_names
                    (new_events (createRoleAndPolicy aws l w a r ty ap rp) h))).
       n = roleName l w a r ty \<or> n = policyName l w a r ty)
   \<and> (\<forall>n \<in> set (concat (map created_names
                    (new_events (createWorkspaceS3Bucket aws l w a r) h))).
       n = workspaceS3BucketName l w a r \<or> n = workspaceS3BucketName l w a r @ ''-logs'')
   \<and> roleName l w a r ty \<in> range (toLowerCase l)
   \<and> policyName l w a r ty \<in> range (toLowerCase l)
   \<and> workspaceS3BucketName l w a r \<in> range (toLowerCase l)
   \<and> (lower_casing_settles l \<longrightarrow>
        lowercase l (roleName l w a r ty) \<and> lowercase l (policyName l w a r ty)
        \<and> lowercase l (workspaceS3BucketName l w a r))"
proof (intro conjI ballI impI)
  show "roleName l w a r ty \<in> range (toLowerCase l)"
    by (cases ty) (simp_all add: roleName_def)
  show "policyName l w a r ty \<in> range (toLowerCase l)"
    by (cases ty) (simp_all add: policyName_def)
  show "workspaceS3BucketName l w a r \<in> range (toLowerCase l)"
    by (simp add: workspaceS3BucketName_def)
next
  fix n
  assume "n \<in> set (concat (map created_names
                     (new_events (createRoleAndPolicy aws l w a r ty ap rp) h)))"
  with emits_new_events [OF createRoleAndPolicy_emits, of l w a r ty aws ap rp h]
  show "n = roleName l w a r ty \<or> n = policyName l w a r ty"
    by (auto simp: list_all_iff)
next
  fix n
  assume "n \<in> set (concat (map created_names (new_events (createWorkspaceS3Bucket aws l w a r) h)))"
  with emits_new_events [OF createWorkspaceS3Bucket_emits, of l w a r aws h]
  show "n = workspaceS3BucketName l w a r \<or> n = workspaceS3BucketName l w a r @ ''-logs''"
    by (auto simp: list_all_iff)
next
  assume "lower_casing_settles l"
  then show "lowercase l (roleName l w a r ty)" by (rule roleName_lowercase)
next
  assume "lower_casing_settles l"
  then show "lowercase l (policyName l w a r ty)" by (rule policyName_lowercase)
next
  assume "lower_casing_settles l"
  then show "lowercase l (workspaceS3BucketName l w a r)" by (rule bucketName_lowercase)
qed

theorem derived_names_deterministic_lowercase_witness:
  "concat (map created_names
       (new_events (createRoleAndPolicy (lagging_aws 0) demo_lib ''Demo'' ''123456789012'' ''PDX''
          WorkspaceDashboardRole ''{}'' ''{}'') [])) =
     [''twinmaker-workspacedashboardrole-demo-123456789012-pdx'',
      ''twinmaker-workspacedashboardrole-demo-123456789012-pdx-autopolicy'']
   \<and> roleName demo_lib ''Demo'' ''123456789012'' ''PDX'' WorkspaceDashboardRole =
       ''twinmaker-workspacedashboardrole-demo-123456789012-pdx''
   \<and> policyName demo_lib ''Demo'' ''123456789012'' ''PDX'' WorkspaceDashboardRole =
       ''twinmaker-workspacedashboardrole-demo-123456789012-pdx-autopolicy''
   \<and> concat (map created_names
       (new_events (createWorkspaceS3Bucket (lagging_aws 0) demo_lib ''Demo'' ''123456789012''
          ''us-west-2'') [])) =
     [''twinmaker-workspace-demo-123456789012-pdx'',
      ''twinmaker-workspace-demo-123456789012-pdx-logs'']
   \<and> workspaceS3BucketName demo_lib ''Demo'' ''123456789012'' ''us-west-2'' =
       ''twinmaker-workspace-demo-123456789012-pdx''
   \<and> toLowerCase demo_lib ''twinmaker-workspacedashboardrole-demo-123456789012-pdx'' =
       ''twinmaker-workspacedashboardrole-demo-123456789012-pdx''
   \<and> toLowerCase demo_lib ''twinmaker-workspacedashboardrole-demo-123456789012-pdx-autopolicy'' =
       ''twinmaker-workspacedashboardrole-demo-123456789012-pdx-autopolicy''
   \<and> toLowerCase demo_lib ''twinmaker-workspace-demo-123456789012-pdx'' =
       ''twinmaker-workspace-demo-123456789012-pdx''"
proof -
  note T = derived_names_deterministic_lowercase [of "lagging_aws 0" demo_lib "''Demo''"
      "''123456789012''" "''PDX''" WorkspaceDashboardRole "''{}''" "''{}''" "[]"]
  note B = derived_names_deterministic_lowercase [of "lagging_aws 0" demo_lib "''Demo''"
      "''123456789012''" "''us-west-2''" WorkspaceDashboardRole "''{}''" "''{}''" "[]"]
  have rn: "roleName demo_lib ''Demo'' ''123456789012'' ''PDX'' WorkspaceDashboardRole =
       ''twinmaker-workspacedashboardrole-demo-123456789012-pdx''"
    by code_simp
  have pn: "policyName demo_lib ''Demo'' ''123456789012'' ''PDX'' WorkspaceDashboardRole =
       ''twinmaker-workspacedashboardrole-demo-123456789012-pdx-autopolicy''"
    by code_simp
  have bn: "workspaceS3BucketName demo_lib ''Demo'' ''123456789012'' ''us-west-2'' =
       ''twinmaker-workspace-demo-123456789012-pdx''"
    by code_simp
  have roles: "concat (map created_names
       (new_events (createRoleAndPolicy (lagging_aws 0) demo_lib ''Demo'' ''123456789012'' ''PDX''
          WorkspaceDashboardRole ''{}'' ''{}'') [])) =
     [''twinmaker-workspacedashboardrole-demo-123456789012-pdx'',
      ''twinmaker-workspacedashboardrole-demo-123456789012-pdx-autopolicy'']"
    by code_simp
  have buckets: "concat (map created_names
       (new_events (createWorkspaceS3Bucket (lagging_aws 0) demo_lib ''Demo'' ''123456789012''
          ''us-west-2'') [])) =
     [''twinmaker-workspace-demo-123456789012-pdx'',
      ''twinmaker-workspace-demo-123456789012-pdx-logs'']"
    by code_simp
  from T demo_lower_casing_settles
  have "lowercase demo_lib (roleName demo_lib ''Demo'' ''123456789012'' ''PDX'' WorkspaceDashboardRole)"
    and "lowercase demo_lib (policyName demo_lib ''Demo'' ''123456789012'' ''PDX'' WorkspaceDashboardRole)"
    by blast+
  moreover from B demo_lower_casing_settles
  have "lowercase demo_lib (workspaceS3BucketName demo_lib ''Demo'' ''123456789012'' ''us-west-2'')"
    by blast
  ultimately have low:
    "toLowerCase demo_lib ''twinmaker-workspacedashboardrole-demo-123456789012-pdx'' =
       ''twinmaker-workspacedashboardrole-demo-123456789012-pdx''"
    "toLowerCase demo_lib ''twinmaker-workspacedashboardrole-demo-123456789012-pdx-autopolicy'' =
       ''twinmaker-workspacedashboardrole-demo-123456789012-pdx-autopolicy''"
    "toLowerCase demo_lib ''twinmaker-workspace-demo-123456789012-pdx'' =
       ''twinmaker-workspace-demo-123456789012-pdx''"
    unfolding lowercase_def rn pn bn by blast+
  with rn pn bn roles buckets show ?thesis by blast
qed

subsection \<open>Access logging is best effort\<close>

text \<open>
  C8. \<^verbatim>\<open>grantPermissionsToWriteLogs\<close> and \<^verbatim>\<open>putBucketLogging\<close> never throw: each returns
  whether its call succeeded. \<^verbatim>\<open>enableAccessLogging\<close> runs both and returns. The result
  and the history of \<^verbatim>\<open>createWorkspaceS3Bucket\<close> are the same whatever the two calls
  answer, so a failure of either cannot make it fail.
\<close>

theorem logging_setup_never_fails_provisioning:
  "grantPermissionsToWriteLogs aws b h =
     (Returned (case s3_putBucketAcl (s3 aws) h b of Inl e \<Rightarrow> False | Inr u \<Rightarrow> True),
      h @ [PutBucketAcl b])
   \<and> putBucketLogging aws s t h =
     (Returned (case s3_putBucketLogging (s3 aws) h s t of Inl e \<Rightarrow> False | Inr u \<Rightarrow> True),
      h @ [PutBucketLogging s t])
   \<and> enableAccessLogging aws s t h = (Returned True, h @ [PutBucketAcl t, PutBucketLogging s t])
   \<and> createWorkspaceS3Bucket
       (aws\<lparr>s3 := (s3 aws)\<lparr>s3_putBucketAcl := acl, s3_putBucketLogging := logging\<rparr>\<rparr>) l w a r h
     = createWorkspaceS3Bucket aws l w a r h"
proof (intro conjI)
  show g: "\<And>aws b h. grantPermissionsToWriteLogs aws b h =
     (Returned (case s3_putBucketAcl (s3 aws) h b of Inl e \<Rightarrow> False | Inr u \<Rightarrow> True),
      h @ [PutBucketAcl b])"
    by (simp add: grantPermissionsToWriteLogs_def try_catch_def bind_io_def call_def return_io_def
          Let_def split: sum.splits)
  show p: "\<And>aws s t h. putBucketLogging aws s t h =
     (Returned (case s3_putBucketLogging (s3 aws) h s t of Inl e \<Rightarrow> False | Inr u \<Rightarrow> True),
      h @ [PutBucketLogging s t])"
    by (simp add: putBucketLogging_def try_catch_def bind_io_def call_def return_io_def
          Let_def split: sum.splits)
  show e: "\<And>aws s t h. enableAccessLogging aws s t h =
             (Returned True, h @ [PutBucketAcl t, PutBucketLogging s t])"
    by (simp add: enableAccessLogging_def g p try_catch_def bind_io_def return_io_def)
  have c: "createS3Bucket (aws\<lparr>s3 := (s3 aws)\<lparr>s3_putBucketAcl := acl, s3_putBucketLogging := logging\<rparr>\<rparr>)
             = createS3Bucket aws"
    by (intro ext) (simp add: createS3Bucket_def)
  have "createWorkspaceS3Bucket
          (aws\<lparr>s3 := (s3 aws)\<lparr>s3_putBucketAcl := acl, s3_putBucketLogging := logging\<rparr>\<rparr>) l w a r
        = createWorkspaceS3Bucket aws l w a r"
    unfolding createWorkspaceS3Bucket_def c
    by (simp add: e [abs_def])
  then show "createWorkspaceS3Bucket
       (aws\<lparr>s3 := (s3 aws)\<lparr>s3_putBucketAcl := acl, s3_putBucketLogging := logging\<rparr>\<rparr>) l w a r h
     = createWorkspaceS3Bucket aws l w a r h"
    by simp
qed

theorem logging_setup_never_fails_provisioning_witness:
  "grantPermissionsToWriteLogs (demo_aws unlogged_s3 (flaky_tm (Error []) 0)) ''demo-logs'' [] =
     (Returned False, [PutBucketAcl ''demo-logs''])
   \<and> putBucketLogging (demo_aws unlogged_s3 (flaky_tm (Error []) 0)) ''demo'' ''demo-logs'' [] =
     (Returned False, [PutBucketLogging ''demo'' ''demo-logs''])
   \<and> fst (createWorkspaceS3Bucket (demo_aws unlogged_s3 (flaky_tm (Error []) 0)) demo_lib ''Demo''
            ''123456789012'' ''us-west-2'' []) =
       Returned (''twinmaker-workspace-demo-123456789012-pdx'',
                 ''arn:aws:s3:::twinmaker-workspace-demo-123456789012-pdx'')"
proof -
  let ?aws = "demo_aws unlogged_s3 (flaky_tm (Error []) 0)"
  note T = logging_setup_never_fails_provisioning
  have acl: "s3_putBucketAcl (s3 ?aws) [] ''demo-logs''
               = Inl (OtherError ''AccessControlListNotSupported'' ''The bucket does not allow ACLs'')"
    by (simp add: demo_aws_def unlogged_s3_def)
  have logging: "s3_putBucketLogging (s3 ?aws) [] ''demo'' ''demo-logs''
               = Inl (OtherError ''InvalidTargetBucketForLogging'' ''The target bucket is not writable'')"
    by (simp add: demo_aws_def unlogged_s3_def)
  have upd: "?aws = (demo_aws demo_s3 (flaky_tm (Error []) 0))
               \<lparr>s3 := (s3 (demo_aws demo_s3 (flaky_tm (Error []) 0)))
                  \<lparr>s3_putBucketAcl := s3_putBucketAcl unlogged_s3,
                   s3_putBucketLogging := s3_putBucketLogging unlogged_s3\<rparr>\<rparr>"
    by (simp add: demo_aws_def unlogged_s3_def)
  have plain: "fst (createWorkspaceS3Bucket (demo_aws demo_s3 (flaky_tm (Error []) 0)) demo_lib ''Demo''
            ''123456789012'' ''us-west-2'' []) =
       Returned (''twinmaker-workspace-demo-123456789012-pdx'',
                 ''arn:aws:s3:::twinmaker-workspace-demo-123456789012-pdx'')"
    by code_simp
  have one: "grantPermissionsToWriteLogs ?aws ''demo-logs'' [] =
     (Returned False, [PutBucketAcl ''demo-logs''])"
    using T [where aws = ?aws and b = "''demo-logs''" and h = "[]"] acl by simp
  have two: "putBucketLogging ?aws ''demo'' ''demo-logs'' [] =
     (Returned False, [PutBucketLogging ''demo'' ''demo-logs''])"
    using T [where aws = ?aws and h = "[]" and s = "''demo''" and t = "''demo-logs''"] logging by simp
  have three: "fst (createWorkspaceS3Bucket ?aws demo_lib ''Demo'' ''123456789012'' ''us-west-2'' []) =
       Returned (''twinmaker-workspace-demo-123456789012-pdx'',
                 ''arn:aws:s3:::twinmaker-workspace-demo-123456789012-pdx'')"
    using T [where aws = "demo_aws demo_s3 (flaky_tm (Error []) 0)" and h = "[]"
               and acl = "s3_putBucketAcl unlogged_s3" and logging = "s3_putBucketLogging unlogged_s3"
               and l = demo_lib and w = "''Demo''" and a = "''123456789012''"
               and r = "''us-west-2''"] plain
    unfolding upd by simp
  from one two three show ?thesis by blast
qed

subsection \<open>Role teardown\<close>

text \<open>What a returned step tells about its parts.\<close>


lemma bind_io_Returned:
  "bind_io m f h = (Returned y, h') \<longleftrightarrow> (\<exists>x h1. m h = (Returned x, h1) \<and> f x h1 = (Returned y, h'))"
  by (auto simp: bind_io_def split: prod.splits outcome.splits)

lemma call_Returned:
  "call service ev h = (Returned x, h') \<longleftrightarrow> (service h = Inr x \<and> h' = h @ [ev (Inr x)])"
  by (auto simp: call_def Let_def split: sum.splits)

lemma console_log_eq: "console_log s h = (r, h') \<longleftrightarrow> (r = Returned () \<and> h' = h @ [Log s])"
  by (auto simp: console_log_def)

lemma return_io_eq: "return_io x h = (r, h') \<longleftrightarrow> (r = Returned x \<and> h' = h)"
  by (auto simp: return_io_def)

lemma removeRoleFromInstanceProfiles_returned:
  "removeRoleFromInstanceProfiles aws r ps h = (Returned u, h') \<Longrightarrow> h' = h @ profile_events r ps"
proof (induction ps arbitrary: h)
  case Nil
  then show ?case by (simp add: return_io_eq profile_events_def)
next
  case (Cons p ps)
  from Cons.prems have "removeRoleFromInstanceProfiles aws r ps
      (h @ [RemoveRoleFromInstanceProfile r (InstanceProfileName p),
            Log (''removed role from instance profile: '' @ tpl (InstanceProfileName p))])
      = (Returned u, h')"
    by (auto simp: bind_io_Returned call_Returned console_log_eq)
  from Cons.IH [OF this] show ?case by (simp add: profile_events_def)
qed

lemma deleteRolePolicies_returned:
  "deleteRolePolicies aws r ns h = (Returned u, h') \<Longrightarrow> h' = h @ inline_policy_events r ns"
proof (induction ns arbitrary: h)
  case Nil
  then show ?case by (simp add: return_io_eq inline_policy_events_def)
next
  case (Cons n ns)
  from Cons.prems have "deleteRolePolicies aws r ns
      (h @ [DeleteRolePolicy r n, Log (''deleted policy: '' @ n)]) = (Returned u, h')"
    by (auto simp: bind_io_Returned call_Returned console_log_eq)
  from Cons.IH [OF this] show ?case by (simp add: inline_policy_events_def)
qed

lemma detachAndDeletePolicies_returned:
  "detachAndDeletePolicies aws r ps h = (Returned u, h') \<Longrightarrow> h' = h @ attached_policy_events r ps"
proof (induction ps arbitrary: h)
  case Nil
  then show ?case by (simp add: return_io_eq attached_policy_events_def)
next
  case (Cons p ps)
  from Cons.prems have "detachAndDeletePolicies aws r ps
      (h @ [DetachRolePolicy r (PolicyArn p), DeletePolicy (PolicyArn p),
            Log (''detached and deleted policy: '' @ tpl (PolicyName p))]) = (Returned u, h')"
    by (auto simp: bind_io_Returned call_Returned console_log_eq)
  from Cons.IH [OF this] show ?case by (simp add: attached_policy_events_def)
qed

lemma deleteIAMroleAndPolicy_returned:
  assumes "deleteIAMroleAndPolicy aws r h = (Returned u, h')"
  shows "\<exists>ips pols atts.
      iam_listInstanceProfilesForRole (iam aws) h r = Inr ips
    \<and> iam_listRolePolicies (iam aws)
        (h @ [ListInstanceProfilesForRole r] @ profile_events r (entries ips)) r = Inr pols
    \<and> iam_listAttachedRolePolicies (iam aws)
        (h @ [ListInstanceProfilesForRole r] @ profile_events r (entries ips)
           @ [ListRolePolicies r] @ inline_policy_events r (entries pols)) r = Inr atts
    \<and> h' = h @ role_teardown_events r ips pols atts"
proof -
  from assms obtain ips h1 u1 h2 pols h3 u2 h4 atts h5 u3 h6 where
    s1: "iam_listInstanceProfilesForRole (iam aws) h r = Inr ips"
        "h1 = h @ [ListInstanceProfilesForRole r]"
    and s2: "(case ips of None \<Rightarrow> return_io ()
              | Some ps \<Rightarrow> removeRoleFromInstanceProfiles aws r ps) h1 = (Returned u1, h2)"
    and s3: "iam_listRolePolicies (iam aws) h2 r = Inr pols" "h3 = h2 @ [ListRolePolicies r]"
    and s4: "(case pols of None \<Rightarrow> return_io ()
              | Some ns \<Rightarrow> deleteRolePolicies aws r ns) h3 = (Returned u2, h4)"
    and s5: "iam_listAttachedRolePolicies (iam aws) h4 r = Inr atts"
        "h5 = h4 @ [ListAttachedRolePolicies r]"
    and s6: "(case atts of None \<Rightarrow> return_io ()
              | Some ps \<Rightarrow> detachAndDeletePolicies aws r ps) h5 = (Returned u3, h6)"
    and s7: "h' = h6 @ [DeleteRole r, Log (''deleted role: '' @ tpl r)]"
    unfolding deleteIAMroleAndPolicy_def bind_io_Returned call_Returned console_log_eq
    by auto
  from s2 have h2: "h2 = h1 @ profile_events r (entries ips)"
    by (cases ips) (auto simp: entries_def return_io_eq profile_events_def
                      dest: removeRoleFromInstanceProfiles_returned)
  from s4 have h4: "h4 = h3 @ inline_policy_events r (entries pols)"
    by (cases pols) (auto simp: entries_def return_io_eq inline_policy_events_def
                      dest: deleteRolePolicies_returned)
  from s6 have h6: "h6 = h5 @ attached_policy_events r (entries atts)"
    by (cases atts) (auto simp: entries_def return_io_eq attached_policy_events_def
                      dest: detachAndDeletePolicies_returned)
  from s1 s3 s5 s7 h2 h4 h6 show ?thesis
    by (simp add: role_teardown_events_def)
qed


lemma removeRoleFromInstanceProfiles_succeeds:
  "\<forall>h p. iam_removeRoleFromInstanceProfile (iam aws) h r p = Inr ()
     \<Longrightarrow> removeRoleFromInstanceProfiles aws r ps h = (Returned (), h @ profile_events r ps)"
  by (induction ps arbitrary: h)
     (simp_all add: return_io_def bind_io_def call_def console_log_def profile_events_def)

lemma deleteRolePolicies_succeeds:
  "\<forall>h n. iam_deleteRolePolicy (iam aws) h r n = Inr ()
     \<Longrightarrow> deleteRolePolicies aws r ns h = (Returned (), h @ inline_policy_events r ns)"
  by (induction ns arbitrary: h)
     (simp_all add: return_io_def bind_io_def call_def console_log_def inline_policy_events_def)

lemma detachAndDeletePolicies_succeeds:
  "\<forall>h a. iam_detachRolePolicy (iam aws) h r a = Inr () \<Longrightarrow>
   \<forall>h a. iam_deletePolicy (iam aws) h a = Inr ()
     \<Longrightarrow> detachAndDeletePolicies aws r ps h = (Returned (), h @ attached_policy_events r ps)"
  by (induction ps arbitrary: h)
     (simp_all add: return_io_def bind_io_def call_def console_log_def attached_policy_events_def)

lemma deleteIAMroleAndPolicy_succeeds:
  assumes "iam_calls_succeed aws"
  shows "fst (deleteIAMroleAndPolicy aws r h) = Returned ()"
proof -
  from assms have rm: "\<forall>h p. iam_removeRoleFromInstanceProfile (iam aws) h r p = Inr ()"
    and dp: "\<forall>h n. iam_deleteRolePolicy (iam aws) h r n = Inr ()"
    and dt: "\<forall>h a. iam_detachRolePolicy (iam aws) h r a = Inr ()"
    and dl: "\<forall>h a. iam_deletePolicy (iam aws) h a = Inr ()"
    and dr: "\<forall>h. iam_deleteRole (iam aws) h r = Inr ()"
    by (simp_all add: iam_calls_succeed_def)
  from assms have l1: "\<And>h. \<exists>x. iam_listInstanceProfilesForRole (iam aws) h r = Inr x"
    and l2: "\<And>h. \<exists>x. iam_listRolePolicies (iam aws) h r = Inr x"
    and l3: "\<And>h. \<exists>x. iam_listAttachedRolePolicies (iam aws) h r = Inr x"
    by (simp_all add: iam_calls_succeed_def)
  obtain ips where ips: "iam_listInstanceProfilesForRole (iam aws) h r = Inr ips"
    using l1 by blast
  let ?h2 = "h @ [ListInstanceProfilesForRole r] @ profile_events r (entries ips)"
  obtain pols where pols: "iam_listRolePolicies (iam aws) ?h2 r = Inr pols"
    using l2 by blast
  let ?h4 = "?h2 @ [ListRolePolicies r] @ inline_policy_events r (entries pols)"
  obtain atts where atts: "iam_listAttachedRolePolicies (iam aws) ?h4 r = Inr atts"
    using l3 by blast
  have a: "(case ips of None \<Rightarrow> return_io ()
            | Some ps \<Rightarrow> removeRoleFromInstanceProfiles aws r ps) h1
           = (Returned (), h1 @ profile_events r (entries ips))" for h1
    using removeRoleFromInstanceProfiles_succeeds [OF rm]
    by (cases ips) (simp_all add: entries_def return_io_def profile_events_def)
  have b: "(case pols of None \<Rightarrow> return_io ()
            | Some ns \<Rightarrow> deleteRolePolicies aws r ns) h1
           = (Returned (), h1 @ inline_policy_events r (entries pols))" for h1
    using deleteRolePolicies_succeeds [OF dp]
    by (cases pols) (simp_all add: entries_def return_io_def inline_policy_events_def)
  have c: "(case atts of None \<Rightarrow> return_io ()
            | Some ps \<Rightarrow> detachAndDeletePolicies aws r ps) h1
           = (Returned (), h1 @ attached_policy_events r (entries atts))" for h1
    using detachAndDeletePolicies_succeeds [OF dt dl]
    by (cases atts) (simp_all add: entries_def return_io_def attached_policy_events_def)
  show ?thesis
    using ips pols atts dr
    by (simp add: deleteIAMroleAndPolicy_def bind_io_def call_def console_log_def a b c)
qed


lemma ordered_withinI:
  "(\<And>h. \<exists>new. snd (m h) = h @ new
            \<and> sorted (map iam_phase (remote_calls new))
            \<and> list_all (\<lambda>e. lo \<le> iam_phase e \<and> iam_phase e \<le> hi) (remote_calls new))
   \<Longrightarrow> ordered_within lo hi m"
  by (simp add: ordered_within_def)

lemma ordered_withinD:
  "ordered_within lo hi m \<Longrightarrow>
     \<exists>new. snd (m h) = h @ new
            \<and> sorted (map iam_phase (remote_calls new))
            \<and> list_all (\<lambda>e. lo \<le> iam_phase e \<and> iam_phase e \<le> hi) (remote_calls new)"
  by (simp add: ordered_within_def)

lemma ordered_return: "ordered_within lo hi (return_io x)"
  by (simp add: ordered_within_def return_io_def remote_calls_def)

lemma ordered_log: "ordered_within lo hi (console_log s)"
  by (simp add: ordered_within_def console_log_def remote_calls_def)

lemma ordered_call:
  "(\<And>r. lo \<le> iam_phase (ev r) \<and> iam_phase (ev r) \<le> hi) \<Longrightarrow> ordered_within lo hi (call service ev)"
  by (simp add: ordered_within_def call_def Let_def remote_calls_def)

lemma ordered_bind:
  assumes m: "ordered_within a b m" and f: "\<And>x. ordered_within c d (f x)"
    and le: "b \<le> c" "a \<le> c" "b \<le> d"
  shows "ordered_within a d (bind_io m f)"
proof (rule ordered_withinI)
  fix h
  obtain res h1 where mh: "m h = (res, h1)" by (cases "m h")
  from ordered_withinD [OF m, of h] mh obtain n1 where n1: "h1 = h @ n1"
    "sorted (map iam_phase (remote_calls n1))"
    "list_all (\<lambda>e. a \<le> iam_phase e \<and> iam_phase e \<le> b) (remote_calls n1)"
    by auto
  have weak: "list_all (\<lambda>e. a \<le> iam_phase e \<and> iam_phase e \<le> d) (remote_calls n1)"
    using n1(3) le by (auto simp: list_all_iff)
  show "\<exists>new. snd (bind_io m f h) = h @ new
            \<and> sorted (map iam_phase (remote_calls new))
            \<and> list_all (\<lambda>e. a \<le> iam_phase e \<and> iam_phase e \<le> d) (remote_calls new)"
  proof (cases res)
    case (Returned x)
    from ordered_withinD [OF f, of x h1] obtain n2 where n2: "snd (f x h1) = h1 @ n2"
      "sorted (map iam_phase (remote_calls n2))"
      "list_all (\<lambda>e. c \<le> iam_phase e \<and> iam_phase e \<le> d) (remote_calls n2)"
      by auto
    have "sorted (map iam_phase (remote_calls (n1 @ n2)))"
      using n1(2,3) n2(2,3) le
      by (fastforce simp: remote_calls_def sorted_append list_all_iff)
    moreover have "list_all (\<lambda>e. a \<le> iam_phase e \<and> iam_phase e \<le> d) (remote_calls (n1 @ n2))"
      using weak n2(3) le by (auto simp: remote_calls_def list_all_iff)
    ultimately show ?thesis
      using n1(1) n2(1) mh Returned by (intro exI [of _ "n1 @ n2"]) (simp add: bind_io_def)
  next
    case (Thrown e)
    with mh n1 weak show ?thesis by (intro exI [of _ n1]) (simp add: bind_io_def)
  next
    case Running
    with mh n1 weak show ?thesis by (intro exI [of _ n1]) (simp add: bind_io_def)
  qed
qed

lemma ordered_case_option:
  "ordered_within lo hi m \<Longrightarrow> (\<And>y. ordered_within lo hi (f y))
     \<Longrightarrow> ordered_within lo hi (case x of None \<Rightarrow> m | Some y \<Rightarrow> f y)"
  by (cases x) simp_all

lemma removeRoleFromInstanceProfiles_ordered:
  "ordered_within 1 1 (removeRoleFromInstanceProfiles aws r ps)"
proof (induction ps)
  case Nil
  show ?case by (simp add: ordered_return)
next
  case (Cons p ps)
  show ?case
    unfolding removeRoleFromInstanceProfiles.simps
    by (intro ordered_bind [where b = 1 and c = 1] ordered_call ordered_log Cons.IH) simp_all
qed

lemma deleteRolePolicies_ordered: "ordered_within 3 3 (deleteRolePolicies aws r ns)"
proof (induction ns)
  case Nil
  show ?case by (simp add: ordered_return)
next
  case (Cons n ns)
  show ?case
    unfolding deleteRolePolicies.simps
    by (intro ordered_bind [where b = 3 and c = 3] ordered_call ordered_log Cons.IH) simp_all
qed

lemma detachAndDeletePolicies_ordered: "ordered_within 5 5 (detachAndDeletePolicies aws r ps)"
proof (induction ps)
  case Nil
  show ?case by (simp add: ordered_return)
next
  case (Cons p ps)
  show ?case
    unfolding detachAndDeletePolicies.simps
    by (intro ordered_bind [where b = 5 and c = 5] ordered_call ordered_log Cons.IH) simp_all
qed

lemma role_teardown_ordered: "ordered_within 0 6 (deleteIAMroleAndPolicy aws r)"
  unfolding deleteIAMroleAndPolicy_def
  apply (rule ordered_bind [where b = 0 and c = 1])
      apply (rule ordered_call, simp)
     apply (rule ordered_bind [where b = 1 and c = 2])
         apply (rule ordered_case_option, rule ordered_return, rule removeRoleFromInstanceProfiles_ordered)
        apply (rule ordered_bind [where b = 2 and c = 3])
            apply (rule ordered_call, simp)
           apply (rule ordered_bind [where b = 3 and c = 4])
               apply (rule ordered_case_option, rule ordered_return, rule deleteRolePolicies_ordered)
              apply (rule ordered_bind [where b = 4 and c = 5])
                  apply (rule ordered_call, simp)
                 apply (rule ordered_bind [where b = 5 and c = 6])
                     apply (rule ordered_case_option, rule ordered_return,
                            rule detachAndDeletePolicies_ordered)
                    apply (rule ordered_bind [where b = 6 and c = 6])
                        apply (rule ordered_call, simp)
                       apply (rule ordered_log)
                      apply simp_all
  done

lemma ordered_new_events:
  "ordered_within lo hi m \<Longrightarrow> sorted (map iam_phase (remote_calls (new_events m h)))"
  using ordered_withinD [of lo hi m h] by (auto simp: new_events_def)

text \<open>
  C5. Whenever \<^verbatim>\<open>deleteIAMroleAndPolicy\<close> returns, its history is: the listing of instance
  profiles and the removal of the role from each of them, the listing of inline policies
  and the deletion of each, the listing of attached policies and for each its detachment
  followed by its deletion, and last the deletion of the role; the entries are those the
  three list calls answered with, an absent field counting as no entries. It does return
  when every call of the identity service succeeds. In every run, failed or not, the
  stages of the calls issued never decrease.
\<close>

theorem deleteIAMroleAndPolicy_order:
  "(\<forall>u h'. deleteIAMroleAndPolicy aws r h = (Returned u, h') \<longrightarrow>
      (\<exists>ips pols atts.
          iam_listInstanceProfilesForRole (iam aws) h r = Inr ips
        \<and> iam_listRolePolicies (iam aws)
            (h @ [ListInstanceProfilesForRole r] @ profile_events r (entries ips)) r = Inr pols
        \<and> iam_listAttachedRolePolicies (iam aws)
            (h @ [ListInstanceProfilesForRole r] @ profile_events r (entries ips)
               @ [ListRolePolicies r] @ inline_policy_events r (entries pols)) r = Inr atts
        \<and> h' = h @ role_teardown_events r ips pols atts))
   \<and> (iam_calls_succeed aws \<longrightarrow> fst (deleteIAMroleAndPolicy aws r h) = Returned ())
   \<and> sorted (map iam_phase (remote_calls (new_events (deleteIAMroleAndPolicy aws r) h)))
   \<and> role_teardown_events r None None None =
       [ListInstanceProfilesForRole r, ListRolePolicies r, ListAttachedRolePolicies r,
        DeleteRole r, Log (''deleted role: '' @ tpl r)]"
proof (intro conjI allI impI)
  fix u h'
  assume "deleteIAMroleAndPolicy aws r h = (Returned u, h')"
  then show "\<exists>ips pols atts.
          iam_listInstanceProfilesForRole (iam aws) h r = Inr ips
        \<and> iam_listRolePolicies (iam aws)
            (h @ [ListInstanceProfilesForRole r] @ profile_events r (entries ips)) r = Inr pols
        \<and> iam_listAttachedRolePolicies (iam aws)
            (h @ [ListInstanceProfilesForRole r] @ profile_events r (entries ips)
               @ [ListRolePolicies r] @ inline_policy_events r (entries pols)) r = Inr atts
        \<and> h' = h @ role_teardown_events r ips pols atts"
    by (rule deleteIAMroleAndPolicy_returned)
next
  assume "iam_calls_succeed aws"
  then show "fst (deleteIAMroleAndPolicy aws r h) = Returned ()"
    by (rule deleteIAMroleAndPolicy_succeeds)
next
  show "sorted (map iam_phase (remote_calls (new_events (deleteIAMroleAndPolicy aws r) h)))"
    by (rule ordered_new_events [OF role_teardown_ordered])
next
  show "role_teardown_events r None None None =
       [ListInstanceProfilesForRole r, ListRolePolicies r, ListAttachedRolePolicies r,
        DeleteRole r, Log (''deleted role: '' @ tpl r)]"
    by (simp add: role_teardown_events_def entries_def profile_events_def inline_policy_events_def
          attached_policy_events_def)
qed

theorem deleteIAMroleAndPolicy_order_witness:
  "deleteIAMroleAndPolicy settled_aws (Some ''demo-role'') [] =
     (Returned (),
      [ListInstanceProfilesForRole (Some ''demo-role''),
       RemoveRoleFromInstanceProfile (Some ''demo-role'') (Some ''profile-1''),
       Log ''removed role from instance profile: profile-1'',
       ListRolePolicies (Some ''demo-role''),
       DeleteRolePolicy (Some ''demo-role'') ''inline-1'', Log ''deleted policy: inline-1'',
       DeleteRolePolicy (Some ''demo-role'') ''inline-2'', Log ''deleted policy: inline-2'',
       ListAttachedRolePolicies (Some ''demo-role''),
       DetachRolePolicy (Some ''demo-role'') (Some ''arn:aws:iam::123456789012:policy/managed-1''),
       DeletePolicy (Some ''arn:aws:iam::123456789012:policy/managed-1''),
       Log ''detached and deleted policy: managed-1'',
       DeleteRole (Some ''demo-role''), Log ''deleted role: demo-role''])
   \<and> deleteIAMroleAndPolicy bare_aws (Some ''demo-role'') [] =
     (Returned (),
      [ListInstanceProfilesForRole (Some ''demo-role''), ListRolePolicies (Some ''demo-role''),
       ListAttachedRolePolicies (Some ''demo-role''), DeleteRole (Some ''demo-role''),
       Log ''deleted role: demo-role''])"
proof -
  let ?r = "Some ''demo-role''"
  have ok1: "iam_calls_succeed settled_aws"
    by (simp add: iam_calls_succeed_def settled_aws_def demo_aws_def demo_iam_def)
  have ok2: "iam_calls_succeed bare_aws"
    by (simp add: iam_calls_succeed_def bare_aws_def bare_iam_def demo_aws_def demo_iam_def)
  note T1 = deleteIAMroleAndPolicy_order [of settled_aws ?r "[]"]
  note T2 = deleteIAMroleAndPolicy_order [of bare_aws ?r "[]"]
  from T1 ok1 have "fst (deleteIAMroleAndPolicy settled_aws ?r []) = Returned ()" by blast
  then obtain h1 where r1: "deleteIAMroleAndPolicy settled_aws ?r [] = (Returned (), h1)"
    by (cases "deleteIAMroleAndPolicy settled_aws ?r []") simp
  with T1 obtain ips pols atts where
    "iam_listInstanceProfilesForRole (iam settled_aws) [] ?r = Inr ips"
    "iam_listRolePolicies (iam settled_aws)
       ([] @ [ListInstanceProfilesForRole ?r] @ profile_events ?r (entries ips)) ?r = Inr pols"
    "iam_listAttachedRolePolicies (iam settled_aws)
       ([] @ [ListInstanceProfilesForRole ?r] @ profile_events ?r (entries ips)
          @ [ListRolePolicies ?r] @ inline_policy_events ?r (entries pols)) ?r = Inr atts"
    "h1 = [] @ role_teardown_events ?r ips pols atts"
    by blast
  then have one: "h1 = [ListInstanceProfilesForRole (Some ''demo-role''),
       RemoveRoleFromInstanceProfile (Some ''demo-role'') (Some ''profile-1''),
       Log ''removed role from instance profile: profile-1'',
       ListRolePolicies (Some ''demo-role''),
       DeleteRolePolicy (Some ''demo-role'') ''inline-1'', Log ''deleted policy: inline-1'',
       DeleteRolePolicy (Some ''demo-role'') ''inline-2'', Log ''deleted policy: inline-2'',
       ListAttachedRolePolicies (Some ''demo-role''),
       DetachRolePolicy (Some ''demo-role'') (Some ''arn:aws:iam::123456789012:policy/managed-1''),
       DeletePolicy (Some ''arn:aws:iam::123456789012:policy/managed-1''),
       Log ''detached and deleted policy: managed-1'',
       DeleteRole (Some ''demo-role''), Log ''deleted role: demo-role'']"
    by (auto simp: settled_aws_def demo_aws_def demo_iam_def role_teardown_events_def entries_def
          profile_events_def inline_policy_events_def attached_policy_events_def tpl_def)
  from T2 ok2 have "fst (deleteIAMroleAndPolicy bare_aws ?r []) = Returned ()" by blast
  then obtain h2 where r2: "deleteIAMroleAndPolicy bare_aws ?r [] = (Returned (), h2)"
    by (cases "deleteIAMroleAndPolicy bare_aws ?r []") simp
  with T2 obtain ips pols atts where
    "iam_listInstanceProfilesForRole (iam bare_aws) [] ?r = Inr ips"
    "iam_listRolePolicies (iam bare_aws)
       ([] @ [ListInstanceProfilesForRole ?r] @ profile_events ?r (entries ips)) ?r = Inr pols"
    "iam_listAttachedRolePolicies (iam bare_aws)
       ([] @ [ListInstanceProfilesForRole ?r] @ profile_events ?r (entries ips)
          @ [ListRolePolicies ?r] @ inline_policy_events ?r (entries pols)) ?r = Inr atts"
    "h2 = [] @ role_teardown_events ?r ips pols atts"
    by blast
  then have two: "h2 = [ListInstanceProfilesForRole (Some ''demo-role''), ListRolePolicies (Some ''demo-role''),
       ListAttachedRolePolicies (Some ''demo-role''), DeleteRole (Some ''demo-role''),
       Log ''deleted role: demo-role'']"
    by (auto simp: bare_aws_def bare_iam_def demo_aws_def demo_iam_def role_teardown_events_def
          entries_def profile_events_def inline_policy_events_def attached_policy_events_def tpl_def)
  from r1 one r2 two show ?thesis by simp
qed

subsection \<open>Absent buckets during teardown\<close>

lemma message_includes_Error: "message_includes e s \<Longrightarrow> instanceof_Error e"
  by (cases e) (simp_all add: message_includes_def)

lemma deleteLoggingBucket_try_cases:
  "deleteLoggingBucket_try aws pages b d h =
     (case s3_getBucketLogging (s3 aws) h b of
        Inl e \<Rightarrow>
          if message_includes e ''The specified bucket does not exist''
          then (Returned (), h @ [GetBucketLogging b,
                                  Log ''Logging Bucket not found, moving on with deletion.''])
          else (Thrown e, h @ [GetBucketLogging b])
      | Inr None \<Rightarrow> (Returned (), h @ [GetBucketLogging b])
      | Inr (Some t) \<Rightarrow>
          (case deleteS3Bucket aws pages (Some (tpl t)) d
                  (h @ [GetBucketLogging b, Log ''Deleting logging bucket...'']) of
             (Thrown e, h2) \<Rightarrow>
               if message_includes e ''The specified bucket does not exist''
               then (Returned (), h2 @ [Log ''Logging Bucket not found, moving on with deletion.''])
               else (Thrown e, h2)
           | r \<Rightarrow> r))"
  using message_includes_Error [of _ "''The specified bucket does not exist''"]
  by (auto simp: deleteLoggingBucket_try_def try_catch_def bind_io_def call_def console_log_def
        throw_def return_io_def Let_def
      split: sum.splits option.splits prod.splits outcome.splits)

lemma deleteWorkspaceBucket_try_cases:
  "deleteWorkspaceBucket_try aws pages b d h =
     (case deleteS3Bucket aws pages b d (h @ [Log ''Deleting workspace bucket...'']) of
        (Thrown e, h2) \<Rightarrow>
          if instanceof_NoSuchBucket e
          then (Returned (), h2 @ [Log (''Bucket does not exist and cannot be deleted: '' @ tpl b)])
          else (Thrown e, h2)
      | r \<Rightarrow> r)"
  by (auto simp: deleteWorkspaceBucket_try_def try_catch_def bind_io_def console_log_def throw_def
      split: prod.splits outcome.splits)

text \<open>
  C7. In \<^verbatim>\<open>deleteWorkspaceBucketAndLogs\<close>, when the logging-configuration query fails with
  a message that contains \<^verbatim>\<open>The specified bucket does not exist\<close>, the run logs the skip
  and goes on with the deletion of the bucket itself; when the query fails in any other
  way, the run ends with that error right after the query. When the deletion of the bucket
  itself throws a no-such-bucket error, the error is caught and logged and the step returns.
\<close>

theorem absent_bucket_is_not_an_error:
  "(\<forall>e. s3_getBucketLogging (s3 aws) h b = Inl e
         \<and> message_includes e ''The specified bucket does not exist'' \<longrightarrow>
        deleteWorkspaceBucketAndLogs aws pages b d h =
          deleteWorkspaceBucket_try aws pages b d
            (h @ [GetBucketLogging b, Log ''Logging Bucket not found, moving on with deletion.'']))
   \<and> (\<forall>e. s3_getBucketLogging (s3 aws) h b = Inl e
         \<and> \<not> message_includes e ''The specified bucket does not exist'' \<longrightarrow>
        deleteWorkspaceBucketAndLogs aws pages b d h = (Thrown e, h @ [GetBucketLogging b]))
   \<and> (\<forall>m h1 h2. deleteS3Bucket aws pages b d (h1 @ [Log ''Deleting workspace bucket...''])
                  = (Thrown (NoSuchBucket m), h2) \<longrightarrow>
        deleteWorkspaceBucket_try aws pages b d h1 =
          (Returned (),
           h2 @ [Log (''Bucket does not exist and cannot be deleted: '' @ tpl b)]))"
  by (auto simp: deleteWorkspaceBucketAndLogs_def deleteLoggingBucket_try_cases
        deleteWorkspaceBucket_try_cases bind_io_def)

theorem absent_bucket_is_not_an_error_witness:
  "deleteWorkspaceBucketAndLogs absent_aws 1 (Some ''demo'') True [] =
     (Returned (),
      [GetBucketLogging (Some ''demo''),
       Log ''Logging Bucket not found, moving on with deletion.'',
       Log ''Deleting workspace bucket...'',
       ListObjectsV2 (Some ''demo'') None
         (Inl (NoSuchBucket ''The specified bucket does not exist'')),
       Log ''Bucket does not exist and cannot be deleted: demo''])
   \<and> deleteWorkspaceBucketAndLogs unreadable_aws 1 (Some ''demo'') True [] =
     (Thrown (OtherError ''AccessDenied'' ''Access Denied''), [GetBucketLogging (Some ''demo'')])"
proof -
  let ?b = "Some ''demo''"
  let ?gone = "OtherError ''NoSuchBucket'' ''The specified bucket does not exist''"
  let ?h1 = "[GetBucketLogging ?b, Log ''Logging Bucket not found, moving on with deletion.'']"
  let ?h2 = "?h1 @ [Log ''Deleting workspace bucket...'',
                   ListObjectsV2 ?b None (Inl (NoSuchBucket ''The specified bucket does not exist''))]"
  note T1 = absent_bucket_is_not_an_error [of absent_aws "[]" ?b 1 True]
  note T2 = absent_bucket_is_not_an_error [of unreadable_aws "[]" ?b 1 True]
  have query: "s3_getBucketLogging (s3 absent_aws) [] ?b = Inl ?gone
               \<and> message_includes ?gone ''The specified bucket does not exist''"
    by code_simp
  have primary: "deleteS3Bucket absent_aws 1 ?b True (([] @ ?h1) @ [Log ''Deleting workspace bucket...''])
                   = (Thrown (NoSuchBucket ''The specified bucket does not exist''), ?h2)"
    by code_simp
  have refused: "s3_getBucketLogging (s3 unreadable_aws) [] ?b
                   = Inl (OtherError ''AccessDenied'' ''Access Denied'')
               \<and> \<not> message_includes (OtherError ''AccessDenied'' ''Access Denied'')
                     ''The specified bucket does not exist''"
    by code_simp
  from T1 query have "deleteWorkspaceBucketAndLogs absent_aws 1 ?b True [] =
      deleteWorkspaceBucket_try absent_aws 1 ?b True ([] @ ?h1)"
    by blast
  moreover from T1 primary have "deleteWorkspaceBucket_try absent_aws 1 ?b True ([] @ ?h1) =
      (Returned (), ?h2 @ [Log (''Bucket does not exist and cannot be deleted: '' @ tpl ?b)])"
    by blast
  ultimately have one: "deleteWorkspaceBucketAndLogs absent_aws 1 ?b True [] =
      (Returned (), ?h2 @ [Log (''Bucket does not exist and cannot be deleted: '' @ tpl ?b)])"
    by simp
  from T2 refused have two: "deleteWorkspaceBucketAndLogs unreadable_aws 1 ?b True [] =
     (Thrown (OtherError ''AccessDenied'' ''Access Denied''), [] @ [GetBucketLogging ?b])"
    by blast
  from one two show ?thesis by (simp add: tpl_def)
qed

text \<open>
  C9 does not hold as stated: the logging configuration names \<^verbatim>\<open>demo-logs\<close>, deleting it
  throws a no-such-bucket error with the message of the storage service, and
  \<^verbatim>\<open>deleteWorkspaceBucketAndLogs\<close> returns all the same.
\<close>

theorem logging_bucket_absence_counterexample:
  "s3_getBucketLogging (s3 (absent_logs_aws ''The specified bucket does not exist'')) []
       (Some ''demo'') = Inr (Some (Some ''demo-logs''))
   \<and> deleteS3Bucket (absent_logs_aws ''The specified bucket does not exist'') 2 (Some ''demo-logs'')
       True [GetBucketLogging (Some ''demo''), Log ''Deleting logging bucket...''] =
     (Thrown (NoSuchBucket ''The specified bucket does not exist''),
      [GetBucketLogging (Some ''demo''), Log ''Deleting logging bucket...'',
       ListObjectsV2 (Some ''demo-logs'') None
         (Inl (NoSuchBucket ''The specified bucket does not exist''))])
   \<and> fst (deleteWorkspaceBucketAndLogs (absent_logs_aws ''The specified bucket does not exist'') 2
            (Some ''demo'') True []) = Returned ()"
  by code_simp

text \<open>
  C9, amended. A no-such-bucket error thrown while the logging target is deleted leaves
  \<^verbatim>\<open>deleteWorkspaceBucketAndLogs\<close> unless its message contains
  \<^verbatim>\<open>The specified bucket does not exist\<close>; with that message it is logged as a skip and
  the run goes on with the deletion of the bucket itself.
\<close>

theorem logging_bucket_absence_by_message:
  "\<forall>t m h2.
      s3_getBucketLogging (s3 aws) h b = Inr (Some t)
    \<and> deleteS3Bucket aws pages (Some (tpl t)) d
        (h @ [GetBucketLogging b, Log ''Deleting logging bucket...''])
        = (Thrown (NoSuchBucket m), h2) \<longrightarrow>
      (\<not> str_includes m ''The specified bucket does not exist'' \<longrightarrow>
         deleteWorkspaceBucketAndLogs aws pages b d h = (Thrown (NoSuchBucket m), h2))
    \<and> (str_includes m ''The specified bucket does not exist'' \<longrightarrow>
         deleteWorkspaceBucketAndLogs aws pages b d h =
           deleteWorkspaceBucket_try aws pages b d
             (h2 @ [Log ''Logging Bucket not found, moving on with deletion.'']))"
  by (auto simp: deleteWorkspaceBucketAndLogs_def deleteLoggingBucket_try_cases bind_io_def
        message_includes_def)

theorem logging_bucket_absence_by_message_witness:
  "deleteWorkspaceBucketAndLogs (absent_logs_aws ''NoSuchBucket'') 2 (Some ''demo'') True [] =
     (Thrown (NoSuchBucket ''NoSuchBucket''),
      [GetBucketLogging (Some ''demo''), Log ''Deleting logging bucket...'',
       ListObjectsV2 (Some ''demo-logs'') None (Inl (NoSuchBucket ''NoSuchBucket''))])
   \<and> deleteWorkspaceBucketAndLogs (absent_logs_aws ''The specified bucket does not exist'') 2
        (Some ''demo'') True [] =
       deleteWorkspaceBucket_try (absent_logs_aws ''The specified bucket does not exist'') 2
         (Some ''demo'') True
         [GetBucketLogging (Some ''demo''), Log ''Deleting logging bucket...'',
          ListObjectsV2 (Some ''demo-logs'') None
            (Inl (NoSuchBucket ''The specified bucket does not exist'')),
          Log ''Logging Bucket not found, moving on with deletion.'']"
proof -
  let ?b = "Some ''demo''"
  let ?gone = "''The specified bucket does not exist''"
  let ?h0 = "[GetBucketLogging ?b, Log ''Deleting logging bucket...'']"
  note T1 = logging_bucket_absence_by_message [of "absent_logs_aws ''NoSuchBucket''" "[]" ?b 2 True]
  note T2 = logging_bucket_absence_by_message [of "absent_logs_aws ?gone" "[]" ?b 2 True]
  have q1: "s3_getBucketLogging (s3 (absent_logs_aws ''NoSuchBucket'')) [] ?b
              = Inr (Some (Some ''demo-logs''))"
    by code_simp
  have d1: "deleteS3Bucket (absent_logs_aws ''NoSuchBucket'') 2 (Some (tpl (Some ''demo-logs''))) True
              ([] @ ?h0)
            = (Thrown (NoSuchBucket ''NoSuchBucket''),
               ?h0 @ [ListObjectsV2 (Some ''demo-logs'') None (Inl (NoSuchBucket ''NoSuchBucket''))])"
    by code_simp
  have n1: "\<not> str_includes ''NoSuchBucket'' ?gone"
    by code_simp
  have q2: "s3_getBucketLogging (s3 (absent_logs_aws ?gone)) [] ?b = Inr (Some (Some ''demo-logs''))"
    by code_simp
  have d2: "deleteS3Bucket (absent_logs_aws ?gone) 2 (Some (tpl (Some ''demo-logs''))) True
              ([] @ ?h0)
            = (Thrown (NoSuchBucket ?gone),
               ?h0 @ [ListObjectsV2 (Some ''demo-logs'') None (Inl (NoSuchBucket ?gone))])"
    by code_simp
  have n2: "str_includes ?gone ?gone"
    by code_simp
  from T1 q1 d1 n1 have one:
    "deleteWorkspaceBucketAndLogs (absent_logs_aws ''NoSuchBucket'') 2 ?b True [] =
       (Thrown (NoSuchBucket ''NoSuchBucket''),
        ?h0 @ [ListObjectsV2 (Some ''demo-logs'') None (Inl (NoSuchBucket ''NoSuchBucket''))])"
    by blast
  from T2 q2 d2 n2 have two:
    "deleteWorkspaceBucketAndLogs (absent_logs_aws ?gone) 2 ?b True [] =
       deleteWorkspaceBucket_try (absent_logs_aws ?gone) 2 ?b True
         ((?h0 @ [ListObjectsV2 (Some ''demo-logs'') None (Inl (NoSuchBucket ?gone))])
            @ [Log ''Logging Bucket not found, moving on with deletion.''])"
    by blast
  from one two show ?thesis by simp
qed
subsection \<open>Bucket teardown and dry runs\<close>

lemma mirrorsI:
  "(\<And>h. dry (without_deletes h) = (fst (commit h), without_deletes (snd (commit h))))
     \<Longrightarrow> mirrors dry commit"
  by (simp add: mirrors_def)

lemma mirrorsD:
  "mirrors dry commit \<Longrightarrow> dry (without_deletes h) = (fst (commit h), without_deletes (snd (commit h)))"
  by (simp add: mirrors_def)

lemma mirrors_bind:
  assumes "mirrors m m'" and "\<And>x. mirrors (f x) (f' x)"
  shows "mirrors (bind_io m f) (bind_io m' f')"
proof (rule mirrorsI)
  fix h
  obtain res h1 where c: "m' h = (res, h1)" by (cases "m' h")
  with mirrorsD [OF assms(1), of h] have d: "m (without_deletes h) = (res, without_deletes h1)"
    by simp
  show "bind_io m f (without_deletes h) = (fst (bind_io m' f' h), without_deletes (snd (bind_io m' f' h)))"
    using c d mirrorsD [OF assms(2)] by (cases res) (simp_all add: bind_io_def)
qed

lemma mirrors_same_call:
  assumes "\<And>h. service (without_deletes h) = service h" and "\<And>r. \<not> is_delete (ev r)"
  shows "mirrors (call service ev) (call service ev)"
  using assms by (simp add: mirrors_def call_def Let_def without_deletes_def)

lemma mirrors_log: "mirrors (console_log s) (console_log s)"
  by (simp add: mirrors_def console_log_def without_deletes_def)

lemma mirrors_return: "mirrors (return_io x) (return_io x)"
  by (simp add: mirrors_def return_io_def)

lemma mirrors_running: "mirrors (\<lambda>h. (Running, h)) (\<lambda>h. (Running, h))"
  by (simp add: mirrors_def)

lemma mirrors_skipped_delete:
  assumes "\<And>h. service h = Inr ()" and "\<And>r. is_delete (ev r)"
  shows "mirrors (return_io ()) (call service ev)"
  using assms by (simp add: mirrors_def call_def return_io_def Let_def without_deletes_def)

lemma mirrors_case_option:
  "mirrors m m' \<Longrightarrow> (\<And>y. mirrors (f y) (f' y))
     \<Longrightarrow> mirrors (case x of None \<Rightarrow> m | Some y \<Rightarrow> f y) (case x of None \<Rightarrow> m' | Some y \<Rightarrow> f' y)"
  by (cases x) simp_all

lemma deleteObjects_mirrors:
  "deletes_succeed aws \<Longrightarrow> mirrors (deleteObjects aws b False objs) (deleteObjects aws b True objs)"
proof (induction objs)
  case Nil
  show ?case by (simp add: mirrors_return)
next
  case (Cons obj objs)
  then show ?case
    by (simp add: deletes_succeed_def)
       (intro mirrors_bind mirrors_skipped_delete mirrors_log, simp_all)
qed

lemma deleteVersions_mirrors:
  "deletes_succeed aws \<Longrightarrow> mirrors (deleteVersions aws b False vs) (deleteVersions aws b True vs)"
proof (induction vs)
  case Nil
  show ?case by (simp add: mirrors_return)
next
  case (Cons v vs)
  then show ?case
    by (simp add: deletes_succeed_def)
       (intro mirrors_bind mirrors_skipped_delete mirrors_log, simp_all)
qed

lemma deleteDeleteMarkers_mirrors:
  "deletes_succeed aws \<Longrightarrow>
     mirrors (deleteDeleteMarkers aws b False vs) (deleteDeleteMarkers aws b True vs)"
proof (induction vs)
  case Nil
  show ?case by (simp add: mirrors_return)
next
  case (Cons v vs)
  then show ?case
    by (simp add: deletes_succeed_def)
       (intro mirrors_bind mirrors_skipped_delete mirrors_log, simp_all)
qed

lemma listObjectsLoop_mirrors:
  assumes "deletes_succeed aws" and "reads_ignore_deletes aws"
  shows "mirrors (listObjectsLoop aws pages b False t tok) (listObjectsLoop aws pages b True t tok)"
proof (induction pages arbitrary: t tok)
  case 0
  show ?case by (simp add: mirrors_return mirrors_running)
next
  case (Suc pages)
  show ?case
  proof (cases "truthy t")
    case True
    then show ?thesis
      using assms(2)
      by (simp add: reads_ignore_deletes_def)
         (intro mirrors_bind mirrors_same_call mirrors_case_option mirrors_return
            deleteObjects_mirrors [OF assms(1)] Suc.IH, simp_all)
  next
    case False
    then show ?thesis by (simp add: mirrors_return)
  qed
qed

lemma listObjectVersionsLoop_mirrors:
  assumes "deletes_succeed aws" and "reads_ignore_deletes aws"
  shows "mirrors (listObjectVersionsLoop aws pages b False t v k)
           (listObjectVersionsLoop aws pages b True t v k)"
proof (induction pages arbitrary: t v k)
  case 0
  show ?case by (simp add: mirrors_return mirrors_running)
next
  case (Suc pages)
  show ?case
  proof (cases "truthy t")
    case True
    then show ?thesis
      using assms(2)
      by (simp add: reads_ignore_deletes_def)
         (intro mirrors_bind mirrors_same_call mirrors_case_option mirrors_return
            deleteVersions_mirrors [OF assms(1)] deleteDeleteMarkers_mirrors [OF assms(1)]
            Suc.IH, simp_all)
  next
    case False
    then show ?thesis by (simp add: mirrors_return)
  qed
qed

lemma deleteS3Bucket_mirrors:
  assumes "deletes_succeed aws" and "reads_ignore_deletes aws"
  shows "mirrors (deleteS3Bucket aws pages b False) (deleteS3Bucket aws pages b True)"
  using assms(1)
  by (simp add: deleteS3Bucket_def deletes_succeed_def)
     (intro mirrors_bind mirrors_skipped_delete mirrors_log
        listObjectsLoop_mirrors [OF assms] listObjectVersionsLoop_mirrors [OF assms], simp_all)


lemma mirrors_throw: "mirrors (throw e) (throw e)"
  by (simp add: mirrors_def throw_def)

lemma mirrors_try_catch:
  assumes "mirrors m m'" and "\<And>e. mirrors (f e) (f' e)"
  shows "mirrors (try_catch m f) (try_catch m' f')"
proof (rule mirrorsI)
  fix h
  obtain res h1 where c: "m' h = (res, h1)" by (cases "m' h")
  with mirrorsD [OF assms(1), of h] have d: "m (without_deletes h) = (res, without_deletes h1)"
    by simp
  show "try_catch m f (without_deletes h)
          = (fst (try_catch m' f' h), without_deletes (snd (try_catch m' f' h)))"
    using c d mirrorsD [OF assms(2)] by (cases res) (simp_all add: try_catch_def)
qed

lemma mirrors_if:
  "mirrors m m' \<Longrightarrow> mirrors n n' \<Longrightarrow> mirrors (if c then m else n) (if c then m' else n')"
  by simp

lemma deleteWorkspaceBucketAndLogs_mirrors:
  assumes "deletes_succeed aws" and "reads_ignore_deletes aws"
  shows "mirrors (deleteWorkspaceBucketAndLogs aws pages b False)
           (deleteWorkspaceBucketAndLogs aws pages b True)"
  using assms(2)
  unfolding deleteWorkspaceBucketAndLogs_def deleteLoggingBucket_try_def
    deleteWorkspaceBucket_try_def
  by (intro mirrors_bind mirrors_try_catch mirrors_same_call mirrors_case_option mirrors_return
        mirrors_log mirrors_if mirrors_throw deleteS3Bucket_mirrors [OF assms])
     (simp_all add: reads_ignore_deletes_def)

text \<open>A dry run appends no destructive call.\<close>

lemma deleteObjects_dry: "emits (\<lambda>e. \<not> is_delete e) (deleteObjects aws b False objs)"
  by (induction objs) (auto simp: emits_return)

lemma deleteVersions_dry: "emits (\<lambda>e. \<not> is_delete e) (deleteVersions aws b False vs)"
  by (induction vs) (auto simp: emits_return)

lemma deleteDeleteMarkers_dry: "emits (\<lambda>e. \<not> is_delete e) (deleteDeleteMarkers aws b False vs)"
  by (induction vs) (auto simp: emits_return)

lemma listObjectsLoop_dry:
  "emits (\<lambda>e. \<not> is_delete e) (listObjectsLoop aws pages b False t tok)"
proof (induction pages arbitrary: t tok)
  case 0
  show ?case by auto
next
  case (Suc pages)
  show ?case
    unfolding listObjectsLoop.simps
    by (intro emits_if emits_bind emits_call emits_case_option emits_return deleteObjects_dry Suc.IH)
       simp_all
qed

lemma listObjectVersionsLoop_dry:
  "emits (\<lambda>e. \<not> is_delete e) (listObjectVersionsLoop aws pages b False t v k)"
proof (induction pages arbitrary: t v k)
  case 0
  show ?case by auto
next
  case (Suc pages)
  show ?case
    unfolding listObjectVersionsLoop.simps
    by (intro emits_if emits_bind emits_call emits_case_option emits_return deleteVersions_dry
          deleteDeleteMarkers_dry Suc.IH)
       simp_all
qed

lemma deleteS3Bucket_dry: "emits (\<lambda>e. \<not> is_delete e) (deleteS3Bucket aws pages b False)"
  unfolding deleteS3Bucket_def
  by (intro emits_bind listObjectsLoop_dry listObjectVersionsLoop_dry) auto

lemma deleteWorkspaceBucketAndLogs_dry:
  "emits (\<lambda>e. \<not> is_delete e) (deleteWorkspaceBucketAndLogs aws pages b False)"
  unfolding deleteWorkspaceBucketAndLogs_def deleteLoggingBucket_try_def
    deleteWorkspaceBucket_try_def
  by (intro emits_bind emits_try_catch emits_call emits_case_option emits_return emits_log
        emits_if emits_throw deleteS3Bucket_dry)
     simp_all

lemma emits_no_deletes:
  "emits (\<lambda>e. \<not> is_delete e) m \<Longrightarrow> filter is_delete (new_events m h) = []"
  using emits_new_events [of "\<lambda>e. \<not> is_delete e" m h] by (simp add: list_all_iff filter_empty_conv)

text \<open>A committed run that returns has deleted every entry it listed, in order.\<close>

lemma deleteObjects_returned:
  "deleteObjects aws b True objs h = (Returned u, h') \<Longrightarrow>
     \<exists>new. h' = h @ new \<and> deleted_entries new = map (\<lambda>obj. (b, obj_Key obj, None)) objs
           \<and> listed_entries new = [] \<and> deleted_buckets new = []"
proof (induction objs arbitrary: h)
  case Nil
  then show ?case by (simp add: return_io_eq deleted_entries_def listed_entries_def
          deleted_buckets_def)
next
  case (Cons obj objs)
  let ?step = "[DeleteObject b (obj_Key obj) None, Log (''deleted S3 Object: '' @ tpl (obj_Key obj))]"
  from Cons.prems have "deleteObjects aws b True objs (h @ ?step) = (Returned u, h')"
    by (auto simp: bind_io_Returned call_Returned console_log_eq)
  from Cons.IH [OF this] obtain new where "h' = (h @ ?step) @ new"
    "deleted_entries new = map (\<lambda>obj. (b, obj_Key obj, None)) objs" "listed_entries new = []"
    "deleted_buckets new = []"
    by blast
  then show ?case
    by (intro exI [of _ "?step @ new"])
       (simp add: deleted_entries_def listed_entries_def deleted_buckets_def)
qed

lemma deleteVersions_returned:
  "deleteVersions aws b True vs h = (Returned u, h') \<Longrightarrow>
     \<exists>new. h' = h @ new
           \<and> deleted_entries new = map (\<lambda>version. (b, ver_Key version, ver_VersionId version)) vs
           \<and> listed_entries new = [] \<and> deleted_buckets new = []"
proof (induction vs arbitrary: h)
  case Nil
  then show ?case by (simp add: return_io_eq deleted_entries_def listed_entries_def
          deleted_buckets_def)
next
  case (Cons v vs)
  let ?step = "[DeleteObject b (ver_Key v) (ver_VersionId v),
                Log (''deleted S3 Object: '' @ tpl (ver_Key v) @ '', version: '' @ tpl (ver_VersionId v))]"
  from Cons.prems have "deleteVersions aws b True vs (h @ ?step) = (Returned u, h')"
    by (auto simp: bind_io_Returned call_Returned console_log_eq)
  from Cons.IH [OF this] obtain new where "h' = (h @ ?step) @ new"
    "deleted_entries new = map (\<lambda>version. (b, ver_Key version, ver_VersionId version)) vs"
    "listed_entries new = []" "deleted_buckets new = []"
    by blast
  then show ?case
    by (intro exI [of _ "?step @ new"])
       (simp add: deleted_entries_def listed_entries_def deleted_buckets_def)
qed

lemma deleteDeleteMarkers_returned:
  "deleteDeleteMarkers aws b True vs h = (Returned u, h') \<Longrightarrow>
     \<exists>new. h' = h @ new
           \<and> deleted_entries new = map (\<lambda>version. (b, ver_Key version, ver_VersionId version)) vs
           \<and> listed_entries new = [] \<and> deleted_buckets new = []"
proof (induction vs arbitrary: h)
  case Nil
  then show ?case by (simp add: return_io_eq deleted_entries_def listed_entries_def
          deleted_buckets_def)
next
  case (Cons v vs)
  let ?step = "[DeleteObject b (ver_Key v) (ver_VersionId v),
                Log (''deleted S3 delete marker: '' @ tpl (ver_Key v) @ '', version: ''
                       @ tpl (ver_VersionId v))]"
  from Cons.prems have "deleteDeleteMarkers aws b True vs (h @ ?step) = (Returned u, h')"
    by (auto simp: bind_io_Returned call_Returned console_log_eq)
  from Cons.IH [OF this] obtain new where "h' = (h @ ?step) @ new"
    "deleted_entries new = map (\<lambda>version. (b, ver_Key version, ver_VersionId version)) vs"
    "listed_entries new = []" "deleted_buckets new = []"
    by blast
  then show ?case
    by (intro exI [of _ "?step @ new"])
       (simp add: deleted_entries_def listed_entries_def deleted_buckets_def)
qed

lemma listObjectsLoop_returned:
  "listObjectsLoop aws pages b True t tok h = (Returned u, h') \<Longrightarrow>
     \<exists>new. h' = h @ new \<and> deleted_entries new = listed_entries new
           \<and> deleted_buckets new = []"
proof (induction pages arbitrary: t tok h)
  case 0
  then show ?case
    by (auto simp: return_io_eq deleted_entries_def listed_entries_def deleted_buckets_def
          split: if_splits)
next
  case (Suc pages)
  show ?case
  proof (cases "truthy t")
    case False
    with Suc.prems show ?thesis
      by (auto simp: return_io_eq deleted_entries_def listed_entries_def deleted_buckets_def)
  next
    case True
    with Suc.prems obtain resp u1 h2 where
      page: "s3_listObjectsV2 (s3 aws) h b tok = Inr resp"
      and inner: "(case lo_Contents resp of None \<Rightarrow> return_io ()
                   | Some contents \<Rightarrow> deleteObjects aws b True contents)
                    (h @ [ListObjectsV2 b tok (Inr resp)]) = (Returned u1, h2)"
      and rest: "listObjectsLoop aws pages b True (lo_IsTruncated resp)
                   (lo_NextContinuationToken resp) h2 = (Returned u, h')"
      by (auto simp: bind_io_Returned call_Returned)
    from inner obtain n1 where n1: "h2 = (h @ [ListObjectsV2 b tok (Inr resp)]) @ n1"
      "deleted_entries n1 = map (\<lambda>obj. (b, obj_Key obj, None)) (entries (lo_Contents resp))"
      "listed_entries n1 = []" "deleted_buckets n1 = []"
      by (cases "lo_Contents resp")
         (auto simp: return_io_eq entries_def deleted_entries_def listed_entries_def
            deleted_buckets_def
            dest: deleteObjects_returned)
    from Suc.IH [OF rest] obtain n2 where n2: "h' = h2 @ n2"
      "deleted_entries n2 = listed_entries n2" "deleted_buckets n2 = []"
      by blast
    from n1 n2 show ?thesis
      by (intro exI [of _ "[ListObjectsV2 b tok (Inr resp)] @ n1 @ n2"])
         (simp add: deleted_entries_def listed_entries_def deleted_buckets_def)
  qed
qed

lemma listObjectVersionsLoop_returned:
  "listObjectVersionsLoop aws pages b True t v k h = (Returned u, h') \<Longrightarrow>
     \<exists>new. h' = h @ new \<and> deleted_entries new = listed_entries new
           \<and> deleted_buckets new = []"
proof (induction pages arbitrary: t v k h)
  case 0
  then show ?case
    by (auto simp: return_io_eq deleted_entries_def listed_entries_def deleted_buckets_def
          split: if_splits)
next
  case (Suc pages)
  show ?case
  proof (cases "truthy t")
    case False
    with Suc.prems show ?thesis
      by (auto simp: return_io_eq deleted_entries_def listed_entries_def deleted_buckets_def)
  next
    case True
    with Suc.prems obtain resp u1 h2 u2 h3 where
      page: "s3_listObjectVersions (s3 aws) h b v k = Inr resp"
      and inner1: "(case lv_Versions resp of None \<Rightarrow> return_io ()
                   | Some versions \<Rightarrow> deleteVersions aws b True versions)
                    (h @ [ListObjectVersions b v k (Inr resp)]) = (Returned u1, h2)"
      and inner2: "(case lv_DeleteMarkers resp of None \<Rightarrow> return_io ()
                   | Some markers \<Rightarrow> deleteDeleteMarkers aws b True markers) h2 = (Returned u2, h3)"
      and rest: "listObjectVersionsLoop aws pages b True (lv_IsTruncated resp)
                   (lv_NextVersionIdMarker resp) (lv_NextKeyMarker resp) h3 = (Returned u, h')"
      by (auto simp: bind_io_Returned call_Returned)
    from inner1 obtain n1 where n1: "h2 = (h @ [ListObjectVersions b v k (Inr resp)]) @ n1"
      "deleted_entries n1 = map (\<lambda>version. (b, ver_Key version, ver_VersionId version))
                               (entries (lv_Versions resp))"
      "listed_entries n1 = []" "deleted_buckets n1 = []"
      by (cases "lv_Versions resp")
         (auto simp: return_io_eq entries_def deleted_entries_def listed_entries_def
            deleted_buckets_def
            dest: deleteVersions_returned)
    from inner2 obtain n2 where n2: "h3 = h2 @ n2"
      "deleted_entries n2 = map (\<lambda>version. (b, ver_Key version, ver_VersionId version))
                               (entries (lv_DeleteMarkers resp))"
      "listed_entries n2 = []" "deleted_buckets n2 = []"
      by (cases "lv_DeleteMarkers resp")
         (auto simp: return_io_eq entries_def deleted_entries_def listed_entries_def
            deleted_buckets_def
            dest: deleteDeleteMarkers_returned)
    from Suc.IH [OF rest] obtain n3 where n3: "h' = h3 @ n3"
      "deleted_entries n3 = listed_entries n3" "deleted_buckets n3 = []"
      by blast
    from n1 n2 n3 show ?thesis
      by (intro exI [of _ "[ListObjectVersions b v k (Inr resp)] @ n1 @ n2 @ n3"])
         (simp add: deleted_entries_def listed_entries_def deleted_buckets_def)
  qed
qed

lemma deleteS3Bucket_returned:
  assumes "deleteS3Bucket aws pages b True h = (Returned u, h')"
  shows "\<exists>new. h' = h @ new @ [DeleteBucket b, Log ([CHR 0x0A] @ ''deleted S3 Bucket: '' @ tpl b)]
           \<and> deleted_entries new = listed_entries new \<and> deleted_buckets new = []"
proof -
  from assms obtain u1 h1 u2 h2 where
    a: "listObjectsLoop aws pages b True (Some True) None h = (Returned u1, h1)"
    and b: "listObjectVersionsLoop aws pages b True (Some True) None None h1 = (Returned u2, h2)"
    and c: "h' = h2 @ [DeleteBucket b, Log ([CHR 0x0A] @ ''deleted S3 Bucket: '' @ tpl b)]"
    by (auto simp: deleteS3Bucket_def bind_io_Returned call_Returned console_log_eq)
  from listObjectsLoop_returned [OF a] obtain n1 where
    n1: "h1 = h @ n1" "deleted_entries n1 = listed_entries n1" "deleted_buckets n1 = []" by blast
  from listObjectVersionsLoop_returned [OF b] obtain n2 where
    n2: "h2 = h1 @ n2" "deleted_entries n2 = listed_entries n2" "deleted_buckets n2 = []" by blast
  from c n1 n2 show ?thesis
    by (intro exI [of _ "n1 @ n2"])
       (simp add: deleted_entries_def listed_entries_def deleted_buckets_def)
qed



text \<open>With succeeding calls, paging that ends and pages enough, the teardown of a bucket returns.\<close>

lemma deleteObjects_returns:
  "d \<longrightarrow> deletes_succeed aws \<Longrightarrow> \<exists>h'. deleteObjects aws b d objs h = (Returned (), h')"
  by (induction objs arbitrary: h)
     (auto simp: bind_io_def call_def console_log_def return_io_def deletes_succeed_def)

lemma deleteVersions_returns:
  "d \<longrightarrow> deletes_succeed aws \<Longrightarrow> \<exists>h'. deleteVersions aws b d vs h = (Returned (), h')"
  by (induction vs arbitrary: h)
     (auto simp: bind_io_def call_def console_log_def return_io_def deletes_succeed_def)

lemma deleteDeleteMarkers_returns:
  "d \<longrightarrow> deletes_succeed aws \<Longrightarrow> \<exists>h'. deleteDeleteMarkers aws b d vs h = (Returned (), h')"
  by (induction vs arbitrary: h)
     (auto simp: bind_io_def call_def console_log_def return_io_def deletes_succeed_def)

lemma listObjectsLoop_returns:
  assumes ls: "listings_succeed aws" and ds: "d \<longrightarrow> deletes_succeed aws"
    and pe: "paging_ends aws ro rv"
  shows "\<not> truthy t \<or> ro tok < pages
           \<Longrightarrow> \<exists>h'. listObjectsLoop aws pages b d t tok h = (Returned (), h')"
proof (induction pages arbitrary: t tok h)
  case 0
  then show ?case by (simp add: return_io_def)
next
  case (Suc pages)
  show ?case
  proof (cases "truthy t")
    case False
    then show ?thesis by (simp add: return_io_def)
  next
    case True
    with Suc.prems have rank: "ro tok \<le> pages" by simp
    from ls obtain resp where resp: "s3_listObjectsV2 (s3 aws) h b tok = Inr resp"
      unfolding listings_succeed_def by blast
    have "\<exists>h2. (case lo_Contents resp of None \<Rightarrow> return_io ()
                | Some contents \<Rightarrow> deleteObjects aws b d contents)
                 (h @ [ListObjectsV2 b tok (Inr resp)]) = (Returned (), h2)"
      using deleteObjects_returns [OF ds]
      by (cases "lo_Contents resp") (simp_all add: return_io_def)
    then obtain h2 where inner:
      "(case lo_Contents resp of None \<Rightarrow> return_io ()
        | Some contents \<Rightarrow> deleteObjects aws b d contents)
         (h @ [ListObjectsV2 b tok (Inr resp)]) = (Returned (), h2)"
      by blast
    have "\<not> truthy (lo_IsTruncated resp) \<or> ro (lo_NextContinuationToken resp) < pages"
      using pe resp rank unfolding paging_ends_def by (meson less_le_trans)
    from Suc.IH [OF this] obtain h' where
      "listObjectsLoop aws pages b d (lo_IsTruncated resp) (lo_NextContinuationToken resp) h2
         = (Returned (), h')"
      by blast
    with True resp inner show ?thesis
      by (simp add: bind_io_def call_def)
  qed
qed

lemma listObjectVersionsLoop_returns:
  assumes ls: "listings_succeed aws" and ds: "d \<longrightarrow> deletes_succeed aws"
    and pe: "paging_ends aws ro rv"
  shows "\<not> truthy t \<or> rv (v, k) < pages
           \<Longrightarrow> \<exists>h'. listObjectVersionsLoop aws pages b d t v k h = (Returned (), h')"
proof (induction pages arbitrary: t v k h)
  case 0
  then show ?case by (simp add: return_io_def)
next
  case (Suc pages)
  show ?case
  proof (cases "truthy t")
    case False
    then show ?thesis by (simp add: return_io_def)
  next
    case True
    with Suc.prems have rank: "rv (v, k) \<le> pages" by simp
    from ls obtain resp where resp: "s3_listObjectVersions (s3 aws) h b v k = Inr resp"
      unfolding listings_succeed_def by blast
    have "\<exists>h2. (case lv_Versions resp of None \<Rightarrow> return_io ()
                | Some versions \<Rightarrow> deleteVersions aws b d versions)
                 (h @ [ListObjectVersions b v k (Inr resp)]) = (Returned (), h2)"
      using deleteVersions_returns [OF ds]
      by (cases "lv_Versions resp") (simp_all add: return_io_def)
    then obtain h2 where inner1:
      "(case lv_Versions resp of None \<Rightarrow> return_io ()
        | Some versions \<Rightarrow> deleteVersions aws b d versions)
         (h @ [ListObjectVersions b v k (Inr resp)]) = (Returned (), h2)"
      by blast
    have "\<exists>h3. (case lv_DeleteMarkers resp of None \<Rightarrow> return_io ()
                | Some markers \<Rightarrow> deleteDeleteMarkers aws b d markers) h2 = (Returned (), h3)"
      using deleteDeleteMarkers_returns [OF ds]
      by (cases "lv_DeleteMarkers resp") (simp_all add: return_io_def)
    then obtain h3 where inner2:
      "(case lv_DeleteMarkers resp of None \<Rightarrow> return_io ()
        | Some markers \<Rightarrow> deleteDeleteMarkers aws b d markers) h2 = (Returned (), h3)"
      by blast
    have "\<not> truthy (lv_IsTruncated resp)
            \<or> rv (lv_NextVersionIdMarker resp, lv_NextKeyMarker resp) < pages"
      using pe resp rank unfolding paging_ends_def by (meson less_le_trans)
    from Suc.IH [OF this] obtain h' where
      "listObjectVersionsLoop aws pages b d (lv_IsTruncated resp) (lv_NextVersionIdMarker resp)
         (lv_NextKeyMarker resp) h3 = (Returned (), h')"
      by blast
    with True resp inner1 inner2 show ?thesis
      by (simp add: bind_io_def call_def)
  qed
qed

lemma deleteS3Bucket_returns:
  assumes ls: "listings_succeed aws" and ds: "d \<longrightarrow> deletes_succeed aws"
    and pe: "paging_ends aws ro rv"
    and pages: "ro None < pages" "rv (None, None) < pages"
  shows "\<exists>h'. deleteS3Bucket aws pages b d h = (Returned (), h')"
proof -
  from listObjectsLoop_returns [OF ls ds pe, of "Some True" None pages b h] pages(1)
  obtain h1 where a: "listObjectsLoop aws pages b d (Some True) None h = (Returned (), h1)"
    by blast
  from listObjectVersionsLoop_returns [OF ls ds pe, of "Some True" None None pages b h1] pages(2)
  obtain h2 where b: "listObjectVersionsLoop aws pages b d (Some True) None None h1
                        = (Returned (), h2)"
    by blast
  from a b ds show ?thesis
    by (cases d)
       (simp_all add: deleteS3Bucket_def bind_io_def call_def console_log_def return_io_def
          deletes_succeed_def)
qed

text \<open>The committed teardown of a bucket and of its logging target, when the calls succeed.\<close>

lemma deleteWorkspaceBucketAndLogs_commit:
  assumes ls: "listings_succeed aws" and ds: "deletes_succeed aws"
    and pe: "paging_ends aws ro rv"
    and pages: "ro None < pages" "rv (None, None) < pages"
    and lg: "s3_getBucketLogging (s3 aws) h b = Inr lg"
  shows "\<exists>new. deleteWorkspaceBucketAndLogs aws pages b True h = (Returned (), h @ new)
           \<and> deleted_entries new = listed_entries new
           \<and> deleted_buckets new = (case lg of None \<Rightarrow> [] | Some t \<Rightarrow> [Some (tpl t)]) @ [b]"
proof -
  have ds': "True \<longrightarrow> deletes_succeed aws" using ds by simp
  have run: "\<exists>new. deleteS3Bucket aws pages c True g
                     = (Returned (), g @ new @ [DeleteBucket c,
                          Log ([CHR 0x0A] @ ''deleted S3 Bucket: '' @ tpl c)])
                 \<and> deleted_entries new = listed_entries new \<and> deleted_buckets new = []" for c g
  proof -
    from deleteS3Bucket_returns [OF ls ds' pe pages, of c g]
    obtain g' where r: "deleteS3Bucket aws pages c True g = (Returned (), g')" by blast
    from deleteS3Bucket_returned [OF r] r show ?thesis by auto
  qed
  obtain n1 where first:
    "deleteLoggingBucket_try aws pages b True h = (Returned (), h @ n1)"
    "deleted_entries n1 = listed_entries n1"
    "deleted_buckets n1 = (case lg of None \<Rightarrow> [] | Some t \<Rightarrow> [Some (tpl t)])"
  proof (cases lg)
    case None
    with lg have "deleteLoggingBucket_try aws pages b True h = (Returned (), h @ [GetBucketLogging b])"
      by (simp add: deleteLoggingBucket_try_cases)
    with None that [of "[GetBucketLogging b]"] show ?thesis
      by (simp add: deleted_entries_def listed_entries_def deleted_buckets_def)
  next
    case (Some t)
    let ?g = "h @ [GetBucketLogging b, Log ''Deleting logging bucket...'']"
    let ?c = "Some (tpl t)"
    from run [of ?c ?g] obtain new where new:
      "deleteS3Bucket aws pages ?c True ?g
         = (Returned (), ?g @ new @ [DeleteBucket ?c,
                                      Log ([CHR 0x0A] @ ''deleted S3 Bucket: '' @ tpl ?c)])"
      "deleted_entries new = listed_entries new" "deleted_buckets new = []"
      by blast
    let ?n1 = "[GetBucketLogging b, Log ''Deleting logging bucket...''] @ new
                 @ [DeleteBucket ?c, Log ([CHR 0x0A] @ ''deleted S3 Bucket: '' @ tpl ?c)]"
    from lg Some new(1) have "deleteLoggingBucket_try aws pages b True h = (Returned (), h @ ?n1)"
      by (simp add: deleteLoggingBucket_try_cases)
    moreover from new(2,3) have "deleted_entries ?n1 = listed_entries ?n1"
      "deleted_buckets ?n1 = [?c]"
      by (simp_all add: deleted_entries_def listed_entries_def deleted_buckets_def)
    ultimately show ?thesis using Some that [of ?n1] by simp
  qed
  let ?g = "(h @ n1) @ [Log ''Deleting workspace bucket...'']"
  from run [of b ?g] obtain new where new:
    "deleteS3Bucket aws pages b True ?g
       = (Returned (), ?g @ new @ [DeleteBucket b,
                                    Log ([CHR 0x0A] @ ''deleted S3 Bucket: '' @ tpl b)])"
    "deleted_entries new = listed_entries new" "deleted_buckets new = []"
    by blast
  let ?n2 = "[Log ''Deleting workspace bucket...''] @ new
               @ [DeleteBucket b, Log ([CHR 0x0A] @ ''deleted S3 Bucket: '' @ tpl b)]"
  from new(1) have second:
    "deleteWorkspaceBucket_try aws pages b True (h @ n1) = (Returned (), (h @ n1) @ ?n2)"
    by (simp add: deleteWorkspaceBucket_try_cases)
  from new(2,3) have n2: "deleted_entries ?n2 = listed_entries ?n2" "deleted_buckets ?n2 = [b]"
    by (simp_all add: deleted_entries_def listed_entries_def deleted_buckets_def)
  have "deleteWorkspaceBucketAndLogs aws pages b True h = (Returned (), h @ (n1 @ ?n2))"
    using first(1) second by (simp add: deleteWorkspaceBucketAndLogs_def bind_io_def)
  moreover have "deleted_entries (n1 @ ?n2) = listed_entries (n1 @ ?n2)"
    using first(2) n2(1) by (simp add: deleted_entries_def listed_entries_def)
  moreover have "deleted_buckets (n1 @ ?n2)
                   = (case lg of None \<Rightarrow> [] | Some t \<Rightarrow> [Some (tpl t)]) @ [b]"
    using first(3) n2(2) by (simp add: deleted_buckets_def)
  ultimately show ?thesis by blast
qed

lemma deleteWorkspace_dry:
  "deleteWorkspace aws w False h = (Returned (), h @ [Log (''deleted workspace: '' @ w)])"
  by (simp add: deleteWorkspace_def try_catch_def bind_io_def return_io_def console_log_def)

lemma deleteWorkspace_commit:
  "\<exists>rest. snd (deleteWorkspace aws w True h) = h @ DeleteWorkspace w # rest"
  by (cases "tm_deleteWorkspace (tm aws) h w")
     (simp_all add: deleteWorkspace_def try_catch_def bind_io_def call_def console_log_def throw_def)


text \<open>
  C4 does not hold as stated: on a versioned bucket the listing calls of a dry run are not
  those of a committed run. Both runs return; the committed run's first deletion adds a
  delete marker, so its version listing goes on to a second page, and it issues three
  listing calls where the dry run issues two.
\<close>

theorem dry_run_listing_counterexample:
  "fst (deleteS3Bucket versioned_aws 3 (Some ''demo'') False []) = Returned ()
   \<and> fst (deleteS3Bucket versioned_aws 3 (Some ''demo'') True []) = Returned ()
   \<and> length (listing_calls (new_events (deleteS3Bucket versioned_aws 3 (Some ''demo'') False) []))
       = 2
   \<and> length (listing_calls (new_events (deleteS3Bucket versioned_aws 3 (Some ''demo'') True) []))
       = 3"
  by code_simp

text \<open>
  C4, amended. With \<^verbatim>\<open>nonDryRun\<close> false, \<^verbatim>\<open>deleteS3Bucket\<close> and
  \<^verbatim>\<open>deleteWorkspaceBucketAndLogs\<close> append no \<^verbatim>\<open>deleteObject\<close> and no \<^verbatim>\<open>deleteBucket\<close>
  call, whatever the services answer and however long the listing goes on, and
  \<^verbatim>\<open>deleteWorkspace\<close> only logs. The listing still runs: when the deletions succeed and
  the reads of the storage service do not depend on them, a dry run ends as the committed
  run does and its history is the committed one without the destructive calls. A teardown
  of a bucket, dry or committed, returns when its calls succeed, the paging ends and the
  budget of pages exceeds the ranks of the first positions. A committed run that returns has
  issued one \<^verbatim>\<open>deleteObject\<close> on that bucket for each listed object, version and delete
  marker, in the order listed, and \<^verbatim>\<open>deleteBucket\<close> once, as its last call; with
  succeeding calls \<^verbatim>\<open>deleteWorkspaceBucketAndLogs\<close> returns, having done so for the
  logging target and then for the bucket itself. A committed \<^verbatim>\<open>deleteWorkspace\<close> issues
  its call first.
\<close>

theorem dry_run_issues_no_delete:
  "filter is_delete (new_events (deleteS3Bucket aws pages b False) h) = []
   \<and> filter is_delete (new_events (deleteWorkspaceBucketAndLogs aws pages b False) h) = []
   \<and> deleteWorkspace aws w False h = (Returned (), h @ [Log (''deleted workspace: '' @ w)])
   \<and> (deletes_succeed aws \<and> reads_ignore_deletes aws \<longrightarrow>
        deleteS3Bucket aws pages b False (without_deletes h) =
          (fst (deleteS3Bucket aws pages b True h),
           without_deletes (snd (deleteS3Bucket aws pages b True h)))
      \<and> deleteWorkspaceBucketAndLogs aws pages b False (without_deletes h) =
          (fst (deleteWorkspaceBucketAndLogs aws pages b True h),
           without_deletes (snd (deleteWorkspaceBucketAndLogs aws pages b True h))))
   \<and> (listings_succeed aws \<and> (d \<longrightarrow> deletes_succeed aws) \<and> paging_ends aws ro rv
        \<and> ro None < pages \<and> rv (None, None) < pages \<longrightarrow>
        fst (deleteS3Bucket aws pages b d h) = Returned ())
   \<and> (fst (deleteS3Bucket aws pages b True h) = Returned () \<longrightarrow>
        deleted_entries (new_events (deleteS3Bucket aws pages b True) h)
          = listed_entries (new_events (deleteS3Bucket aws pages b True) h)
      \<and> deleted_buckets (new_events (deleteS3Bucket aws pages b True) h) = [b]
      \<and> (\<exists>pre. snd (deleteS3Bucket aws pages b True h) =
                 pre @ [DeleteBucket b, Log ([CHR 0x0A] @ ''deleted S3 Bucket: '' @ tpl b)]))
   \<and> (listings_succeed aws \<and> deletes_succeed aws \<and> paging_ends aws ro rv
        \<and> ro None < pages \<and> rv (None, None) < pages \<longrightarrow>
        (\<forall>lg. s3_getBucketLogging (s3 aws) h b = Inr lg \<longrightarrow>
           fst (deleteWorkspaceBucketAndLogs aws pages b True h) = Returned ()
         \<and> deleted_entries (new_events (deleteWorkspaceBucketAndLogs aws pages b True) h)
             = listed_entries (new_events (deleteWorkspaceBucketAndLogs aws pages b True) h)
         \<and> deleted_buckets (new_events (deleteWorkspaceBucketAndLogs aws pages b True) h)
             = (case lg of None \<Rightarrow> [] | Some t \<Rightarrow> [Some (tpl t)]) @ [b]))
   \<and> (\<exists>rest. snd (deleteWorkspace aws w True h) = h @ DeleteWorkspace w # rest)"
proof (intro conjI impI allI)
  show "filter is_delete (new_events (deleteS3Bucket aws pages b False) h) = []"
    by (rule emits_no_deletes [OF deleteS3Bucket_dry])
  show "filter is_delete (new_events (deleteWorkspaceBucketAndLogs aws pages b False) h) = []"
    by (rule emits_no_deletes [OF deleteWorkspaceBucketAndLogs_dry])
  show "deleteWorkspace aws w False h = (Returned (), h @ [Log (''deleted workspace: '' @ w)])"
    by (rule deleteWorkspace_dry)
  show "\<exists>rest. snd (deleteWorkspace aws w True h) = h @ DeleteWorkspace w # rest"
    by (rule deleteWorkspace_commit)
next
  assume "deletes_succeed aws \<and> reads_ignore_deletes aws"
  then show "deleteS3Bucket aws pages b False (without_deletes h) =
          (fst (deleteS3Bucket aws pages b True h),
           without_deletes (snd (deleteS3Bucket aws pages b True h)))"
    by (intro mirrorsD deleteS3Bucket_mirrors) simp_all
next
  assume "deletes_succeed aws \<and> reads_ignore_deletes aws"
  then show "deleteWorkspaceBucketAndLogs aws pages b False (without_deletes h) =
          (fst (deleteWorkspaceBucketAndLogs aws pages b True h),
           without_deletes (snd (deleteWorkspaceBucketAndLogs aws pages b True h)))"
    by (intro mirrorsD deleteWorkspaceBucketAndLogs_mirrors) simp_all
next
  assume "listings_succeed aws \<and> (d \<longrightarrow> deletes_succeed aws) \<and> paging_ends aws ro rv
        \<and> ro None < pages \<and> rv (None, None) < pages"
  then obtain h' where "deleteS3Bucket aws pages b d h = (Returned (), h')"
    using deleteS3Bucket_returns [of aws d ro rv pages b h] by blast
  then show "fst (deleteS3Bucket aws pages b d h) = Returned ()" by simp
next
  assume "fst (deleteS3Bucket aws pages b True h) = Returned ()"
  then have "deleteS3Bucket aws pages b True h = (Returned (), snd (deleteS3Bucket aws pages b True h))"
    by (simp add: prod_eq_iff)
  from deleteS3Bucket_returned [OF this] obtain new where new:
    "snd (deleteS3Bucket aws pages b True h) =
       h @ new @ [DeleteBucket b, Log ([CHR 0x0A] @ ''deleted S3 Bucket: '' @ tpl b)]"
    "deleted_entries new = listed_entries new" "deleted_buckets new = []"
    by blast
  then show "deleted_entries (new_events (deleteS3Bucket aws pages b True) h)
          = listed_entries (new_events (deleteS3Bucket aws pages b True) h)"
    and "deleted_buckets (new_events (deleteS3Bucket aws pages b True) h) = [b]"
    by (simp_all add: new_events_def deleted_entries_def listed_entries_def deleted_buckets_def)
  from new(1) show "\<exists>pre. snd (deleteS3Bucket aws pages b True h) =
                 pre @ [DeleteBucket b, Log ([CHR 0x0A] @ ''deleted S3 Bucket: '' @ tpl b)]"
    by (intro exI [of _ "h @ new"]) simp
next
  fix lg
  assume A: "listings_succeed aws \<and> deletes_succeed aws \<and> paging_ends aws ro rv
        \<and> ro None < pages \<and> rv (None, None) < pages"
    and lg: "s3_getBucketLogging (s3 aws) h b = Inr lg"
  then obtain new where new:
    "deleteWorkspaceBucketAndLogs aws pages b True h = (Returned (), h @ new)"
    "deleted_entries new = listed_entries new"
    "deleted_buckets new = (case lg of None \<Rightarrow> [] | Some t \<Rightarrow> [Some (tpl t)]) @ [b]"
    using deleteWorkspaceBucketAndLogs_commit [of aws ro rv pages h b lg] by blast
  then show "fst (deleteWorkspaceBucketAndLogs aws pages b True h) = Returned ()"
    and "deleted_entries (new_events (deleteWorkspaceBucketAndLogs aws pages b True) h)
             = listed_entries (new_events (deleteWorkspaceBucketAndLogs aws pages b True) h)"
    and "deleted_buckets (new_events (deleteWorkspaceBucketAndLogs aws pages b True) h)
             = (case lg of None \<Rightarrow> [] | Some t \<Rightarrow> [Some (tpl t)]) @ [b]"
    by (simp_all add: new_events_def)
qed

lemma settled_storage:
  "deletes_succeed settled_aws" "reads_ignore_deletes settled_aws" "listings_succeed settled_aws"
  "paging_ends settled_aws demo_object_rank demo_version_rank"
  by (auto simp: deletes_succeed_def reads_ignore_deletes_def listings_succeed_def paging_ends_def
        settled_aws_def demo_aws_def demo_s3_def demo_object_rank_def demo_version_rank_def
        truthy_def split: if_splits)

theorem dry_run_issues_no_delete_witness:
  "deleteS3Bucket settled_aws 2 (Some ''demo'') False [] =
     (Returned (), without_deletes (snd (deleteS3Bucket settled_aws 2 (Some ''demo'') True [])))
   \<and> filter is_delete (new_events (deleteS3Bucket settled_aws 2 (Some ''demo'') False) []) = []
   \<and> listed_entries (new_events (deleteS3Bucket settled_aws 2 (Some ''demo'') False) []) =
       [(Some ''demo'', Some ''a.json'', None), (Some ''demo'', Some ''b.json'', None),
        (Some ''demo'', Some ''c.json'', None), (Some ''demo'', Some ''a.json'', Some ''v1''),
        (Some ''demo'', Some ''a.json'', Some ''v2''), (Some ''demo'', Some ''d.json'', Some ''v3'')]
   \<and> deleted_entries (new_events (deleteS3Bucket settled_aws 2 (Some ''demo'') True) []) =
       [(Some ''demo'', Some ''a.json'', None), (Some ''demo'', Some ''b.json'', None),
        (Some ''demo'', Some ''c.json'', None), (Some ''demo'', Some ''a.json'', Some ''v1''),
        (Some ''demo'', Some ''a.json'', Some ''v2''), (Some ''demo'', Some ''d.json'', Some ''v3'')]
   \<and> deleted_buckets (new_events (deleteS3Bucket settled_aws 2 (Some ''demo'') True) [])
       = [Some ''demo'']
   \<and> fst (deleteWorkspaceBucketAndLogs settled_aws 2 (Some ''demo'') True []) = Returned ()
   \<and> deleted_buckets (new_events (deleteWorkspaceBucketAndLogs settled_aws 2 (Some ''demo'') True) [])
       = [Some ''demo-logs'', Some ''demo'']"
proof -
  let ?dry = "deleteS3Bucket settled_aws 2 (Some ''demo'') False"
  let ?commit = "deleteS3Bucket settled_aws 2 (Some ''demo'') True"
  let ?all = "[(Some ''demo'', Some ''a.json'', None), (Some ''demo'', Some ''b.json'', None),
        (Some ''demo'', Some ''c.json'', None), (Some ''demo'', Some ''a.json'', Some ''v1''),
        (Some ''demo'', Some ''a.json'', Some ''v2''), (Some ''demo'', Some ''d.json'', Some ''v3'')]"
  note T = dry_run_issues_no_delete [of settled_aws 2 "Some ''demo''" "[]" _ True
      demo_object_rank demo_version_rank]
  note ok = settled_storage
  have ranks: "demo_object_rank None < 2" "demo_version_rank (None, None) < 2"
    by (simp_all add: demo_object_rank_def demo_version_rank_def)
  have logging: "s3_getBucketLogging (s3 settled_aws) [] (Some ''demo'')
                   = Inr (Some (Some ''demo-logs''))"
    by code_simp
  have listed_commit: "listed_entries (new_events ?commit []) = ?all"
    by code_simp
  have listed_dry: "listed_entries (new_events ?dry []) = ?all"
    by code_simp
  from T ok ranks have returned: "fst (?commit []) = Returned ()"
    by blast
  from T ok have "?dry (without_deletes []) = (fst (?commit []), without_deletes (snd (?commit [])))"
    by blast
  with returned have one: "?dry [] = (Returned (), without_deletes (snd (?commit [])))"
    by (simp add: without_deletes_def)
  from T have two: "filter is_delete (new_events ?dry []) = []"
    by blast
  from T returned have "deleted_entries (new_events ?commit []) = listed_entries (new_events ?commit [])"
    and three: "deleted_buckets (new_events ?commit []) = [Some ''demo'']"
    by blast+
  with listed_commit have four: "deleted_entries (new_events ?commit []) = ?all"
    by simp
  from T ok ranks logging
  have five: "fst (deleteWorkspaceBucketAndLogs settled_aws 2 (Some ''demo'') True []) = Returned ()"
    and "deleted_buckets (new_events (deleteWorkspaceBucketAndLogs settled_aws 2 (Some ''demo'') True) [])
           = (case Some (Some ''demo-logs'') of None \<Rightarrow> [] | Some t \<Rightarrow> [Some (tpl t)])
             @ [Some ''demo'']"
    by blast+
  then have six:
    "deleted_buckets (new_events (deleteWorkspaceBucketAndLogs settled_aws 2 (Some ''demo'') True) [])
       = [Some ''demo-logs'', Some ''demo'']"
    by (simp add: tpl_def)
  from one two listed_dry four three five six show ?thesis by blast
qed

text \<open>A run that has ended within a budget of pages ends the same way within any larger one.\<close>

lemma bind_io_finished:
  assumes "bind_io m f h = (r, h')" and "r \<noteq> Running"
    and "\<And>x h1. f x h1 = (r, h') \<Longrightarrow> g x h1 = (r, h')"
  shows "bind_io m g h = (r, h')"
  using assms by (auto simp: bind_io_def split: prod.splits outcome.splits)

lemma listObjectsLoop_more_pages:
  "listObjectsLoop aws pages b d t tok h = (r, h') \<Longrightarrow> r \<noteq> Running
     \<Longrightarrow> listObjectsLoop aws (pages + extra) b d t tok h = (r, h')"
proof (induction pages arbitrary: t tok h)
  case 0
  then show ?case by (cases extra) (auto split: if_splits)
next
  case (Suc pages)
  note nr = Suc.prems(2)
  show ?case
  proof (cases "truthy t")
    case False
    with Suc.prems show ?thesis by simp
  next
    case True
    with Suc.prems(1) have A:
      "bind_io (call (\<lambda>h. s3_listObjectsV2 (s3 aws) h b tok) (\<lambda>r. ListObjectsV2 b tok r))
         (\<lambda>resp. bind_io (case lo_Contents resp of None \<Rightarrow> return_io ()
                            | Some contents \<Rightarrow> deleteObjects aws b d contents)
                    (\<lambda>u. listObjectsLoop aws pages b d (lo_IsTruncated resp)
                           (lo_NextContinuationToken resp))) h = (r, h')"
      by simp
    have "bind_io (call (\<lambda>h. s3_listObjectsV2 (s3 aws) h b tok) (\<lambda>r. ListObjectsV2 b tok r))
         (\<lambda>resp. bind_io (case lo_Contents resp of None \<Rightarrow> return_io ()
                            | Some contents \<Rightarrow> deleteObjects aws b d contents)
                    (\<lambda>u. listObjectsLoop aws (pages + extra) b d (lo_IsTruncated resp)
                           (lo_NextContinuationToken resp))) h = (r, h')"
    proof (rule bind_io_finished [OF A nr])
      fix x :: listObjectsV2_output and h1
      assume B: "bind_io (case lo_Contents x of None \<Rightarrow> return_io ()
                            | Some contents \<Rightarrow> deleteObjects aws b d contents)
                    (\<lambda>u. listObjectsLoop aws pages b d (lo_IsTruncated x)
                           (lo_NextContinuationToken x)) h1 = (r, h')"
      show "bind_io (case lo_Contents x of None \<Rightarrow> return_io ()
                            | Some contents \<Rightarrow> deleteObjects aws b d contents)
                    (\<lambda>u. listObjectsLoop aws (pages + extra) b d (lo_IsTruncated x)
                           (lo_NextContinuationToken x)) h1 = (r, h')"
      proof (rule bind_io_finished [OF B nr])
        fix y h2
        assume "listObjectsLoop aws pages b d (lo_IsTruncated x) (lo_NextContinuationToken x) h2
                  = (r, h')"
        then show "listObjectsLoop aws (pages + extra) b d (lo_IsTruncated x)
                     (lo_NextContinuationToken x) h2 = (r, h')"
          using nr by (rule Suc.IH)
      qed
    qed
    with True show ?thesis by simp
  qed
qed

lemma listObjectVersionsLoop_more_pages:
  "listObjectVersionsLoop aws pages b d t v k h = (r, h') \<Longrightarrow> r \<noteq> Running
     \<Longrightarrow> listObjectVersionsLoop aws (pages + extra) b d t v k h = (r, h')"
proof (induction pages arbitrary: t v k h)
  case 0
  then show ?case by (cases extra) (auto split: if_splits)
next
  case (Suc pages)
  note nr = Suc.prems(2)
  show ?case
  proof (cases "truthy t")
    case False
    with Suc.prems show ?thesis by simp
  next
    case True
    with Suc.prems(1) have A:
      "bind_io (call (\<lambda>h. s3_listObjectVersions (s3 aws) h b v k)
                  (\<lambda>r. ListObjectVersions b v k r))
         (\<lambda>resp. bind_io (case lv_Versions resp of None \<Rightarrow> return_io ()
                            | Some versions \<Rightarrow> deleteVersions aws b d versions)
           (\<lambda>u. bind_io (case lv_DeleteMarkers resp of None \<Rightarrow> return_io ()
                            | Some markers \<Rightarrow> deleteDeleteMarkers aws b d markers)
             (\<lambda>u. listObjectVersionsLoop aws pages b d (lv_IsTruncated resp)
                     (lv_NextVersionIdMarker resp) (lv_NextKeyMarker resp)))) h = (r, h')"
      by simp
    have "bind_io (call (\<lambda>h. s3_listObjectVersions (s3 aws) h b v k)
                  (\<lambda>r. ListObjectVersions b v k r))
         (\<lambda>resp. bind_io (case lv_Versions resp of None \<Rightarrow> return_io ()
                            | Some versions \<Rightarrow> deleteVersions aws b d versions)
           (\<lambda>u. bind_io (case lv_DeleteMarkers resp of None \<Rightarrow> return_io ()
                            | Some markers \<Rightarrow> deleteDeleteMarkers aws b d markers)
             (\<lambda>u. listObjectVersionsLoop aws (pages + extra) b d (lv_IsTruncated resp)
                     (lv_NextVersionIdMarker resp) (lv_NextKeyMarker resp)))) h = (r, h')"
    proof (rule bind_io_finished [OF A nr])
      fix x :: listObjectVersions_output and h1
      assume B: "bind_io (case lv_Versions x of None \<Rightarrow> return_io ()
                            | Some versions \<Rightarrow> deleteVersions aws b d versions)
           (\<lambda>u. bind_io (case lv_DeleteMarkers x of None \<Rightarrow> return_io ()
                            | Some markers \<Rightarrow> deleteDeleteMarkers aws b d markers)
             (\<lambda>u. listObjectVersionsLoop aws pages b d (lv_IsTruncated x)
                     (lv_NextVersionIdMarker x) (lv_NextKeyMarker x))) h1 = (r, h')"
      show "bind_io (case lv_Versions x of None \<Rightarrow> return_io ()
                            | Some versions \<Rightarrow> deleteVersions aws b d versions)
           (\<lambda>u. bind_io (case lv_DeleteMarkers x of None \<Rightarrow> return_io ()
                            | Some markers \<Rightarrow> deleteDeleteMarkers aws b d markers)
             (\<lambda>u. listObjectVersionsLoop aws (pages + extra) b d (lv_IsTruncated x)
                     (lv_NextVersionIdMarker x) (lv_NextKeyMarker x))) h1 = (r, h')"
      proof (rule bind_io_finished [OF B nr])
        fix y h2
        assume C: "bind_io (case lv_DeleteMarkers x of None \<Rightarrow> return_io ()
                            | Some markers \<Rightarrow> deleteDeleteMarkers aws b d markers)
             (\<lambda>u. listObjectVersionsLoop aws pages b d (lv_IsTruncated x)
                     (lv_NextVersionIdMarker x) (lv_NextKeyMarker x)) h2 = (r, h')"
        show "bind_io (case lv_DeleteMarkers x of None \<Rightarrow> return_io ()
                            | Some markers \<Rightarrow> deleteDeleteMarkers aws b d markers)
             (\<lambda>u. listObjectVersionsLoop aws (pages + extra) b d (lv_IsTruncated x)
                     (lv_NextVersionIdMarker x) (lv_NextKeyMarker x)) h2 = (r, h')"
        proof (rule bind_io_finished [OF C nr])
          fix z h3
          assume "listObjectVersionsLoop aws pages b d (lv_IsTruncated x)
                     (lv_NextVersionIdMarker x) (lv_NextKeyMarker x) h3 = (r, h')"
          then show "listObjectVersionsLoop aws (pages + extra) b d (lv_IsTruncated x)
                     (lv_NextVersionIdMarker x) (lv_NextKeyMarker x) h3 = (r, h')"
            using nr by (rule Suc.IH)
        qed
      qed
    qed
    with True show ?thesis by simp
  qed
qed

lemma bind_io_finished_both:
  assumes "bind_io m f h = (r, h')" and "r \<noteq> Running"
    and "\<And>x h1. m h = (x, h1) \<Longrightarrow> x \<noteq> Running \<Longrightarrow> m' h = (x, h1)"
    and "\<And>x h1. f x h1 = (r, h') \<Longrightarrow> g x h1 = (r, h')"
  shows "bind_io m' g h = (r, h')"
proof -
  obtain res h1 where mh: "m h = (res, h1)" by (cases "m h")
  with assms(1,2) have "res \<noteq> Running" by (auto simp: bind_io_def)
  with assms(3) mh have "m' h = (res, h1)" by blast
  with mh assms(1,4) show ?thesis
    by (cases res) (auto simp: bind_io_def)
qed

lemma deleteS3Bucket_more_pages:
  assumes run: "deleteS3Bucket aws pages b d h = (r, h')" and nr: "r \<noteq> Running"
  shows "deleteS3Bucket aws (pages + extra) b d h = (r, h')"
  unfolding deleteS3Bucket_def
proof (rule bind_io_finished_both [OF run [unfolded deleteS3Bucket_def] nr])
  fix x h1
  assume "listObjectsLoop aws pages b d (Some True) None h = (x, h1)" and "x \<noteq> Running"
  then show "listObjectsLoop aws (pages + extra) b d (Some True) None h = (x, h1)"
    by (rule listObjectsLoop_more_pages)
next
  fix x h1
  assume B: "bind_io (listObjectVersionsLoop aws pages b d (Some True) None None)
        (\<lambda>u. bind_io (if d then call (\<lambda>h. s3_deleteBucket (s3 aws) h b) (\<lambda>r. DeleteBucket b)
                       else return_io ())
               (\<lambda>u. console_log ([CHR 0x0A] @ ''deleted S3 Bucket: '' @ tpl b))) h1 = (r, h')"
  show "bind_io (listObjectVersionsLoop aws (pages + extra) b d (Some True) None None)
        (\<lambda>u. bind_io (if d then call (\<lambda>h. s3_deleteBucket (s3 aws) h b) (\<lambda>r. DeleteBucket b)
                       else return_io ())
               (\<lambda>u. console_log ([CHR 0x0A] @ ''deleted S3 Bucket: '' @ tpl b))) h1 = (r, h')"
  proof (rule bind_io_finished_both [OF B nr])
    fix y h2
    assume "listObjectVersionsLoop aws pages b d (Some True) None None h1 = (y, h2)"
      and "y \<noteq> Running"
    then show "listObjectVersionsLoop aws (pages + extra) b d (Some True) None None h1 = (y, h2)"
      by (rule listObjectVersionsLoop_more_pages)
  qed
qed

end
